theory Spec2Isabelle
  imports Main "HOL-Library.Sublist" "HOL-Library.Multiset"
begin

section \<open>Strings\<close>

text \<open>
  Go strings are modelled as lists of bytes and restricted to ASCII text: \<open>ToLower\<close>
  maps the letters A to Z, \<open>TrimSpace\<close> removes the six ASCII white-space bytes, and
  \<open>EqualFold\<close> compares the lower-cased strings. On ASCII input these agree with
  the functions of the Go package \<open>strings\<close>; on other input the Go functions also
  treat the white space and the letters of Unicode, which the model does not. The
  properties that depend on the outcome of these functions are therefore stated for
  ASCII text, \<open>isASCII\<close>: every byte is below 128.
\<close>

definition isASCII :: "string \<Rightarrow> bool" where
  "isASCII s = list_all (\<lambda>c. (of_char c :: nat) < 128) s"

definition lowerChar :: "char \<Rightarrow> char" where
  "lowerChar c =
     (let n = (of_char c :: nat) in if 65 \<le> n \<and> n \<le> 90 then char_of (n + 32) else c)"

definition ToLower :: "string \<Rightarrow> string" where
  "ToLower s = map lowerChar s"

definition isSpace :: "char \<Rightarrow> bool" where
  "isSpace c = (let n = (of_char c :: nat) in (9 \<le> n \<and> n \<le> 13) \<or> n = 32)"

definition TrimSpace :: "string \<Rightarrow> string" where
  "TrimSpace s = rev (dropWhile isSpace (rev (dropWhile isSpace s)))"

definition HasPrefix :: "string \<Rightarrow> string \<Rightarrow> bool" where
  "HasPrefix s p = prefix p s"

definition EqualFold :: "string \<Rightarrow> string \<Rightarrow> bool" where
  "EqualFold s t = (ToLower s = ToLower t)"

definition Contains :: "string \<Rightarrow> string \<Rightarrow> bool" where
  "Contains s sub = list_ex (\<lambda>t. prefix sub t) (suffixes s)"

section \<open>Numbers in text\<close>

text \<open>
  \<open>strconv.Atoi\<close>: an optional sign, then one or more decimal digits; anything else,
  and a value outside the 64-bit range, is an error (\<open>None\<close>).
\<close>

definition isDigit :: "char \<Rightarrow> bool" where
  "isDigit c = (let n = (of_char c :: nat) in 48 \<le> n \<and> n \<le> 57)"

definition digitsValue :: "string \<Rightarrow> int" where
  "digitsValue ds = foldl (\<lambda>n ch. n * 10 + (int (of_char ch) - 48)) 0 ds"

definition Atoi :: "string \<Rightarrow> int option" where
  "Atoi s =
     (case s of
        [] \<Rightarrow> None
      | c # cs \<Rightarrow>
          (let neg = (c = CHR ''-'');
               ds = (if c = CHR ''-'' \<or> c = CHR ''+'' then cs else s)
           in if ds = [] \<or> \<not> list_all isDigit ds then None
              else (let v = (if neg then - digitsValue ds else digitsValue ds)
                    in if - (2 ^ 63) \<le> v \<and> v < 2 ^ 63 then Some v else None)))"

text \<open>The verb \<open>%d\<close> of \<open>fmt.Sprintf\<close>.\<close>

fun showNat :: "nat \<Rightarrow> string" where
  "showNat n =
     (if n < 10 then [char_of (48 + n)]
      else showNat (n div 10) @ [char_of (48 + n mod 10)])"

definition showInt :: "int \<Rightarrow> string" where
  "showInt i = (if i < 0 then CHR ''-'' # showNat (nat (- i)) else showNat (nat i))"

section \<open>Storage\<close>

text \<open>
  A \<open>time.Time\<close> stored in a record is represented by its instant, in nanoseconds
  counted from Go's zero time, so that \<open>IsZero\<close> is equality with 0. A
  \<open>sql.NullInt64\<close> or \<open>sql.NullString\<close> is an \<open>option\<close>.
\<close>

record Account =
  acc_ID :: int
  acc_Name :: string
  acc_Phone :: string
  acc_Address :: string
  acc_Email :: string
  acc_DecisionMaker :: string
  acc_Creator :: string
  acc_CreatedAt :: int

record Note =
  note_ID :: int
  note_Content :: string
  note_AccountID :: "int option"
  note_Creator :: string
  note_CreatedAt :: int
  note_AccountName :: "string option"

record Event =
  ev_ID :: int
  ev_Title :: string
  ev_Details :: string
  ev_EventTime :: int
  ev_AccountID :: "int option"
  ev_Creator :: string
  ev_CreatedAt :: int
  ev_AccountName :: "string option"

record Activity =
  act_ID :: int
  act_Type :: string
  act_Title :: string
  act_Details :: string
  act_CreatedAt :: int

record ImportResult =
  res_Created :: int
  res_Skipped :: int
  res_Errors :: "string list"

definition emptyAccount :: Account where
  "emptyAccount =
     \<lparr>acc_ID = 0, acc_Name = [], acc_Phone = [], acc_Address = [], acc_Email = [],
      acc_DecisionMaker = [], acc_Creator = [], acc_CreatedAt = 0\<rparr>"

datatype store_error = ErrAccountExists | ErrNotFound | ErrOther string

fun errorText :: "store_error \<Rightarrow> string" where
  "errorText ErrAccountExists = ''account already exists''"
| "errorText ErrNotFound = ''record not found''"
| "errorText (ErrOther s) = s"

text \<open>
  The database behind \<open>storage.Store\<close> is outside the program. A statement handed
  to \<open>db.ExecContext\<close> is a value of \<open>stmt\<close> carrying its bound arguments, and
  the store is represented by the statements the database has accepted, oldest first.
  What the database, the clock, the time-zone table and the file system answer during
  one \<open>Update\<close> is the record \<open>env\<close>: the program decides nothing about these
  answers, so every property is stated for an arbitrary \<open>env\<close>.
\<close>

datatype stmt =
    InsertAccount string "string option" "string option" "string option" "string option"
      string int
  | UpdateAccountRow string "string option" "string option" "string option" "string option"
      int
  | InsertNote string "int option" string int
  | InsertEvent string "string option" int "int option" string int

datatype import_outcome =
    ImportPathError string
  | ImportOpenError string
  | ImportCSVError string
  | Imported ImportResult

record config =
  cfg_Name :: string
  cfg_Timezone :: string

record env =
  env_now :: int
  env_exec :: "stmt \<Rightarrow> string + int"
  env_ListAccounts :: "store_error + Account list"
  env_searchRows :: "string \<Rightarrow> store_error + Account list"
  env_AccountByName :: "string \<Rightarrow> store_error + Account"
  env_AccountByID :: "int \<Rightarrow> store_error + Account"
  env_ListEvents :: "store_error + Event list"
  env_ListActivities :: "int \<Rightarrow> store_error + Activity list"
  env_ListAccountActivity :: "int \<Rightarrow> int \<Rightarrow> store_error + Activity list"
  env_import :: "string \<Rightarrow> string \<Rightarrow> string \<Rightarrow> import_outcome"
  env_LoadLocation :: "string \<Rightarrow> bool"
  env_ParseInLocation :: "string \<Rightarrow> string \<Rightarrow> int option"
  env_Save :: "config \<Rightarrow> string option"

definition nullString :: "string \<Rightarrow> string option" where
  "nullString s = (let t = TrimSpace s in if t = [] then None else Some t)"

definition isUniqueConstraint :: "string \<Rightarrow> bool" where
  "isUniqueConstraint err = Contains (ToLower err) ''unique''"

definition SearchAccounts :: "env \<Rightarrow> string \<Rightarrow> store_error + Account list" where
  "SearchAccounts e term =
     (let t = TrimSpace term in
      if t = [] then env_ListAccounts e else env_searchRows e (ToLower t))"

definition AccountByName :: "env \<Rightarrow> string \<Rightarrow> store_error + Account" where
  "AccountByName e name = env_AccountByName e (TrimSpace name)"

text \<open>
  The writers return the error (if any), the record as the call leaves it behind its
  pointer, and the store.
\<close>

definition CreateAccount ::
  "env \<Rightarrow> Account \<Rightarrow> stmt list \<Rightarrow> store_error option \<times> Account \<times> stmt list" where
  "CreateAccount e a db =
     (if TrimSpace (acc_Name a) = [] then (Some (ErrOther ''account name required''), a, db)
      else
        (let a1 = (if acc_CreatedAt a = 0 then a\<lparr>acc_CreatedAt := env_now e\<rparr> else a);
             q = InsertAccount (TrimSpace (acc_Name a1)) (nullString (acc_Phone a1))
                   (nullString (acc_Address a1)) (nullString (acc_Email a1))
                   (nullString (acc_DecisionMaker a1)) (acc_Creator a1) (acc_CreatedAt a1)
         in case env_exec e q of
              Inl err \<Rightarrow>
                (if isUniqueConstraint err then (Some ErrAccountExists, a1, db)
                 else (Some (ErrOther (''insert account: '' @ err)), a1, db))
            | Inr newid \<Rightarrow> (None, a1\<lparr>acc_ID := newid\<rparr>, db @ [q])))"

definition UpdateAccount ::
  "env \<Rightarrow> Account \<Rightarrow> stmt list \<Rightarrow> store_error option \<times> stmt list" where
  "UpdateAccount e a db =
     (if TrimSpace (acc_Name a) = [] then (Some (ErrOther ''account name required''), db)
      else
        (let q = UpdateAccountRow (TrimSpace (acc_Name a)) (nullString (acc_Phone a))
                   (nullString (acc_Address a)) (nullString (acc_Email a))
                   (nullString (acc_DecisionMaker a)) (acc_ID a)
         in case env_exec e q of
              Inl err \<Rightarrow>
                (if isUniqueConstraint err then (Some ErrAccountExists, db)
                 else (Some (ErrOther (''update account: '' @ err)), db))
            | Inr _ \<Rightarrow> (None, db @ [q])))"

definition CreateNote ::
  "env \<Rightarrow> Note \<Rightarrow> stmt list \<Rightarrow> store_error option \<times> stmt list" where
  "CreateNote e n db =
     (if TrimSpace (note_Content n) = [] then (Some (ErrOther ''note content required''), db)
      else
        (let created = (if note_CreatedAt n = 0 then env_now e else note_CreatedAt n);
             q = InsertNote (note_Content n) (note_AccountID n) (note_Creator n) created
         in case env_exec e q of
              Inl err \<Rightarrow> (Some (ErrOther (''insert note: '' @ err)), db)
            | Inr _ \<Rightarrow> (None, db @ [q])))"

definition CreateEvent ::
  "env \<Rightarrow> Event \<Rightarrow> stmt list \<Rightarrow> store_error option \<times> stmt list" where
  "CreateEvent e ev db =
     (if TrimSpace (ev_Title ev) = [] then (Some (ErrOther ''event title required''), db)
      else
        (let evtime = (if ev_EventTime ev = 0 then env_now e else ev_EventTime ev);
             created = (if ev_CreatedAt ev = 0 then env_now e else ev_CreatedAt ev);
             q = InsertEvent (ev_Title ev) (nullString (ev_Details ev)) evtime
                   (ev_AccountID ev) (ev_Creator ev) created
         in case env_exec e q of
              Inl err \<Rightarrow> (Some (ErrOther (''insert event: '' @ err)), db)
            | Inr _ \<Rightarrow> (None, db @ [q])))"

section \<open>Views and the navigation stack\<close>

datatype viewState =
    stateMainMenu
  | stateDashboard
  | stateAccounts
  | stateAccountDetail
  | stateCreateAccount
  | stateCreateChoice
  | stateCreateNote
  | stateCreateEvent
  | stateSettings
  | stateSettingsEditName
  | stateSettingsEditTimezone

section \<open>Menu options and the command resolver\<close>

record menuOption =
  option_id :: string
  option_keywords :: "string list"
  option_synonyms :: "string list"

definition menuDashboard :: string where "menuDashboard = ''dashboard''"
definition menuAccounts :: string where "menuAccounts = ''accounts''"
definition menuAddAccount :: string where "menuAddAccount = ''add-account''"
definition menuCreate :: string where "menuCreate = ''create''"
definition menuSettings :: string where "menuSettings = ''settings''"
definition menuQuit :: string where "menuQuit = ''quit''"

definition accountActionActivity :: string where "accountActionActivity = ''activity''"
definition accountActionAddNote :: string where "accountActionAddNote = ''add-note''"
definition accountActionAddEvent :: string where "accountActionAddEvent = ''add-event''"
definition accountActionEdit :: string where "accountActionEdit = ''edit-account''"
definition accountActionBack :: string where "accountActionBack = ''back''"

definition mainMenuOptions :: "menuOption list" where
  "mainMenuOptions =
    [ \<lparr>option_id = menuDashboard, option_keywords = [''dashboard''],
        option_synonyms = [''1'', ''d'', ''dash'', ''dashboard'']\<rparr>,
      \<lparr>option_id = menuAccounts, option_keywords = [''accounts''],
        option_synonyms = [''2'', ''accounts'', ''account'', ''view'', ''view accounts'']\<rparr>,
      \<lparr>option_id = menuAddAccount, option_keywords = [''add'', ''new''],
        option_synonyms = [''3'', ''add'', ''add account'', ''new account'']\<rparr>,
      \<lparr>option_id = menuCreate, option_keywords = [''create'', ''note'', ''event''],
        option_synonyms = [''4'', ''create'', ''note'', ''event'', ''create note'', ''create event'']\<rparr>,
      \<lparr>option_id = menuSettings, option_keywords = [''settings'', ''help''],
        option_synonyms = [''5'', ''settings'', ''help'', ''settings & help'']\<rparr>,
      \<lparr>option_id = menuQuit, option_keywords = [''quit'', ''exit''],
        option_synonyms = [''6'', ''quit'', ''exit'', ''exit.'', ''q'']\<rparr> ]"

definition accountDetailOptions :: "menuOption list" where
  "accountDetailOptions =
    [ \<lparr>option_id = accountActionActivity, option_keywords = [''activity'', ''timeline''],
        option_synonyms = [''1'', ''activity'', ''view'', ''timeline'']\<rparr>,
      \<lparr>option_id = accountActionAddNote, option_keywords = [''note''],
        option_synonyms = [''2'', ''note'', ''add note'', ''create note'']\<rparr>,
      \<lparr>option_id = accountActionAddEvent, option_keywords = [''event''],
        option_synonyms = [''3'', ''event'', ''add event'', ''create event'']\<rparr>,
      \<lparr>option_id = accountActionEdit, option_keywords = [''edit'', ''update''],
        option_synonyms = [''4'', ''edit'', ''update'']\<rparr>,
      \<lparr>option_id = accountActionBack, option_keywords = [''back'', ''close''],
        option_synonyms = [''5'', ''back'', ''exit'', ''exit.'', ''/'']\<rparr> ]"

text \<open>
  \<open>resolveMainMenuSelection\<close> and \<open>resolveAccountDetailAction\<close> are the same code
  over two tables. The first loop returns at the first option that lists the value among
  its synonyms; the second loop fills a map keyed by option id (here: a list without
  duplicates) with every option one of whose keywords starts with the value. The Go
  result \<open>(id, true)\<close> is \<open>Some id\<close>, and \<open>("", false)\<close> is \<open>None\<close>.
\<close>

fun directMatch :: "menuOption list \<Rightarrow> string \<Rightarrow> string option" where
  "directMatch [] v = None"
| "directMatch (opt # opts) v =
     (if list_ex (\<lambda>syn. v = syn) (option_synonyms opt) then Some (option_id opt)
      else directMatch opts v)"

definition keywordHit :: "string \<Rightarrow> menuOption \<Rightarrow> bool" where
  "keywordHit v opt = list_ex (\<lambda>keyword. HasPrefix keyword v) (option_keywords opt)"

fun prefixMatches :: "menuOption list \<Rightarrow> string \<Rightarrow> string list \<Rightarrow> string list" where
  "prefixMatches [] v matches = matches"
| "prefixMatches (opt # opts) v matches =
     prefixMatches opts v
       (if keywordHit v opt then List.insert (option_id opt) matches else matches)"

definition resolveIn :: "menuOption list \<Rightarrow> string \<Rightarrow> string option" where
  "resolveIn table input =
     (let v = TrimSpace (ToLower input) in
      if v = [] then None
      else case directMatch table v of
        Some i \<Rightarrow> Some i
      | None \<Rightarrow>
          (case prefixMatches table v [] of
             [i] \<Rightarrow> Some i
           | _ \<Rightarrow> None))"

definition resolveMainMenuSelection :: "string \<Rightarrow> string option" where
  "resolveMainMenuSelection input = resolveIn mainMenuOptions input"

definition resolveAccountDetailAction :: "string \<Rightarrow> string option" where
  "resolveAccountDetailAction input = resolveIn accountDetailOptions input"

section \<open>Text inputs and messages\<close>

text \<open>
  The text input of the bubbles library is outside the program. Of its state the model
  keeps the prompt, the placeholder, the character limit, the buffer and the focus flag.
  \<open>SetValue\<close> cuts the text at the character limit when there is one. A message
  is the Enter key, the Escape key, Ctrl-C, a window-size message, any other message that
  leaves the buffers alone (\<open>OtherMsg\<close>), or any other key or paste, represented
  by the buffer \<open>v\<close> that the focused input holds after the library has handled it
  (\<open>KeyOther v\<close>); an input without focus ignores it. Cursor-blink commands are
  not modelled: of the commands an update returns, only \<open>tea.Quit\<close> is kept, as a
  flag.
\<close>

record textinput =
  ti_Prompt :: string
  ti_Placeholder :: string
  ti_CharLimit :: int
  ti_value :: string
  ti_focus :: bool

datatype msg = KeyEnter | KeyEsc | KeyCtrlC | KeyOther string | WindowSizeMsg int int | OtherMsg

definition textinput_New :: textinput where
  "textinput_New =
     \<lparr>ti_Prompt = ''> '', ti_Placeholder = [], ti_CharLimit = 0, ti_value = [],
      ti_focus = False\<rparr>"

definition SetValue :: "string \<Rightarrow> textinput \<Rightarrow> textinput" where
  "SetValue s ti =
     ti\<lparr>ti_value :=
          (if 0 < ti_CharLimit ti \<and> ti_CharLimit ti < int (length s)
           then take (nat (ti_CharLimit ti)) s else s)\<rparr>"

definition Focus :: "textinput \<Rightarrow> textinput" where
  "Focus ti = ti\<lparr>ti_focus := True\<rparr>"

definition ti_Update :: "msg \<Rightarrow> textinput \<Rightarrow> textinput" where
  "ti_Update m ti =
     (case m of KeyOther v \<Rightarrow> (if ti_focus ti then ti\<lparr>ti_value := v\<rparr> else ti) | _ \<Rightarrow> ti)"

section \<open>The session model\<close>

datatype dashboardView = dashboardEvents | dashboardActivity

datatype settingsMode = settingsViewing | settingsEditingName | settingsEditingTimezone

datatype noteStage = noteStageContent | noteStageAssociatePrompt | noteStageAssociateChoose

datatype eventStage =
    eventStageTitle
  | eventStageDetails
  | eventStageSchedule
  | eventStageAssociatePrompt
  | eventStageAssociateChoose

datatype accountDetailView = accountDetailSummary | accountDetailActivity

record formField =
  ff_label :: string
  ff_value :: string
  ff_required :: bool

record accountForm =
  af_index :: int
  af_fields :: "formField list"
  af_input :: textinput
  af_err :: string
  af_editing :: bool
  af_original :: Account

record noteWizard =
  nw_stage :: noteStage
  nw_contentInput :: textinput
  nw_associateInput :: textinput
  nw_accountInput :: textinput
  nw_associate :: bool
  nw_err :: string
  nw_presetAccount :: "Account option"

record eventWizard =
  ew_stage :: eventStage
  ew_titleInput :: textinput
  ew_detailsInput :: textinput
  ew_scheduleInput :: textinput
  ew_associateInput :: textinput
  ew_accountInput :: textinput
  ew_associate :: bool
  ew_err :: string
  ew_presetAccount :: "Account option"

record dashboardModel =
  dm_view :: dashboardView
  dm_events :: "Event list"
  dm_activity :: "Activity list"

record settingsModel =
  sm_mode :: settingsMode
  sm_input :: textinput
  sm_err :: string

record accountDetailModel =
  ad_account :: Account
  ad_activity :: "Activity list"
  ad_view :: accountDetailView
  ad_err :: string

text \<open>
  The fields of the Go struct \<open>model\<close>; \<open>store\<close> and \<open>cfg\<close> stand for what the
  two pointers refer to, and the theme (constant styling) is left out.
\<close>

record model =
  state :: viewState
  prevStates :: "viewState list"
  store :: "stmt list"
  cfg :: config
  width :: int
  height :: int
  infoMessage :: string
  errMessage :: string
  showSplash :: bool
  menuInput :: textinput
  accounts :: "Account list"
  accountFilter :: textinput
  filteredAccounts :: "Account list"
  accountForm :: accountForm
  noteWizard :: noteWizard
  eventWizard :: eventWizard
  dashboard :: dashboardModel
  settings :: settingsModel
  accountDetail :: accountDetailModel

definition newAccountForm :: "Account option \<Rightarrow> accountForm" where
  "newAccountForm existing =
     (let ti = Focus (textinput_New\<lparr>ti_Placeholder := ''Account name'', ti_CharLimit := 96\<rparr>);
          form = \<lparr>af_index = 0,
                  af_fields =
                    [\<lparr>ff_label = ''Account name'', ff_value = [], ff_required = True\<rparr>,
                     \<lparr>ff_label = ''Phone'', ff_value = [], ff_required = False\<rparr>,
                     \<lparr>ff_label = ''Address'', ff_value = [], ff_required = False\<rparr>,
                     \<lparr>ff_label = ''Email'', ff_value = [], ff_required = False\<rparr>,
                     \<lparr>ff_label = ''Decision maker'', ff_value = [], ff_required = False\<rparr>],
                  af_input = ti, af_err = [], af_editing = False, af_original = emptyAccount\<rparr>
      in case existing of
           None \<Rightarrow> form
         | Some a \<Rightarrow>
             form\<lparr>af_editing := True, af_original := a,
                  af_fields :=
                    [\<lparr>ff_label = ''Account name'', ff_value = acc_Name a, ff_required = True\<rparr>,
                     \<lparr>ff_label = ''Phone'', ff_value = acc_Phone a, ff_required = False\<rparr>,
                     \<lparr>ff_label = ''Address'', ff_value = acc_Address a, ff_required = False\<rparr>,
                     \<lparr>ff_label = ''Email'', ff_value = acc_Email a, ff_required = False\<rparr>,
                     \<lparr>ff_label = ''Decision maker'', ff_value = acc_DecisionMaker a,
                        ff_required = False\<rparr>],
                  af_input := SetValue (acc_Name a) ti\<rparr>)"

definition newNoteWizard :: "Account option \<Rightarrow> noteWizard" where
  "newNoteWizard acct =
     \<lparr>nw_stage = noteStageContent,
      nw_contentInput =
        Focus (textinput_New\<lparr>ti_Placeholder := ''Note details'', ti_CharLimit := 256\<rparr>),
      nw_associateInput =
        textinput_New\<lparr>ti_Placeholder := ''Associate with account? (y/n)'', ti_CharLimit := 5\<rparr>,
      nw_accountInput =
        textinput_New\<lparr>ti_Placeholder := ''Type account name'', ti_CharLimit := 96\<rparr>,
      nw_associate = False, nw_err = [], nw_presetAccount = acct\<rparr>"

definition newEventWizard :: "Account option \<Rightarrow> eventWizard" where
  "newEventWizard acct =
     \<lparr>ew_stage = eventStageTitle,
      ew_titleInput =
        Focus (textinput_New\<lparr>ti_Placeholder := ''Event title'', ti_CharLimit := 96\<rparr>),
      ew_detailsInput =
        textinput_New\<lparr>ti_Placeholder := ''Details (optional)'', ti_CharLimit := 256\<rparr>,
      ew_scheduleInput =
        textinput_New\<lparr>ti_Placeholder := ''YYYY-MM-DD HH:MM (blank = now)'', ti_CharLimit := 32\<rparr>,
      ew_associateInput =
        textinput_New\<lparr>ti_Placeholder := ''Associate with account? (y/n)'', ti_CharLimit := 5\<rparr>,
      ew_accountInput =
        textinput_New\<lparr>ti_Placeholder := ''Type account name'', ti_CharLimit := 96\<rparr>,
      ew_associate = False, ew_err = [], ew_presetAccount = acct\<rparr>"

subsection \<open>Navigation helpers\<close>

definition pushState :: "viewState \<Rightarrow> model \<Rightarrow> model" where
  "pushState next m = m\<lparr>prevStates := prevStates m @ [state m], state := next\<rparr>"

definition popState :: "model \<Rightarrow> model" where
  "popState m =
     (if prevStates m = [] then m\<lparr>state := stateMainMenu\<rparr>
      else m\<lparr>state := last (prevStates m), prevStates := butlast (prevStates m)\<rparr>)"

definition resetMessages :: "model \<Rightarrow> model" where
  "resetMessages m = m\<lparr>errMessage := [], infoMessage := []\<rparr>"

definition setMenuInput :: "string \<Rightarrow> int \<Rightarrow> model \<Rightarrow> model" where
  "setMenuInput placeholder limit m =
     (let input = textinput_New\<lparr>ti_Prompt := [], ti_Placeholder := placeholder\<rparr>;
          input1 = (if 0 < limit then input\<lparr>ti_CharLimit := limit\<rparr> else input)
      in m\<lparr>menuInput := Focus input1\<rparr>)"

definition ensureMenuInput :: "string \<Rightarrow> int \<Rightarrow> model \<Rightarrow> model" where
  "ensureMenuInput placeholder limit m =
     (if TrimSpace (ti_Placeholder (menuInput m)) = placeholder \<and>
         (limit \<le> 0 \<or> ti_CharLimit (menuInput m) = limit)
      then (if \<not> ti_focus (menuInput m) then m\<lparr>menuInput := Focus (menuInput m)\<rparr> else m)
      else setMenuInput placeholder limit m)"

definition isExitCommand :: "string \<Rightarrow> bool" where
  "isExitCommand v0 = (let v = TrimSpace (ToLower v0) in v = ''exit.'' \<or> v = ''quit'')"

definition isBackCommand :: "string \<Rightarrow> bool" where
  "isBackCommand v0 = (let v = TrimSpace (ToLower v0) in v = ''/'' \<or> v = ''back'')"

subsection \<open>The account selection resolver\<close>

fun countPrefix :: "Account list \<Rightarrow> string \<Rightarrow> Account \<times> int \<Rightarrow> Account \<times> int" where
  "countPrefix [] q mc = mc"
| "countPrefix (a # as) q (match, n) =
     countPrefix as q
       (if HasPrefix (ToLower (acc_Name a)) q then (a, n + 1) else (match, n))"

definition resolveAccountSelection :: "model \<Rightarrow> string \<Rightarrow> Account option" where
  "resolveAccountSelection m input =
     (if accounts m = [] \<and> filteredAccounts m = [] then None
      else
        (let trimmed = TrimSpace input in
         if trimmed = [] then
           (case filteredAccounts m of [a] \<Rightarrow> Some a | _ \<Rightarrow> None)
         else
           (let lower = ToLower trimmed;
                query =
                  (if HasPrefix lower ''open '' then TrimSpace (drop 5 trimmed)
                   else if HasPrefix lower ''view '' then TrimSpace (drop 5 trimmed)
                   else if HasPrefix lower ''select '' then TrimSpace (drop 7 trimmed)
                   else if HasPrefix lower ''#'' then TrimSpace (drop 1 trimmed)
                   else trimmed);
                byIndex =
                  (case Atoi query of
                     Some idx \<Rightarrow>
                       (if 0 < idx \<and> idx \<le> int (length (filteredAccounts m))
                        then Some (filteredAccounts m ! nat (idx - 1)) else None)
                   | None \<Rightarrow> None)
            in case byIndex of
                 Some a \<Rightarrow> Some a
               | None \<Rightarrow>
                   (case List.find (\<lambda>a. EqualFold (acc_Name a) query)
                           (filteredAccounts m @ accounts m) of
                      Some a \<Rightarrow> Some a
                    | None \<Rightarrow>
                        (let queryLower = ToLower query;
                             mc1 = countPrefix (filteredAccounts m) queryLower (emptyAccount, 0)
                         in if snd mc1 = 1 then Some (fst mc1)
                            else (let mc2 = countPrefix (accounts m) queryLower mc1
                                  in if snd mc2 = 1 then Some (fst mc2) else None))))))"

subsection \<open>Loading from storage\<close>

definition Join :: "string list \<Rightarrow> string \<Rightarrow> string" where
  "Join parts sep = (case parts of [] \<Rightarrow> [] | x # xs \<Rightarrow> foldl (\<lambda>acc y. acc @ sep @ y) x xs)"

definition cfgLocation :: "env \<Rightarrow> config \<Rightarrow> string" where
  "cfgLocation e c = (if env_LoadLocation e (cfg_Timezone c) then cfg_Timezone c else ''UTC'')"

definition refreshAccounts :: "env \<Rightarrow> model \<Rightarrow> model" where
  "refreshAccounts e m =
     (case env_ListAccounts e of
        Inl err \<Rightarrow> m\<lparr>errMessage := ''load accounts: '' @ errorText err\<rparr>
      | Inr accts \<Rightarrow>
          (let m1 = m\<lparr>accounts := accts\<rparr>;
               filter = TrimSpace (ti_value (accountFilter m1))
           in if filter = [] then m1\<lparr>filteredAccounts := accts\<rparr>
              else (case SearchAccounts e filter of
                      Inl err \<Rightarrow> m1\<lparr>errMessage := ''search accounts: '' @ errorText err\<rparr>
                    | Inr filtered \<Rightarrow> m1\<lparr>filteredAccounts := filtered\<rparr>)))"

definition refreshDashboard :: "env \<Rightarrow> model \<Rightarrow> model" where
  "refreshDashboard e m =
     (let m1 = (case env_ListEvents e of
                  Inl err \<Rightarrow> m\<lparr>errMessage := ''load events: '' @ errorText err\<rparr>
                | Inr evs \<Rightarrow> m\<lparr>dashboard := (dashboard m)\<lparr>dm_events := evs\<rparr>\<rparr>)
      in case env_ListActivities e 50 of
           Inl err \<Rightarrow> m1\<lparr>errMessage := ''load activity: '' @ errorText err\<rparr>
         | Inr acts \<Rightarrow> m1\<lparr>dashboard := (dashboard m1)\<lparr>dm_activity := acts\<rparr>\<rparr>)"

definition refreshAccountDetailAccount :: "env \<Rightarrow> model \<Rightarrow> model" where
  "refreshAccountDetailAccount e m =
     (if acc_ID (ad_account (accountDetail m)) = 0 then m
      else (case env_AccountByID e (acc_ID (ad_account (accountDetail m))) of
              Inl err \<Rightarrow>
                m\<lparr>accountDetail := (accountDetail m)\<lparr>ad_err := ''load account: '' @ errorText err\<rparr>\<rparr>
            | Inr a \<Rightarrow> m\<lparr>accountDetail := (accountDetail m)\<lparr>ad_account := a\<rparr>\<rparr>))"

definition loadAccountActivity :: "env \<Rightarrow> model \<Rightarrow> model" where
  "loadAccountActivity e m =
     (if acc_ID (ad_account (accountDetail m)) = 0
      then m\<lparr>accountDetail := (accountDetail m)\<lparr>ad_activity := []\<rparr>\<rparr>
      else (case env_ListAccountActivity e (acc_ID (ad_account (accountDetail m))) 50 of
              Inl err \<Rightarrow>
                m\<lparr>accountDetail := (accountDetail m)\<lparr>ad_err := ''load activity: '' @ errorText err\<rparr>\<rparr>
            | Inr acts \<Rightarrow>
                m\<lparr>accountDetail := (accountDetail m)\<lparr>ad_err := [], ad_activity := acts\<rparr>\<rparr>))"

definition detailPlaceholder :: string where
  "detailPlaceholder = ''1=Activity  2=Add note  3=Add event  4=Edit  5=Back''"

definition openAccountDetail :: "env \<Rightarrow> Account \<Rightarrow> model \<Rightarrow> model" where
  "openAccountDetail e a m =
     (let m1 = m\<lparr>accountDetail :=
                  (accountDetail m)\<lparr>ad_account := a, ad_view := accountDetailSummary,
                                     ad_activity := [], ad_err := []\<rparr>\<rparr>
      in setMenuInput detailPlaceholder 64
           (pushState stateAccountDetail (refreshAccountDetailAccount e m1)))"

definition handleAccountImport :: "env \<Rightarrow> string \<Rightarrow> model \<Rightarrow> model" where
  "handleAccountImport e path m =
     (let m1 = m\<lparr>infoMessage := []\<rparr>; trimmed = TrimSpace path
      in if trimmed = [] then m1\<lparr>errMessage := ''Provide a CSV path''\<rparr>
         else (case env_import e trimmed (cfg_Name (cfg m1)) (cfgLocation e (cfg m1)) of
                 ImportPathError err \<Rightarrow> m1\<lparr>errMessage := ''import path: '' @ err\<rparr>
               | ImportOpenError err \<Rightarrow> m1\<lparr>errMessage := ''open file: '' @ err\<rparr>
               | ImportCSVError err \<Rightarrow> m1\<lparr>errMessage := ''import csv: '' @ err\<rparr>
               | Imported r \<Rightarrow>
                   (let parts = [''Imported '' @ showInt (res_Created r) @ '' account(s)''] @
                                (if 0 < res_Skipped r
                                 then [''skipped '' @ showInt (res_Skipped r)] else [])
                    in m1\<lparr>infoMessage := Join parts '', '',
                           errMessage := (if res_Errors r \<noteq> [] then Join (res_Errors r) ''; ''
                                          else [])\<rparr>)))"

definition homeInput :: "model \<Rightarrow> model" where
  "homeInput m = setMenuInput ''Choose an option'' 32 m"

text \<open>The recurring three lines: clear the history, go to the main menu, renew its input.\<close>

definition exitToMainMenu :: "model \<Rightarrow> model" where
  "exitToMainMenu m = homeInput (m\<lparr>prevStates := [], state := stateMainMenu\<rparr>)"

text \<open>The recurring \<open>popState\<close> followed by a new menu input when the main menu is reached.\<close>

definition popAndFocus :: "model \<Rightarrow> model" where
  "popAndFocus m = (let m1 = popState m in if state m1 = stateMainMenu then homeInput m1 else m1)"

subsection \<open>Main menu\<close>

definition mainMenuAction :: "env \<Rightarrow> string \<Rightarrow> model \<Rightarrow> model \<times> bool" where
  "mainMenuAction e action m =
     (if action = menuDashboard then
        (setMenuInput ''Command (t=toggle, r=refresh, /, exit.)'' 48
           (refreshDashboard e (pushState stateDashboard (resetMessages m))), False)
      else if action = menuAccounts then
        (let m1 = pushState stateAccounts (resetMessages m);
             m2 = (if \<not> ti_focus (accountFilter m1)
                   then m1\<lparr>accountFilter := Focus (accountFilter m1)\<rparr> else m1)
         in (refreshAccounts e m2, False))
      else if action = menuAddAccount then
        (pushState stateCreateAccount ((resetMessages m)\<lparr>accountForm := newAccountForm None\<rparr>),
         False)
      else if action = menuCreate then
        (setMenuInput ''1=Note  2=Event  3=Back'' 32
           (pushState stateCreateChoice (resetMessages m)), False)
      else if action = menuSettings then
        (setMenuInput ''1=Name  2=Timezone  3=Back'' 40
           (pushState stateSettings
              ((resetMessages m)\<lparr>settings :=
                 \<lparr>sm_mode = settingsViewing,
                  sm_input = textinput_New\<lparr>ti_CharLimit := 96, ti_Prompt := []\<rparr>,
                  sm_err = []\<rparr>\<rparr>)), False)
      else if action = menuQuit then (m, True)
      else (m, False))"

definition updateMainMenu :: "env \<Rightarrow> msg \<Rightarrow> model \<Rightarrow> model \<times> bool" where
  "updateMainMenu e k m =
     (let m1 = ensureMenuInput ''Choose an option'' 32 m;
          m2 = m1\<lparr>menuInput := ti_Update k (menuInput m1)\<rparr>
      in if k = KeyEnter then
           (let choice = TrimSpace (ToLower (ti_value (menuInput m2)));
                m3 = m2\<lparr>menuInput := SetValue [] (menuInput m2), showSplash := False\<rparr>
            in case resolveMainMenuSelection choice of
                 None \<Rightarrow>
                   (if choice = [] \<or> choice = ''0'' then (m3, False)
                    else (m3\<lparr>errMessage := ''Unknown choice''\<rparr>, False))
               | Some action \<Rightarrow> mainMenuAction e action m3)
         else (m2, False))"

subsection \<open>Account list\<close>

definition applyFilter :: "env \<Rightarrow> model \<Rightarrow> model" where
  "applyFilter e m =
     (let filter = TrimSpace (ti_value (accountFilter m))
      in if filter = [] then m\<lparr>filteredAccounts := accounts m\<rparr>
         else (case SearchAccounts e filter of
                 Inl err \<Rightarrow> m
               | Inr accts \<Rightarrow> m\<lparr>filteredAccounts := accts\<rparr>))"

definition clearFilter :: "model \<Rightarrow> model" where
  "clearFilter m = m\<lparr>accountFilter := SetValue [] (accountFilter m)\<rparr>"

definition accountsEnter :: "env \<Rightarrow> model \<Rightarrow> model" where
  "accountsEnter e m =
     (let v = TrimSpace (ti_value (accountFilter m))
      in if isExitCommand v then exitToMainMenu (clearFilter m)
         else if isBackCommand v then popAndFocus (clearFilter m)
         else
           (let trimmedValue = TrimSpace v
            in if HasPrefix (ToLower trimmedValue) ''import '' then
                 refreshAccounts e
                   (clearFilter (handleAccountImport e (TrimSpace (drop 7 trimmedValue)) m))
               else (case resolveAccountSelection m trimmedValue of
                       Some a \<Rightarrow> openAccountDetail e a (clearFilter m)
                     | None \<Rightarrow> applyFilter e (refreshAccounts e m))))"

definition updateAccounts :: "env \<Rightarrow> msg \<Rightarrow> model \<Rightarrow> model" where
  "updateAccounts e k m =
     (let m1 = m\<lparr>accountFilter := ti_Update k (accountFilter m)\<rparr>
      in case k of
           KeyEnter \<Rightarrow> accountsEnter e m1
         | KeyEsc \<Rightarrow> popAndFocus m1
         | _ \<Rightarrow> applyFilter e m1)"

subsection \<open>Account form\<close>

text \<open>
  Indexing \<open>fields[index]\<close> panics outside the slice; the form handler returns
  \<open>None\<close> for the panic.
\<close>

definition fieldAt :: "formField list \<Rightarrow> int \<Rightarrow> formField option" where
  "fieldAt fs i = (if 0 \<le> i \<and> i < int (length fs) then Some (fs ! nat i) else None)"

definition buildAccount :: "formField list \<Rightarrow> Account \<Rightarrow> Account" where
  "buildAccount fs base =
     (let a0 = (if 0 < length fs then base\<lparr>acc_Name := ff_value (fs ! 0)\<rparr> else base);
          a1 = (if 1 < length fs then a0\<lparr>acc_Phone := ff_value (fs ! 1)\<rparr> else a0);
          a2 = (if 2 < length fs then a1\<lparr>acc_Address := ff_value (fs ! 2)\<rparr> else a1);
          a3 = (if 3 < length fs then a2\<lparr>acc_Email := ff_value (fs ! 3)\<rparr> else a2)
      in if 4 < length fs then a3\<lparr>acc_DecisionMaker := ff_value (fs ! 4)\<rparr> else a3)"

definition formFocus :: "model \<Rightarrow> model" where
  "formFocus m =
     (if state m = stateMainMenu then homeInput m
      else if state m = stateAccountDetail then setMenuInput detailPlaceholder 64 m
      else m)"

definition formCancel :: "model \<Rightarrow> model" where
  "formCancel m =
     (let f = accountForm m;
          f1 = (if af_editing f then newAccountForm (Some (af_original f)) else newAccountForm None)
      in formFocus (popState (m\<lparr>accountForm := f1\<rparr>)))"

definition formDuplicate :: "string \<Rightarrow> model \<Rightarrow> model option" where
  "formDuplicate shown m =
     (let f = accountForm m;
          f1 = f\<lparr>af_err := ''An account with that name already exists'', af_index := 0,
                 af_input := SetValue shown (af_input f)\<rparr>
      in case fieldAt (af_fields f1) 0 of
           None \<Rightarrow> None
         | Some first \<Rightarrow>
             Some (m\<lparr>accountForm := f1\<lparr>af_input := (af_input f1)\<lparr>ti_Placeholder := ff_label first\<rparr>\<rparr>\<rparr>))"

definition formSaved :: "env \<Rightarrow> model \<Rightarrow> model" where
  "formSaved e m =
     (let m1 = formFocus (popState (m\<lparr>accountForm := newAccountForm None\<rparr>));
          m2 = refreshAccounts e m1
      in if state m2 = stateAccountDetail then loadAccountActivity e m2 else m2)"

definition formSubmit :: "env \<Rightarrow> model \<Rightarrow> model option" where
  "formSubmit e m =
     (let f = accountForm m;
          base = (if af_editing f then af_original f else emptyAccount);
          a = buildAccount (af_fields f) base
      in if af_editing f then
           (case UpdateAccount e a (store m) of
              (Some err, db) \<Rightarrow>
                (if err = ErrAccountExists then formDuplicate (acc_Name a) (m\<lparr>store := db\<rparr>)
                 else Some (m\<lparr>store := db, accountForm := f\<lparr>af_err := errorText err\<rparr>\<rparr>))
            | (None, db) \<Rightarrow>
                (let m1 = m\<lparr>store := db,
                              infoMessage := ''Account '' @ [CHR 0x27] @ acc_Name a @ [CHR 0x27] @ '' updated''\<rparr>;
                     m2 = refreshAccountDetailAccount e
                            (m1\<lparr>accountDetail := (accountDetail m1)\<lparr>ad_account := a\<rparr>\<rparr>)
                 in Some (formSaved e m2)))
         else
           (let a1 = a\<lparr>acc_Creator := cfg_Name (cfg m), acc_CreatedAt := env_now e\<rparr>
            in case CreateAccount e a1 (store m) of
                 (Some err, a2, db) \<Rightarrow>
                   (if err = ErrAccountExists then formDuplicate [] (m\<lparr>store := db\<rparr>)
                    else Some (m\<lparr>store := db, accountForm := f\<lparr>af_err := errorText err\<rparr>\<rparr>))
               | (None, a2, db) \<Rightarrow>
                   Some (formSaved e
                     (m\<lparr>store := db,
                        infoMessage := ''Account '' @ [CHR 0x27] @ acc_Name a2 @ [CHR 0x27] @ '' created''\<rparr>))))"

definition formEnter :: "env \<Rightarrow> model \<Rightarrow> model option" where
  "formEnter e m =
     (let f = accountForm m; v = TrimSpace (ti_value (af_input f))
      in if isExitCommand v then Some (exitToMainMenu (m\<lparr>accountForm := newAccountForm None\<rparr>))
         else if isBackCommand v then
           (if af_index f = 0 then Some (formCancel m)
            else (case fieldAt (af_fields f) (af_index f - 1) of
                    None \<Rightarrow> None
                  | Some prev \<Rightarrow>
                      Some (m\<lparr>accountForm :=
                              f\<lparr>af_index := af_index f - 1,
                                af_input := SetValue (ff_value prev)
                                              ((af_input f)\<lparr>ti_Placeholder := ff_label prev\<rparr>),
                                af_err := []\<rparr>\<rparr>)))
         else (case fieldAt (af_fields f) (af_index f) of
                 None \<Rightarrow> None
               | Some cur \<Rightarrow>
                   (if ff_required cur \<and> v = [] then
                      Some (m\<lparr>accountForm := f\<lparr>af_err := ''This field is required''\<rparr>\<rparr>)
                    else
                      (let f1 = f\<lparr>af_fields := (af_fields f)[nat (af_index f) := cur\<lparr>ff_value := v\<rparr>],
                                   af_input := SetValue [] (af_input f), af_err := []\<rparr>
                       in if int (length (af_fields f1)) - 1 \<le> af_index f1 then
                            formSubmit e (m\<lparr>accountForm := f1\<rparr>)
                          else (case fieldAt (af_fields f1) (af_index f1 + 1) of
                                  None \<Rightarrow> None
                                | Some nxt \<Rightarrow>
                                    Some (m\<lparr>accountForm :=
                                            f1\<lparr>af_index := af_index f1 + 1,
                                               af_input := SetValue (ff_value nxt)
                                                 ((af_input f1)\<lparr>ti_Placeholder := ff_label nxt\<rparr>)\<rparr>\<rparr>))))))"

definition updateAccountForm :: "env \<Rightarrow> msg \<Rightarrow> model \<Rightarrow> model option" where
  "updateAccountForm e k m =
     (let m1 = m\<lparr>accountForm := (accountForm m)\<lparr>af_input := ti_Update k (af_input (accountForm m))\<rparr>\<rparr>
      in case k of
           KeyEnter \<Rightarrow> formEnter e m1
         | KeyEsc \<Rightarrow> Some (formCancel m1)
         | _ \<Rightarrow> Some m1)"

subsection \<open>Account detail\<close>

definition detailAction :: "env \<Rightarrow> string \<Rightarrow> model \<Rightarrow> model" where
  "detailAction e action m =
     (let d = accountDetail m in
      if action = accountActionActivity then
        loadAccountActivity e (m\<lparr>accountDetail := d\<lparr>ad_view := accountDetailActivity\<rparr>\<rparr>)
      else if action = accountActionAddNote then
        pushState stateCreateNote
          (m\<lparr>accountDetail := d\<lparr>ad_view := accountDetailSummary\<rparr>,
             noteWizard := newNoteWizard (Some (ad_account d))\<rparr>)
      else if action = accountActionAddEvent then
        pushState stateCreateEvent
          (m\<lparr>accountDetail := d\<lparr>ad_view := accountDetailSummary\<rparr>,
             eventWizard := newEventWizard (Some (ad_account d))\<rparr>)
      else if action = accountActionEdit then
        pushState stateCreateAccount
          (m\<lparr>accountDetail := d\<lparr>ad_view := accountDetailSummary\<rparr>,
             accountForm := newAccountForm (Some (ad_account d))\<rparr>)
      else if action = accountActionBack then popAndFocus m
      else m)"

definition updateAccountDetail :: "env \<Rightarrow> msg \<Rightarrow> model \<Rightarrow> model" where
  "updateAccountDetail e k m =
     (let m1 = ensureMenuInput detailPlaceholder 64 m;
          m2 = m1\<lparr>menuInput := ti_Update k (menuInput m1)\<rparr>
      in case k of
           KeyEnter \<Rightarrow>
             (let choice = TrimSpace (ToLower (ti_value (menuInput m2)));
                  m3 = m2\<lparr>menuInput := SetValue [] (menuInput m2)\<rparr>
              in case resolveAccountDetailAction choice of
                   None \<Rightarrow>
                     (if choice = [] then m3
                      else m3\<lparr>accountDetail := (accountDetail m3)\<lparr>ad_err := ''Unknown choice''\<rparr>\<rparr>)
                 | Some action \<Rightarrow>
                     detailAction e action
                       (m3\<lparr>accountDetail := (accountDetail m3)\<lparr>ad_err := []\<rparr>\<rparr>))
         | KeyEsc \<Rightarrow> popAndFocus m2
         | _ \<Rightarrow> m2)"

subsection \<open>Create choice\<close>

definition updateCreateChoice :: "env \<Rightarrow> msg \<Rightarrow> model \<Rightarrow> model" where
  "updateCreateChoice e k m =
     (let m1 = ensureMenuInput ''1=Note  2=Event  3=Back'' 32 m;
          m2 = m1\<lparr>menuInput := ti_Update k (menuInput m1)\<rparr>
      in if k = KeyEnter then
           (let input = TrimSpace (ToLower (ti_value (menuInput m2)));
                m3 = m2\<lparr>menuInput := SetValue [] (menuInput m2)\<rparr>
            in if input = ''1'' \<or> input = ''note'' \<or> input = ''n'' then
                 m3\<lparr>noteWizard := newNoteWizard None, state := stateCreateNote\<rparr>
               else if input = ''2'' \<or> input = ''event'' \<or> input = ''e'' then
                 m3\<lparr>eventWizard := newEventWizard None, state := stateCreateEvent\<rparr>
               else if input = ''3'' \<or> input = ''back'' \<or> input = ''/'' then popAndFocus m3
               else if input = ''exit.'' \<or> input = ''exit'' \<or> input = ''quit'' then
                 exitToMainMenu m3
               else m3\<lparr>errMessage := ''Choose 1 for note or 2 for event''\<rparr>)
         else m2)"

subsection \<open>Note wizard\<close>

definition ensureFocus :: "textinput \<Rightarrow> textinput" where
  "ensureFocus ti = (if \<not> ti_focus ti then Focus ti else ti)"

definition saveNote :: "env \<Rightarrow> int option \<Rightarrow> model \<Rightarrow> store_error option \<times> model" where
  "saveNote e accountID m =
     (let n = \<lparr>note_ID = 0,
               note_Content = TrimSpace (ti_value (nw_contentInput (noteWizard m))),
               note_AccountID = accountID,
               note_Creator = cfg_Name (cfg m),
               note_CreatedAt = env_now e,
               note_AccountName = None\<rparr>
      in case CreateNote e n (store m) of (err, db) \<Rightarrow> (err, m\<lparr>store := db\<rparr>))"

definition completeNoteSave :: "env \<Rightarrow> string \<Rightarrow> model \<Rightarrow> model" where
  "completeNoteSave e message m =
     (let m1 = popState (m\<lparr>noteWizard := newNoteWizard None, infoMessage := message\<rparr>);
          m2 = (if state m1 = stateAccountDetail
                then loadAccountActivity e (refreshAccountDetailAccount e m1)
                else if state m1 = stateMainMenu then homeInput m1
                else m1)
      in refreshDashboard e m2)"

definition noteSetErr :: "string \<Rightarrow> model \<Rightarrow> model" where
  "noteSetErr s m = m\<lparr>noteWizard := (noteWizard m)\<lparr>nw_err := s\<rparr>\<rparr>"

definition noteSetStage :: "noteStage \<Rightarrow> model \<Rightarrow> model" where
  "noteSetStage st m = m\<lparr>noteWizard := (noteWizard m)\<lparr>nw_stage := st\<rparr>\<rparr>"

definition noteSaveThen :: "env \<Rightarrow> int option \<Rightarrow> string \<Rightarrow> model \<Rightarrow> model" where
  "noteSaveThen e accountID message m =
     (case saveNote e accountID m of
        (Some err, m1) \<Rightarrow> noteSetErr (errorText err) m1
      | (None, m1) \<Rightarrow> completeNoteSave e message m1)"

definition noteExit :: "model \<Rightarrow> model" where
  "noteExit m = exitToMainMenu (m\<lparr>noteWizard := newNoteWizard None\<rparr>)"

definition noteContentEnter :: "env \<Rightarrow> model \<Rightarrow> model" where
  "noteContentEnter e m =
     (let v = TrimSpace (ti_value (nw_contentInput (noteWizard m)))
      in if isExitCommand v then noteExit m
         else if isBackCommand v then popAndFocus (m\<lparr>noteWizard := newNoteWizard None\<rparr>)
         else if v = [] then noteSetErr ''Note cannot be empty'' m
         else
           (let m1 = noteSetErr [] m
            in case nw_presetAccount (noteWizard m1) of
                 Some preset \<Rightarrow>
                   (let name = (if acc_Name preset = []
                                then acc_Name (ad_account (accountDetail m1))
                                else acc_Name preset);
                        message = (if name \<noteq> [] then ''Note saved for '' @ name
                                   else ''Note saved'')
                    in noteSaveThen e (Some (acc_ID preset)) message m1)
               | None \<Rightarrow> noteSetStage noteStageAssociatePrompt m1))"

definition notePromptEnter :: "env \<Rightarrow> model \<Rightarrow> model" where
  "notePromptEnter e m =
     (let v = ToLower (TrimSpace (ti_value (nw_associateInput (noteWizard m))));
          m1 = m\<lparr>noteWizard :=
                  (noteWizard m)\<lparr>nw_associateInput := SetValue [] (nw_associateInput (noteWizard m))\<rparr>\<rparr>
      in if isExitCommand v then noteExit m1
         else if isBackCommand v then noteSetStage noteStageContent m1
         else if v = ''y'' \<or> v = ''yes'' then
           m1\<lparr>noteWizard := (noteWizard m1)\<lparr>nw_associate := True,
                                             nw_stage := noteStageAssociateChoose\<rparr>\<rparr>
         else if v = ''n'' \<or> v = ''no'' \<or> v = [] then
           noteSaveThen e None ''Note saved''
             (m1\<lparr>noteWizard := (noteWizard m1)\<lparr>nw_associate := False\<rparr>\<rparr>)
         else noteSetErr ''Please answer y or n'' m1)"

definition noteChooseEnter :: "env \<Rightarrow> model \<Rightarrow> model" where
  "noteChooseEnter e m =
     (let v = TrimSpace (ti_value (nw_accountInput (noteWizard m)))
      in if isExitCommand v then noteExit m
         else if isBackCommand v then noteSetStage noteStageAssociatePrompt m
         else if v = [] then noteSaveThen e None ''Note saved'' m
         else (case AccountByName e v of
                 Inl err \<Rightarrow> noteSetErr ''Account not found'' m
               | Inr a \<Rightarrow>
                   noteSaveThen e (Some (acc_ID a)) (''Note saved for '' @ acc_Name a) m))"

definition updateNoteWizard :: "env \<Rightarrow> msg \<Rightarrow> model \<Rightarrow> model" where
  "updateNoteWizard e k m =
     (let w = noteWizard m in
      case nw_stage w of
        noteStageContent \<Rightarrow>
          (let m1 = m\<lparr>noteWizard :=
                       w\<lparr>nw_contentInput := ti_Update k (ensureFocus (nw_contentInput w))\<rparr>\<rparr>
           in if k = KeyEnter then noteContentEnter e m1 else m1)
      | noteStageAssociatePrompt \<Rightarrow>
          (let m1 = m\<lparr>noteWizard :=
                       w\<lparr>nw_associateInput := ti_Update k (ensureFocus (nw_associateInput w))\<rparr>\<rparr>
           in if k = KeyEnter then notePromptEnter e m1 else m1)
      | noteStageAssociateChoose \<Rightarrow>
          (let m1 = m\<lparr>noteWizard :=
                       w\<lparr>nw_accountInput := ti_Update k (ensureFocus (nw_accountInput w))\<rparr>\<rparr>
           in if k = KeyEnter then noteChooseEnter e m1 else m1))"

subsection \<open>Event wizard\<close>

definition saveEvent :: "env \<Rightarrow> int option \<Rightarrow> model \<Rightarrow> store_error option \<times> model" where
  "saveEvent e accountID m =
     (let w = eventWizard m;
          title = TrimSpace (ti_value (ew_titleInput w));
          details = TrimSpace (ti_value (ew_detailsInput w));
          scheduleStr = TrimSpace (ti_value (ew_scheduleInput w));
          loc = cfgLocation e (cfg m);
          parsed = (if scheduleStr = [] then Some (env_now e)
                    else env_ParseInLocation e scheduleStr loc)
      in case parsed of
           None \<Rightarrow> (Some (ErrOther ''invalid schedule format''), m)
         | Some eventTime \<Rightarrow>
             (let ev = \<lparr>ev_ID = 0, ev_Title = title, ev_Details = details,
                        ev_EventTime = eventTime, ev_AccountID = accountID,
                        ev_Creator = cfg_Name (cfg m), ev_CreatedAt = env_now e,
                        ev_AccountName = None\<rparr>
              in case CreateEvent e ev (store m) of (err, db) \<Rightarrow> (err, m\<lparr>store := db\<rparr>)))"

definition completeEventSave :: "env \<Rightarrow> string \<Rightarrow> model \<Rightarrow> model" where
  "completeEventSave e message m =
     (let m1 = popState (m\<lparr>eventWizard := newEventWizard None, infoMessage := message\<rparr>);
          m2 = (if state m1 = stateAccountDetail
                then loadAccountActivity e (refreshAccountDetailAccount e m1)
                else if state m1 = stateMainMenu then homeInput m1
                else m1)
      in refreshDashboard e m2)"

definition eventSetErr :: "string \<Rightarrow> model \<Rightarrow> model" where
  "eventSetErr s m = m\<lparr>eventWizard := (eventWizard m)\<lparr>ew_err := s\<rparr>\<rparr>"

definition eventSetStage :: "eventStage \<Rightarrow> model \<Rightarrow> model" where
  "eventSetStage st m = m\<lparr>eventWizard := (eventWizard m)\<lparr>ew_stage := st\<rparr>\<rparr>"

definition eventSaveThen :: "env \<Rightarrow> int option \<Rightarrow> string \<Rightarrow> model \<Rightarrow> model" where
  "eventSaveThen e accountID message m =
     (case saveEvent e accountID m of
        (Some err, m1) \<Rightarrow> eventSetErr (errorText err) m1
      | (None, m1) \<Rightarrow> completeEventSave e message m1)"

definition eventExit :: "model \<Rightarrow> model" where
  "eventExit m = exitToMainMenu (m\<lparr>eventWizard := newEventWizard None\<rparr>)"

definition eventTitleEnter :: "env \<Rightarrow> model \<Rightarrow> model" where
  "eventTitleEnter e m =
     (let v = TrimSpace (ti_value (ew_titleInput (eventWizard m)))
      in if isExitCommand v then eventExit m
         else if isBackCommand v then popAndFocus (m\<lparr>eventWizard := newEventWizard None\<rparr>)
         else if v = [] then eventSetErr ''Title is required'' m
         else eventSetStage eventStageDetails (eventSetErr [] m))"

definition eventDetailsEnter :: "env \<Rightarrow> model \<Rightarrow> model" where
  "eventDetailsEnter e m =
     (let v = TrimSpace (ti_value (ew_detailsInput (eventWizard m)))
      in if isExitCommand v then eventExit m
         else if isBackCommand v then eventSetStage eventStageTitle m
         else eventSetStage eventStageSchedule m)"

definition eventScheduleEnter :: "env \<Rightarrow> model \<Rightarrow> model" where
  "eventScheduleEnter e m =
     (let v = TrimSpace (ti_value (ew_scheduleInput (eventWizard m)))
      in if isExitCommand v then eventExit m
         else if isBackCommand v then eventSetStage eventStageDetails m
         else if v \<noteq> [] \<and> env_ParseInLocation e v (cfgLocation e (cfg m)) = None then
           eventSetErr ''Use format YYYY-MM-DD HH:MM'' m
         else
           (let m1 = eventSetErr [] m
            in case ew_presetAccount (eventWizard m1) of
                 Some preset \<Rightarrow>
                   (let name = (if acc_Name preset = []
                                then acc_Name (ad_account (accountDetail m1))
                                else acc_Name preset);
                        message = (if name \<noteq> [] then ''Event created for '' @ name
                                   else ''Event created'')
                    in eventSaveThen e (Some (acc_ID preset)) message m1)
               | None \<Rightarrow> eventSetStage eventStageAssociatePrompt m1))"

definition eventPromptEnter :: "env \<Rightarrow> model \<Rightarrow> model" where
  "eventPromptEnter e m =
     (let v = ToLower (TrimSpace (ti_value (ew_associateInput (eventWizard m))));
          m1 = m\<lparr>eventWizard :=
                  (eventWizard m)\<lparr>ew_associateInput := SetValue [] (ew_associateInput (eventWizard m))\<rparr>\<rparr>
      in if isExitCommand v then eventExit m1
         else if isBackCommand v then eventSetStage eventStageSchedule m1
         else if v = ''y'' \<or> v = ''yes'' then
           m1\<lparr>eventWizard := (eventWizard m1)\<lparr>ew_associate := True,
                                               ew_stage := eventStageAssociateChoose\<rparr>\<rparr>
         else if v = ''n'' \<or> v = ''no'' \<or> v = [] then
           eventSaveThen e None ''Event created''
             (m1\<lparr>eventWizard := (eventWizard m1)\<lparr>ew_associate := False\<rparr>\<rparr>)
         else eventSetErr ''Please answer y or n'' m1)"

definition eventChooseEnter :: "env \<Rightarrow> model \<Rightarrow> model" where
  "eventChooseEnter e m =
     (let v = TrimSpace (ti_value (ew_accountInput (eventWizard m)))
      in if isExitCommand v then eventExit m
         else if isBackCommand v then eventSetStage eventStageAssociatePrompt m
         else if v = [] then eventSaveThen e None ''Event created'' m
         else (case AccountByName e v of
                 Inl err \<Rightarrow> eventSetErr ''Account not found'' m
               | Inr a \<Rightarrow>
                   eventSaveThen e (Some (acc_ID a)) (''Event created for '' @ acc_Name a) m))"

definition updateEventWizard :: "env \<Rightarrow> msg \<Rightarrow> model \<Rightarrow> model" where
  "updateEventWizard e k m =
     (let w = eventWizard m in
      case ew_stage w of
        eventStageTitle \<Rightarrow>
          (let m1 = m\<lparr>eventWizard :=
                       w\<lparr>ew_titleInput := ti_Update k (ensureFocus (ew_titleInput w))\<rparr>\<rparr>
           in if k = KeyEnter then eventTitleEnter e m1 else m1)
      | eventStageDetails \<Rightarrow>
          (let m1 = m\<lparr>eventWizard :=
                       w\<lparr>ew_detailsInput := ti_Update k (ensureFocus (ew_detailsInput w))\<rparr>\<rparr>
           in if k = KeyEnter then eventDetailsEnter e m1 else m1)
      | eventStageSchedule \<Rightarrow>
          (let m1 = m\<lparr>eventWizard :=
                       w\<lparr>ew_scheduleInput := ti_Update k (ensureFocus (ew_scheduleInput w))\<rparr>\<rparr>
           in if k = KeyEnter then eventScheduleEnter e m1 else m1)
      | eventStageAssociatePrompt \<Rightarrow>
          (let m1 = m\<lparr>eventWizard :=
                       w\<lparr>ew_associateInput := ti_Update k (ensureFocus (ew_associateInput w))\<rparr>\<rparr>
           in if k = KeyEnter then eventPromptEnter e m1 else m1)
      | eventStageAssociateChoose \<Rightarrow>
          (let m1 = m\<lparr>eventWizard :=
                       w\<lparr>ew_accountInput := ti_Update k (ensureFocus (ew_accountInput w))\<rparr>\<rparr>
           in if k = KeyEnter then eventChooseEnter e m1 else m1))"

subsection \<open>Dashboard\<close>

definition updateDashboard :: "env \<Rightarrow> msg \<Rightarrow> model \<Rightarrow> model" where
  "updateDashboard e k m =
     (let m1 = ensureMenuInput ''Command (t=toggle, r=refresh, /, exit.)'' 48 m;
          m2 = m1\<lparr>menuInput := ti_Update k (menuInput m1)\<rparr>
      in if k = KeyEnter then
           (let command = TrimSpace (ToLower (ti_value (menuInput m2)));
                m3 = m2\<lparr>menuInput := SetValue [] (menuInput m2)\<rparr>
            in if command = ''t'' \<or> command = ''toggle'' then
                 m3\<lparr>dashboard :=
                      (dashboard m3)\<lparr>dm_view :=
                         (if dm_view (dashboard m3) = dashboardEvents then dashboardActivity
                          else dashboardEvents)\<rparr>\<rparr>
               else if command = ''r'' \<or> command = ''refresh'' then refreshDashboard e m3
               else if command = ''/'' \<or> command = ''back'' then popAndFocus m3
               else if command = ''exit.'' \<or> command = ''exit'' \<or> command = ''quit'' then
                 exitToMainMenu m3
               else if command = [] then m3
               else m3\<lparr>errMessage := ''Unknown dashboard command''\<rparr>)
         else m2)"

subsection \<open>Settings\<close>

definition settingsSetErr :: "string \<Rightarrow> model \<Rightarrow> model" where
  "settingsSetErr s m = m\<lparr>settings := (settings m)\<lparr>sm_err := s\<rparr>\<rparr>"

definition settingsSetMode :: "settingsMode \<Rightarrow> model \<Rightarrow> model" where
  "settingsSetMode md m = m\<lparr>settings := (settings m)\<lparr>sm_mode := md\<rparr>\<rparr>"

definition settingsEdit :: "settingsMode \<Rightarrow> string \<Rightarrow> model \<Rightarrow> model" where
  "settingsEdit md shown m =
     m\<lparr>settings :=
         (settings m)\<lparr>sm_mode := md,
                       sm_input := Focus (SetValue shown
                                     (textinput_New\<lparr>ti_Prompt := [], ti_CharLimit := 64\<rparr>))\<rparr>\<rparr>"

definition settingsSaved :: "env \<Rightarrow> string \<Rightarrow> model \<Rightarrow> model" where
  "settingsSaved e message m =
     (case env_Save e (cfg m) of
        Some err \<Rightarrow> settingsSetErr err m
      | None \<Rightarrow>
          m\<lparr>infoMessage := message,
            settings := (settings m)\<lparr>sm_err := [], sm_mode := settingsViewing\<rparr>\<rparr>)"

definition settingsViewingEnter :: "env \<Rightarrow> model \<Rightarrow> model" where
  "settingsViewingEnter e m =
     (let v = TrimSpace (ToLower (ti_value (menuInput m)));
          m1 = m\<lparr>menuInput := SetValue [] (menuInput m)\<rparr>
      in if v = ''1'' \<or> v = ''name'' then settingsEdit settingsEditingName (cfg_Name (cfg m1)) m1
         else if v = ''2'' \<or> v = ''timezone'' then
           settingsEdit settingsEditingTimezone (cfg_Timezone (cfg m1)) m1
         else if v = ''3'' \<or> v = ''back'' \<or> v = ''/'' then popAndFocus m1
         else if v = ''exit.'' \<or> v = ''exit'' \<or> v = ''quit'' then exitToMainMenu m1
         else settingsSetErr ''Choose 1 or 2 to edit settings'' m1)"

definition settingsNameEnter :: "env \<Rightarrow> model \<Rightarrow> model" where
  "settingsNameEnter e m =
     (let v = TrimSpace (ti_value (sm_input (settings m)))
      in if isExitCommand v then exitToMainMenu m
         else if isBackCommand v then settingsSetMode settingsViewing m
         else if v = [] then settingsSetErr ''Name cannot be empty'' m
         else settingsSaved e ''Name updated'' (m\<lparr>cfg := (cfg m)\<lparr>cfg_Name := v\<rparr>\<rparr>))"

definition settingsTimezoneEnter :: "env \<Rightarrow> model \<Rightarrow> model" where
  "settingsTimezoneEnter e m =
     (let v = TrimSpace (ti_value (sm_input (settings m)))
      in if isExitCommand v then exitToMainMenu m
         else if isBackCommand v then settingsSetMode settingsViewing m
         else if v = [] then settingsSetErr ''Timezone cannot be empty'' m
         else if \<not> env_LoadLocation e v then settingsSetErr ''Invalid timezone'' m
         else settingsSaved e ''Timezone updated'' (m\<lparr>cfg := (cfg m)\<lparr>cfg_Timezone := v\<rparr>\<rparr>))"

definition updateSettings :: "env \<Rightarrow> msg \<Rightarrow> model \<Rightarrow> model" where
  "updateSettings e k m =
     (case sm_mode (settings m) of
        settingsViewing \<Rightarrow>
          (let m1 = ensureMenuInput ''1=Name  2=Timezone  3=Back'' 40 m;
               m2 = m1\<lparr>menuInput := ti_Update k (menuInput m1)\<rparr>
           in if k = KeyEnter then settingsViewingEnter e m2 else m2)
      | settingsEditingName \<Rightarrow>
          (let m1 = m\<lparr>settings :=
                       (settings m)\<lparr>sm_input := ti_Update k (ensureFocus (sm_input (settings m)))\<rparr>\<rparr>
           in if k = KeyEnter then settingsNameEnter e m1 else m1)
      | settingsEditingTimezone \<Rightarrow>
          (let m1 = m\<lparr>settings :=
                       (settings m)\<lparr>sm_input := ti_Update k (ensureFocus (sm_input (settings m)))\<rparr>\<rparr>
           in if k = KeyEnter then settingsTimezoneEnter e m1 else m1))"

subsection \<open>The session controller\<close>

text \<open>
  \<open>Update\<close> returns the new model and whether \<open>tea.Quit\<close> was issued, or
  \<open>None\<close> when the handler panics.
\<close>

definition Update :: "env \<Rightarrow> msg \<Rightarrow> model \<Rightarrow> (model \<times> bool) option" where
  "Update e k m =
     (if k = KeyCtrlC then Some (m, True)
      else
        (let m0 = (case k of WindowSizeMsg w h \<Rightarrow> m\<lparr>width := w, height := h\<rparr> | _ \<Rightarrow> m)
         in case state m0 of
              stateMainMenu \<Rightarrow> Some (updateMainMenu e k m0)
            | stateAccounts \<Rightarrow> Some (updateAccounts e k m0, False)
            | stateAccountDetail \<Rightarrow> Some (updateAccountDetail e k m0, False)
            | stateCreateAccount \<Rightarrow> map_option (\<lambda>r. (r, False)) (updateAccountForm e k m0)
            | stateCreateChoice \<Rightarrow> Some (updateCreateChoice e k m0, False)
            | stateCreateNote \<Rightarrow> Some (updateNoteWizard e k m0, False)
            | stateCreateEvent \<Rightarrow> Some (updateEventWizard e k m0, False)
            | stateDashboard \<Rightarrow> Some (updateDashboard e k m0, False)
            | stateSettings \<Rightarrow> Some (updateSettings e k m0, False)
            | stateSettingsEditName \<Rightarrow> Some (updateSettings e k m0, False)
            | stateSettingsEditTimezone \<Rightarrow> Some (updateSettings e k m0, False)))"

definition newModel :: "env \<Rightarrow> config \<Rightarrow> stmt list \<Rightarrow> model" where
  "newModel e c db =
     (let ti = Focus (textinput_New\<lparr>ti_Prompt := [], ti_Placeholder := ''Choose an option'',
                                     ti_CharLimit := 32\<rparr>);
          filter = textinput_New\<lparr>ti_Prompt := [],
                     ti_Placeholder := ''Type to search, / to go back'', ti_CharLimit := 64\<rparr>;
          m = \<lparr>state = stateMainMenu, prevStates = [], store = db, cfg = c, width = 0,
               height = 0, infoMessage = [], errMessage = [], showSplash = True,
               menuInput = ti, accounts = [], accountFilter = filter, filteredAccounts = [],
               accountForm = newAccountForm None, noteWizard = newNoteWizard None,
               eventWizard = newEventWizard None,
               dashboard = \<lparr>dm_view = dashboardEvents, dm_events = [], dm_activity = []\<rparr>,
               settings = \<lparr>sm_mode = settingsViewing,
                            sm_input = textinput_New\<lparr>ti_Prompt := [], ti_CharLimit := 64\<rparr>,
                            sm_err = []\<rparr>,
               accountDetail = \<lparr>ad_account = emptyAccount, ad_activity = [],
                                 ad_view = accountDetailSummary, ad_err = []\<rparr>\<rparr>
      in refreshAccounts e (refreshDashboard e m))"

text \<open>
  A run feeds the messages, each with what the outside world answers while it is handled,
  to \<open>Update\<close> one after the other. It stops at \<open>tea.Quit\<close> and at a panic.
\<close>

fun run :: "(env \<times> msg) list \<Rightarrow> model \<Rightarrow> model option" where
  "run [] m = Some m"
| "run ((e, k) # rest) m =
     (case Update e k m of
        None \<Rightarrow> None
      | Some (m1, quit) \<Rightarrow> (if quit then Some m1 else run rest m1))"

inductive reachable :: "model \<Rightarrow> bool" where
  init: "reachable (newModel e c db)"
| step: "reachable m \<Longrightarrow> Update e k m = Some (m1, quit) \<Longrightarrow> reachable m1"

section \<open>The event classifier\<close>

text \<open>
  The reference time of \<open>SplitEvents\<close> carries its \<open>Location\<close>. Of a location the
  function uses one computation of the \<open>time\<close> package: the instant at which the
  calendar day containing a given instant starts in that zone
  (\<open>time.Date(now.Year(), now.Month(), now.Day(), 0, 0, 0, 0, loc)\<close>); a location is
  represented by that function. \<open>sort.Slice\<close> is the second piece of the standard
  library the function uses; it is the parameter \<open>srt\<close>, taking the
  \<open>less\<close> function and the slice.
\<close>

datatype location = Location (startOfDayAt: "int \<Rightarrow> int")

record gotime =
  t_instant :: int
  t_loc :: location

definition day :: int where
  "day = 24 * 60 * 60 * 1000000000"

fun classify ::
  "int \<Rightarrow> int \<Rightarrow> int \<Rightarrow> Event list \<Rightarrow> Event list \<times> Event list \<times> Event list
     \<Rightarrow> Event list \<times> Event list \<times> Event list" where
  "classify startOfDay endOfDay now [] buckets = buckets"
| "classify startOfDay endOfDay now (ev # evs) (today, upcoming, past) =
     classify startOfDay endOfDay now evs
       (if \<not> ev_EventTime ev < startOfDay \<and> ev_EventTime ev < endOfDay
          then (today @ [ev], upcoming, past)
        else if now < ev_EventTime ev then (today, upcoming @ [ev], past)
        else (today, upcoming, past @ [ev]))"

definition SplitEvents ::
  "((Event \<Rightarrow> Event \<Rightarrow> bool) \<Rightarrow> Event list \<Rightarrow> Event list) \<Rightarrow> Event list \<Rightarrow> gotime
     \<Rightarrow> Event list \<times> Event list \<times> Event list" where
  "SplitEvents srt events now =
     (let startOfDay = startOfDayAt (t_loc now) (t_instant now);
          endOfDay = startOfDay + day
      in case classify startOfDay endOfDay (t_instant now) events ([], [], []) of
           (today, upcoming, past) \<Rightarrow>
             (srt (\<lambda>a b. ev_EventTime a < ev_EventTime b) today,
              srt (\<lambda>a b. ev_EventTime a < ev_EventTime b) upcoming,
              srt (\<lambda>a b. ev_EventTime b < ev_EventTime a) past))"

text \<open>
  What \<open>sort.Slice\<close> promises for a \<open>less\<close> function that compares a key: the result
  is a rearrangement of the slice in which no element is \<open>less\<close> than an earlier one.
  The order of elements with equal keys is not promised (the sort is not stable).
\<close>

definition sortSliceContract ::
  "((Event \<Rightarrow> Event \<Rightarrow> bool) \<Rightarrow> Event list \<Rightarrow> Event list) \<Rightarrow> bool" where
  "sortSliceContract srt =
     (\<forall>lt xs. mset (srt lt xs) = mset xs \<and>
        ((\<exists>key :: Event \<Rightarrow> int. lt = (\<lambda>a b. key a < key b)) \<longrightarrow>
           sorted_wrt (\<lambda>a b. \<not> lt b a) (srt lt xs)))"

text \<open>An insertion sort by \<open>less\<close>, one function that keeps the promise.\<close>

fun insertBy :: "(Event \<Rightarrow> Event \<Rightarrow> bool) \<Rightarrow> Event \<Rightarrow> Event list \<Rightarrow> Event list" where
  "insertBy lt x [] = [x]"
| "insertBy lt x (y # ys) = (if lt x y then x # y # ys else y # insertBy lt x ys)"

definition insertionSort :: "(Event \<Rightarrow> Event \<Rightarrow> bool) \<Rightarrow> Event list \<Rightarrow> Event list" where
  "insertionSort lt xs = foldr (insertBy lt) xs []"

text \<open>Two facts about a menu table that the resolver's guarantees rest on.\<close>

definition synonymsApart :: "menuOption list \<Rightarrow> bool" where
  "synonymsApart table =
     list_all (\<lambda>o1. list_all (\<lambda>o2. option_id o1 = option_id o2 \<or>
        list_all (\<lambda>s. \<not> list_ex (\<lambda>t. s = t) (option_synonyms o2)) (option_synonyms o1)) table) table"

definition noEmptySynonym :: "menuOption list \<Rightarrow> bool" where
  "noEmptySynonym table = list_all (\<lambda>opt. list_all (\<lambda>s. s \<noteq> []) (option_synonyms opt)) table"

section \<open>Sample data\<close>

text \<open>
  Concrete inputs on which the properties below are exercised: an outside world whose
  database is empty and accepts every statement, one whose account table holds
  \<open>Acme\<close> and \<open>Acme Corp\<close>, and a few events around one midnight in UTC.
\<close>

definition accountNamed :: "int \<Rightarrow> string \<Rightarrow> Account" where
  "accountNamed i n = emptyAccount\<lparr>acc_ID := i, acc_Name := n\<rparr>"

definition quietEnv :: env where
  "quietEnv =
     \<lparr>env_now = 1000,
      env_exec = (\<lambda>q. Inr 1),
      env_ListAccounts = Inr [],
      env_searchRows = (\<lambda>t. Inr []),
      env_AccountByName = (\<lambda>n. Inl ErrNotFound),
      env_AccountByID = (\<lambda>i. Inl ErrNotFound),
      env_ListEvents = Inr [],
      env_ListActivities = (\<lambda>n. Inr []),
      env_ListAccountActivity = (\<lambda>i n. Inr []),
      env_import = (\<lambda>p n z. ImportOpenError ''no such file''),
      env_LoadLocation = (\<lambda>z. z = ''UTC''),
      env_ParseInLocation = (\<lambda>v z. None),
      env_Save = (\<lambda>c. None)\<rparr>"

definition acmeAccounts :: "Account list" where
  "acmeAccounts = [accountNamed 1 ''Acme'', accountNamed 2 ''Acme Corp'']"

definition acmeEnv :: env where
  "acmeEnv =
     quietEnv\<lparr>env_ListAccounts := Inr acmeAccounts,
       env_searchRows :=
         (\<lambda>t. Inr (filter (\<lambda>a. Contains (ToLower (acc_Name a)) t) acmeAccounts)),
       env_AccountByName :=
         (\<lambda>n. case List.find (\<lambda>a. ToLower (acc_Name a) = ToLower n) acmeAccounts of
                 Some a \<Rightarrow> Inr a | None \<Rightarrow> Inl ErrNotFound),
       env_AccountByID :=
         (\<lambda>i. case List.find (\<lambda>a. acc_ID a = i) acmeAccounts of
                 Some a \<Rightarrow> Inr a | None \<Rightarrow> Inl ErrNotFound)\<rparr>"

definition someConfig :: config where
  "someConfig = \<lparr>cfg_Name = ''sam'', cfg_Timezone = ''UTC''\<rparr>"

definition acmeModel :: model where
  "acmeModel = newModel acmeEnv someConfig []"

definition utc :: location where
  "utc = Location (\<lambda>t. t - t mod day)"

definition eventAt :: "int \<Rightarrow> Event" where
  "eventAt t =
     \<lparr>ev_ID = 0, ev_Title = ''call'', ev_Details = [], ev_EventTime = t, ev_AccountID = None,
      ev_Creator = ''sam'', ev_CreatedAt = 1, ev_AccountName = None\<rparr>"

definition sampleNow :: gotime where
  "sampleNow = \<lparr>t_instant = 10 * day + 5, t_loc = utc\<rparr>"

definition sampleEvents :: "Event list" where
  "sampleEvents =
     [eventAt 3, eventAt (11 * day), eventAt (10 * day - 1), eventAt (10 * day),
      eventAt (12 * day), eventAt (10 * day + 7)]"

section \<open>The shape of the navigation state\<close>

text \<open>
  The pairs of navigation stack and active view that a session can be in: the main menu
  over an empty stack; a view opened from the main menu (or the wizard that the
  create-choice view turned into); the account detail over the account list; and a form
  or wizard opened from the account detail.
\<close>

definition navShape :: "viewState \<Rightarrow> viewState list \<Rightarrow> bool" where
  "navShape s ps =
     ((ps = [] \<and> s = stateMainMenu) \<or>
      (ps = [stateMainMenu] \<and>
         (s = stateDashboard \<or> s = stateAccounts \<or> s = stateCreateAccount \<or>
          s = stateCreateChoice \<or> s = stateCreateNote \<or> s = stateCreateEvent \<or>
          s = stateSettings)) \<or>
      (ps = [stateMainMenu, stateAccounts] \<and> s = stateAccountDetail) \<or>
      (ps = [stateMainMenu, stateAccounts, stateAccountDetail] \<and>
         (s = stateCreateNote \<or> s = stateCreateEvent \<or> s = stateCreateAccount)))"

text \<open>
  How one update may move the navigation state \<open>(s, ps)\<close>: not at all, as
  \<open>popState\<close> does, or to the main menu over an empty stack.
\<close>

definition topOrMain :: "viewState list \<Rightarrow> viewState" where
  "topOrMain ps = (if ps = [] then stateMainMenu else last ps)"

definition navOut :: "viewState \<Rightarrow> viewState list \<Rightarrow> viewState \<Rightarrow> viewState list \<Rightarrow> bool" where
  "navOut s ps s1 ps1 =
     ((s1 = s \<and> ps1 = ps) \<or> (s1 = topOrMain ps \<and> ps1 = butlast ps) \<or>
      (s1 = stateMainMenu \<and> ps1 = []))"

section \<open>Inputs that have the focus\<close>

text \<open>
  A stage gives its input the focus before it passes a message on to it, so in a session
  the input of the first stage of a wizard always has the focus, and a later input has it
  as soon as it holds text.
\<close>

definition noteReady :: "noteWizard \<Rightarrow> bool" where
  "noteReady w =
     (ti_focus (nw_contentInput w) \<and>
      (ti_value (nw_associateInput w) = [] \<or> ti_focus (nw_associateInput w)))"

definition eventReady :: "eventWizard \<Rightarrow> bool" where
  "eventReady w =
     (ti_focus (ew_titleInput w) \<and>
      (ti_value (ew_scheduleInput w) = [] \<or> ti_focus (ew_scheduleInput w)) \<and>
      (ti_value (ew_associateInput w) = [] \<or> ti_focus (ew_associateInput w)))"

definition settingsReady :: "settingsModel \<Rightarrow> bool" where
  "settingsReady s = (sm_mode s = settingsViewing \<or> ti_focus (sm_input s))"

definition inputsReady :: "model \<Rightarrow> bool" where
  "inputsReady m =
     (noteReady (noteWizard m) \<and> eventReady (eventWizard m) \<and> settingsReady (settings m))"

text \<open>
  Sample sessions. \<open>typed e v\<close> is the user typing \<open>v\<close> and pressing Enter while
  the outside world answers as \<open>e\<close>. \<open>after steps m\<close> is the model a run ends in
  (the starting model if the run panics).
\<close>

definition typed :: "env \<Rightarrow> string \<Rightarrow> (env \<times> msg) list" where
  "typed e v = [(e, KeyOther v), (e, KeyEnter)]"

definition after :: "(env \<times> msg) list \<Rightarrow> model \<Rightarrow> model" where
  "after steps m = (case run steps m of Some m1 \<Rightarrow> m1 | None \<Rightarrow> m)"

definition freshModel :: model where
  "freshModel = newModel quietEnv someConfig []"

definition toAccountDetail :: "(env \<times> msg) list" where
  "toAccountDetail = typed acmeEnv ''2'' @ typed acmeEnv ''Acme''"

definition toCreateChoice :: "(env \<times> msg) list" where
  "toCreateChoice = typed quietEnv ''4''"

definition noteDeclined :: "(env \<times> msg) list" where
  "noteDeclined = typed quietEnv ''1'' @ typed quietEnv ''Follow up'' @ typed quietEnv ''n''"

definition answerX :: "(env \<times> msg) list" where
  "answerX =
     toCreateChoice @ typed quietEnv ''1'' @ typed quietEnv ''Follow up'' @
     [(quietEnv, KeyOther ''x'')]"

definition duplicateEnv :: env where
  "duplicateEnv = quietEnv\<lparr>env_exec := (\<lambda>q. Inl ''UNIQUE constraint failed: accounts.name'')\<rparr>"

definition addAcmeAgain :: "(env \<times> msg) list" where
  "addAcmeAgain =
     typed quietEnv ''3'' @ typed quietEnv ''Acme'' @ typed quietEnv ''555 0100'' @
     typed quietEnv [] @ typed quietEnv [] @ typed duplicateEnv ''Ann''"

definition renameToAcmeCorp :: "(env \<times> msg) list" where
  "renameToAcmeCorp =
     typed acmeEnv ''4'' @ typed acmeEnv ''Acme Corp'' @ typed acmeEnv [] @ typed acmeEnv [] @
     typed acmeEnv [] @
     typed (acmeEnv\<lparr>env_exec := (\<lambda>q. Inl ''UNIQUE constraint failed: accounts.name'')\<rparr>) []"

section \<open>Properties of the command resolver\<close>

lemma main_apart: "synonymsApart mainMenuOptions"
  by code_simp

lemma detail_apart: "synonymsApart accountDetailOptions"
  by code_simp

lemma directMatch_found:
  assumes "opt \<in> set table" and "v \<in> set (option_synonyms opt)"
    and "\<forall>o2 \<in> set table. v \<in> set (option_synonyms o2) \<longrightarrow> option_id o2 = option_id opt"
  shows "directMatch table v = Some (option_id opt)"
  using assms
proof (induction table)
  case Nil
  then show ?case by simp
next
  case (Cons a table)
  show ?case
  proof (cases "v \<in> set (option_synonyms a)")
    case True
    with Cons.prems(3) have "option_id a = option_id opt" by simp
    with True show ?thesis by (simp add: list_ex_iff)
  next
    case False
    with Cons.prems(1,2) have "opt \<in> set table" by auto
    moreover from Cons.prems(3) have
      "\<forall>o2 \<in> set table. v \<in> set (option_synonyms o2) \<longrightarrow> option_id o2 = option_id opt"
      by simp
    ultimately have "directMatch table v = Some (option_id opt)"
      using Cons.IH Cons.prems(2) by blast
    with False show ?thesis by (simp add: list_ex_iff)
  qed
qed

lemma apart_unique:
  assumes "synonymsApart table" "opt \<in> set table" "v \<in> set (option_synonyms opt)"
    "o2 \<in> set table" "v \<in> set (option_synonyms o2)"
  shows "option_id o2 = option_id opt"
  using assms unfolding synonymsApart_def list_all_iff list_ex_iff by blast

lemma resolveIn_synonym:
  assumes "synonymsApart table" "opt \<in> set table" 
    "TrimSpace (ToLower input) \<in> set (option_synonyms opt)"
    "\<forall>o2 \<in> set table. [] \<notin> set (option_synonyms o2)"
  shows "resolveIn table input = Some (option_id opt)"
proof -
  let ?v = "TrimSpace (ToLower input)"
  have ne: "?v \<noteq> []" using assms(2,3,4) by metis
  have "directMatch table ?v = Some (option_id opt)"
    using assms(1,2,3) by (intro directMatch_found) (auto intro: apart_unique)
  with ne show ?thesis by (simp add: resolveIn_def Let_def)
qed


lemma main_noEmpty: "noEmptySynonym mainMenuOptions"
  by code_simp

lemma detail_noEmpty: "noEmptySynonym accountDetailOptions"
  by code_simp

lemma noEmpty_all: "noEmptySynonym table \<Longrightarrow> \<forall>o2 \<in> set table. [] \<notin> set (option_synonyms o2)"
  unfolding noEmptySynonym_def list_all_iff by blast

text \<open>
  Claim C1. An input whose trimmed, lower-cased form is a declared synonym of an option of
  the main-menu table or of the account-detail table resolves to that option's id. The
  synonym loop runs and returns before the keyword-prefix loop, so keyword prefixes have
  no say.
\<close>

theorem synonym_wins:
  assumes "(table = mainMenuOptions \<and> res = resolveMainMenuSelection input) \<or>
           (table = accountDetailOptions \<and> res = resolveAccountDetailAction input)"
    and "opt \<in> set table"
    and "TrimSpace (ToLower input) \<in> set (option_synonyms opt)"
  shows "res = Some (option_id opt)"
proof -
  have a: "synonymsApart table" using assms(1) main_apart detail_apart by blast
  have b: "\<forall>o2 \<in> set table. [] \<notin> set (option_synonyms o2)"
    using assms(1) main_noEmpty detail_noEmpty noEmpty_all by blast
  have "res = resolveIn table input"
    using assms(1) by (auto simp: resolveMainMenuSelection_def resolveAccountDetailAction_def)
  then show ?thesis using resolveIn_synonym[OF a assms(2,3) b] by simp
qed

theorem synonym_wins_witness:
  "TrimSpace (ToLower ''  Exit. '') = ''exit.'' \<and>
   resolveMainMenuSelection ''  Exit. '' = Some menuQuit \<and>
   resolveAccountDetailAction ''  Exit. '' = Some accountActionBack"
proof -
  have v: "TrimSpace (ToLower ''  Exit. '') = ''exit.''" by code_simp
  let ?q = "\<lparr>option_id = menuQuit, option_keywords = [''quit'', ''exit''],
        option_synonyms = [''6'', ''quit'', ''exit'', ''exit.'', ''q'']\<rparr>"
  let ?b = "\<lparr>option_id = accountActionBack, option_keywords = [''back'', ''close''],
        option_synonyms = [''5'', ''back'', ''exit'', ''exit.'', ''/'']\<rparr>"
  have q: "?q \<in> set mainMenuOptions" by (simp add: mainMenuOptions_def)
  have b: "?b \<in> set accountDetailOptions" by (simp add: accountDetailOptions_def)
  have 1: "resolveMainMenuSelection ''  Exit. '' = Some menuQuit"
    using synonym_wins[of mainMenuOptions _ "''  Exit. ''" ?q] q v by simp
  have 2: "resolveAccountDetailAction ''  Exit. '' = Some accountActionBack"
    using synonym_wins[of accountDetailOptions _ "''  Exit. ''" ?b] b v by simp
  show ?thesis using v 1 2 by blast
qed

lemma set_prefixMatches:
  "set (prefixMatches opts v acc) = set acc \<union> option_id ` {opt \<in> set opts. keywordHit v opt}"
proof (induction opts arbitrary: acc)
  case Nil
  then show ?case by simp
next
  case (Cons a opts)
  show ?case by (simp add: Cons.IH) blast
qed

lemma distinct_prefixMatches: "distinct acc \<Longrightarrow> distinct (prefixMatches opts v acc)"
  by (induction opts arbitrary: acc) simp_all

lemma keywordHit_iff: "keywordHit v opt \<longleftrightarrow> (\<exists>k \<in> set (option_keywords opt). prefix v k)"
  by (simp add: keywordHit_def HasPrefix_def list_ex_iff)

lemma directMatch_none:
  "\<forall>opt \<in> set table. v \<notin> set (option_synonyms opt) \<Longrightarrow> directMatch table v = None"
  by (induction table) (simp_all add: list_ex_iff)

lemma singleton_list: "distinct xs \<Longrightarrow> set xs = {x} \<Longrightarrow> xs = [x]"
  by (cases xs) (auto simp: insert_eq_iff dest: subset_singletonD)

lemma resolveIn_case:
  assumes v: "v = TrimSpace (ToLower input)" "v \<noteq> []"
    and nosyn: "\<forall>opt \<in> set table. v \<notin> set (option_synonyms opt)"
  shows "resolveIn table input = (case prefixMatches table v [] of [i] \<Rightarrow> Some i | _ \<Rightarrow> None)"
  using v directMatch_none[OF nosyn] by (simp add: resolveIn_def Let_def)

lemma matches_set:
  "set (prefixMatches table v []) =
     option_id ` {opt \<in> set table. \<exists>k \<in> set (option_keywords opt). prefix v k}"
  by (simp add: set_prefixMatches keywordHit_iff)

lemma image_single:
  assumes "x \<in> A" "\<forall>y \<in> A. f y = f x"
  shows "f ` A = {f x}"
  using assms by blast

lemma resolveIn_one:
  assumes v: "v = TrimSpace (ToLower input)" "v \<noteq> []"
    and nosyn: "\<forall>opt \<in> set table. v \<notin> set (option_synonyms opt)"
    and o: "opt \<in> set table"
    and h1: "\<exists>k \<in> set (option_keywords opt). prefix v k"
    and h2: "\<forall>o2 \<in> set table. (\<exists>k \<in> set (option_keywords o2). prefix v k)
               \<longrightarrow> option_id o2 = option_id opt"
  shows "resolveIn table input = Some (option_id opt)"
proof -
  have "opt \<in> {o2 \<in> set table. \<exists>k \<in> set (option_keywords o2). prefix v k}"
    using o h1 by simp
  moreover have "\<forall>y \<in> {o2 \<in> set table. \<exists>k \<in> set (option_keywords o2). prefix v k}.
                   option_id y = option_id opt"
    using h2 by simp
  ultimately have s1: "set (prefixMatches table v []) = {option_id opt}"
    unfolding matches_set by (rule image_single)
  have d: "distinct (prefixMatches table v [])"
    by (rule distinct_prefixMatches) simp
  show ?thesis unfolding resolveIn_case[OF v nosyn] singleton_list[OF d s1] by simp
qed

lemma resolveIn_zero:
  assumes v: "v = TrimSpace (ToLower input)" "v \<noteq> []"
    and nosyn: "\<forall>opt \<in> set table. v \<notin> set (option_synonyms opt)"
    and h: "\<forall>opt \<in> set table. \<forall>k \<in> set (option_keywords opt). \<not> prefix v k"
  shows "resolveIn table input = None"
proof -
  have "set (prefixMatches table v []) = {}" unfolding matches_set using h by simp
  then show ?thesis unfolding resolveIn_case[OF v nosyn] by simp
qed

lemma resolveIn_many:
  assumes v: "v = TrimSpace (ToLower input)" "v \<noteq> []"
    and nosyn: "\<forall>opt \<in> set table. v \<notin> set (option_synonyms opt)"
    and o: "o1 \<in> set table" "o2 \<in> set table" "option_id o1 \<noteq> option_id o2"
      "\<exists>k \<in> set (option_keywords o1). prefix v k" "\<exists>k \<in> set (option_keywords o2). prefix v k"
  shows "resolveIn table input = None"
proof -
  have "option_id o1 \<in> set (prefixMatches table v [])"
    unfolding matches_set using o(1,4) by simp
  moreover have "option_id o2 \<in> set (prefixMatches table v [])"
    unfolding matches_set using o(2,5) by simp
  ultimately have "\<forall>i. prefixMatches table v [] \<noteq> [i]" using o(3) by auto
  then show ?thesis unfolding resolveIn_case[OF v nosyn] by (simp split: list.splits)
qed

lemma resolveIn_prefix:
  assumes v: "v = TrimSpace (ToLower input)" "v \<noteq> []"
    and nosyn: "\<forall>opt \<in> set table. v \<notin> set (option_synonyms opt)"
  shows "(\<forall>opt \<in> set table.
            (\<exists>k \<in> set (option_keywords opt). prefix v k) \<and>
            (\<forall>o2 \<in> set table. (\<exists>k \<in> set (option_keywords o2). prefix v k)
               \<longrightarrow> option_id o2 = option_id opt)
            \<longrightarrow> resolveIn table input = Some (option_id opt)) \<and>
         ((\<forall>opt \<in> set table. \<forall>k \<in> set (option_keywords opt). \<not> prefix v k)
            \<longrightarrow> resolveIn table input = None) \<and>
         ((\<exists>o1 \<in> set table. \<exists>o2 \<in> set table. option_id o1 \<noteq> option_id o2 \<and>
             (\<exists>k \<in> set (option_keywords o1). prefix v k) \<and>
             (\<exists>k \<in> set (option_keywords o2). prefix v k)) \<longrightarrow> resolveIn table input = None)"
proof (intro conjI ballI impI)
  fix opt assume "opt \<in> set table"
    "(\<exists>k \<in> set (option_keywords opt). prefix v k) \<and>
          (\<forall>o2 \<in> set table. (\<exists>k \<in> set (option_keywords o2). prefix v k)
             \<longrightarrow> option_id o2 = option_id opt)"
  then show "resolveIn table input = Some (option_id opt)"
    using resolveIn_one[OF v nosyn] by (elim conjE)
next
  assume "\<forall>opt \<in> set table. \<forall>k \<in> set (option_keywords opt). \<not> prefix v k"
  then show "resolveIn table input = None" by (rule resolveIn_zero[OF v nosyn])
next
  assume "\<exists>o1 \<in> set table. \<exists>o2 \<in> set table. option_id o1 \<noteq> option_id o2 \<and>
           (\<exists>k \<in> set (option_keywords o1). prefix v k) \<and>
           (\<exists>k \<in> set (option_keywords o2). prefix v k)"
  then obtain o1 o2 where "o1 \<in> set table" "o2 \<in> set table" "option_id o1 \<noteq> option_id o2"
    "\<exists>k \<in> set (option_keywords o1). prefix v k" "\<exists>k \<in> set (option_keywords o2). prefix v k"
    by blast
  then show "resolveIn table input = None" by (rule resolveIn_many[OF v nosyn])
qed

text \<open>
  Claim C2. For an ASCII input whose normalised form is non-empty and no synonym: when
  the options that have a keyword starting with the normalised input all carry one id,
  that id is returned; when no option has such a keyword, or two options with different
  ids have one, resolution fails. Several matching keywords of one option count once.
\<close>

theorem prefix_resolution:
  assumes "(table = mainMenuOptions \<and> res = resolveMainMenuSelection input) \<or>
           (table = accountDetailOptions \<and> res = resolveAccountDetailAction input)"
    and "v = TrimSpace (ToLower input)" and "v \<noteq> []"
    and "\<forall>opt \<in> set table. v \<notin> set (option_synonyms opt)"
    and "isASCII input"
  shows "(\<forall>opt \<in> set table.
            (\<exists>k \<in> set (option_keywords opt). prefix v k) \<and>
            (\<forall>o2 \<in> set table. (\<exists>k \<in> set (option_keywords o2). prefix v k)
               \<longrightarrow> option_id o2 = option_id opt)
            \<longrightarrow> res = Some (option_id opt)) \<and>
         ((\<forall>opt \<in> set table. \<forall>k \<in> set (option_keywords opt). \<not> prefix v k) \<longrightarrow> res = None) \<and>
         ((\<exists>o1 \<in> set table. \<exists>o2 \<in> set table. option_id o1 \<noteq> option_id o2 \<and>
             (\<exists>k \<in> set (option_keywords o1). prefix v k) \<and>
             (\<exists>k \<in> set (option_keywords o2). prefix v k)) \<longrightarrow> res = None)"
proof -
  have res: "res = resolveIn table input"
    using assms(1) by (auto simp: resolveMainMenuSelection_def resolveAccountDetailAction_def)
  show ?thesis
    unfolding res by (rule resolveIn_prefix[OF assms(2,3,4)])
qed

lemma se_normal: "''se'' = TrimSpace (ToLower ''Se'')"
  by code_simp
lemma se_ascii: "isASCII ''Se''"
  by code_simp
lemma se_no_synonym: "\<forall>opt \<in> set mainMenuOptions. ''se'' \<notin> set (option_synonyms opt)"
  by code_simp
lemma settings_in_menu: "mainMenuOptions ! 4 \<in> set mainMenuOptions"
  by code_simp
lemma settings_hit: "(\<exists>k \<in> set (option_keywords (mainMenuOptions ! 4)). prefix ''se'' k)"
  by code_simp
lemma settings_only_hit: "(\<forall>o2 \<in> set mainMenuOptions. (\<exists>k \<in> set (option_keywords o2). prefix ''se'' k)
               \<longrightarrow> option_id o2 = option_id (mainMenuOptions ! 4))"
  by code_simp
lemma settings_id: "option_id (mainMenuOptions ! 4) = menuSettings"
  by code_simp

theorem prefix_resolution_witness:
  "isASCII ''Se'' \<and> ''se'' = TrimSpace (ToLower ''Se'') \<and> ''se'' \<noteq> [] \<and>
   directMatch mainMenuOptions ''se'' = None \<and>
   resolveMainMenuSelection ''Se'' = Some menuSettings"
proof -
  have A: "(mainMenuOptions = mainMenuOptions \<and>
            resolveMainMenuSelection ''Se'' = resolveMainMenuSelection ''Se'') \<or>
           (mainMenuOptions = accountDetailOptions \<and>
            resolveMainMenuSelection ''Se'' = resolveAccountDetailAction ''Se'')"
    by simp
  have ne: "''se'' \<noteq> []" by simp
  have "\<forall>opt \<in> set mainMenuOptions.
            (\<exists>k \<in> set (option_keywords opt). prefix ''se'' k) \<and>
            (\<forall>o2 \<in> set mainMenuOptions. (\<exists>k \<in> set (option_keywords o2). prefix ''se'' k)
               \<longrightarrow> option_id o2 = option_id opt)
            \<longrightarrow> resolveMainMenuSelection ''Se'' = Some (option_id opt)"
    using prefix_resolution[OF A se_normal ne se_no_synonym se_ascii] by (rule conjunct1)
  then have "(\<exists>k \<in> set (option_keywords (mainMenuOptions ! 4)). prefix ''se'' k) \<and>
            (\<forall>o2 \<in> set mainMenuOptions. (\<exists>k \<in> set (option_keywords o2). prefix ''se'' k)
               \<longrightarrow> option_id o2 = option_id (mainMenuOptions ! 4))
            \<longrightarrow> resolveMainMenuSelection ''Se'' = Some (option_id (mainMenuOptions ! 4))"
    using settings_in_menu by (rule bspec)
  then have "resolveMainMenuSelection ''Se'' = Some (option_id (mainMenuOptions ! 4))"
    using conjI[OF settings_hit settings_only_hit] by (rule mp)
  then have "resolveMainMenuSelection ''Se'' = Some menuSettings" unfolding settings_id .
  moreover have "directMatch mainMenuOptions ''se'' = None"
    by (rule directMatch_none[OF se_no_synonym])
  ultimately show ?thesis using se_ascii se_normal ne by (intro conjI)
qed

section \<open>Properties of the navigation stack\<close>

text \<open>
  Claim C10. \<open>pushState v\<close> followed at once by \<open>popState\<close> gives back the active
  view and the navigation stack as they were before the push.
\<close>

theorem push_pop:
  "state (popState (pushState v m)) = state m \<and>
   prevStates (popState (pushState v m)) = prevStates m"
  by (simp add: popState_def pushState_def)

section \<open>Properties of the account selection resolver\<close>

lemma snd_countPrefix: "snd mc \<le> snd (countPrefix xs q mc)"
proof (induction xs arbitrary: mc)
  case Nil
  then show ?case by simp
next
  case (Cons a xs)
  obtain m n where mc: "mc = (m, n)" by (cases mc)
  show ?case
    unfolding mc using Cons.IH[of "(a, n + 1)"] Cons.IH[of "(m, n)"] by simp
qed

lemma acme_trim:
  "TrimSpace ''acme'' = ''acme''" "TrimSpace ''Acme'' = ''Acme''" "TrimSpace ''ac'' = ''ac''"
  by code_simp+

lemma acme_lower:
  "ToLower ''acme'' = ''acme''" "ToLower ''Acme'' = ''acme''" "ToLower ''ac'' = ''ac''"
  "ToLower ''Acme Corp'' = ''acme corp''"
  by code_simp+

lemma acme_atoi: "Atoi ''acme'' = None" "Atoi ''Acme'' = None" "Atoi ''ac'' = None"
  by code_simp+

lemma acme_prefix:
  "\<not> HasPrefix ''acme'' ''open ''" "\<not> HasPrefix ''acme'' ''view ''"
  "\<not> HasPrefix ''acme'' ''select ''" "\<not> HasPrefix ''acme'' ''#''"
  "\<not> HasPrefix ''ac'' ''open ''" "\<not> HasPrefix ''ac'' ''view ''"
  "\<not> HasPrefix ''ac'' ''select ''" "\<not> HasPrefix ''ac'' ''#''"
  "HasPrefix ''acme'' ''ac''" "HasPrefix ''acme corp'' ''ac''"
  by code_simp+

lemma acmeModel_filtered:
  "filteredAccounts acmeModel = [accountNamed 1 ''Acme'', accountNamed 2 ''Acme Corp'']"
  by code_simp

lemma acmeModel_accounts:
  "accounts acmeModel = [accountNamed 1 ''Acme'', accountNamed 2 ''Acme Corp'']"
  by code_simp

text \<open>
  Claim C3, as stated, fails: with the filtered list \<open>Acme\<close>, \<open>Acme Corp\<close> (both
  also in the full list) the input \<open>acme\<close> does resolve, to the account named
  \<open>Acme\<close>, because the exact-name scan compares with \<open>strings.EqualFold\<close>.
\<close>

theorem acme_lowercase_counterexample:
  "filteredAccounts acmeModel = [accountNamed 1 ''Acme'', accountNamed 2 ''Acme Corp''] \<and>
   accounts acmeModel = [accountNamed 1 ''Acme'', accountNamed 2 ''Acme Corp''] \<and>
   resolveAccountSelection acmeModel ''acme'' \<noteq> None"
proof -
  have "resolveAccountSelection acmeModel ''acme'' = Some (accountNamed 1 ''Acme'')"
    by code_simp
  then show ?thesis using acmeModel_filtered acmeModel_accounts by simp
qed

lemma prefix_acme:
  "prefix l ''acme'' \<Longrightarrow> l = [] \<or> l = ''a'' \<or> l = ''ac'' \<or> l = ''acm'' \<or> l = ''acme''"
  by (auto simp add: prefix_Cons)

lemma lowerChar_a:
  assumes "lowerChar c = CHR ''a''"
  shows "c \<noteq> CHR ''-''" and "c \<noteq> CHR ''+''" and "\<not> isDigit c"
proof -
  have "lowerChar CHR ''-'' \<noteq> CHR ''a''" "lowerChar CHR ''+'' \<noteq> CHR ''a''" by code_simp+
  then show "c \<noteq> CHR ''-''" "c \<noteq> CHR ''+''" using assms by auto
  show "\<not> isDigit c"
  proof
    assume d: "isDigit c"
    then have "lowerChar c = c" by (simp add: isDigit_def lowerChar_def Let_def)
    then have "c = CHR ''a''" using assms by simp
    then show False using d by (simp add: isDigit_def)
  qed
qed

lemma Atoi_letter:
  assumes "ToLower q = CHR ''a'' # r"
  shows "Atoi q = None"
proof -
  obtain c cs where q: "q = c # cs" and c: "lowerChar c = CHR ''a''"
    using assms by (cases q) (simp_all add: ToLower_def)
  show ?thesis
    unfolding q using lowerChar_a[OF c] by (simp add: Atoi_def Let_def)
qed

lemma acme_names:
  "ToLower ''Acme'' = ''acme''" "ToLower ''Acme Corp'' = ''acme corp''"
  by code_simp+

lemma common_prefix_none:
  assumes f: "filteredAccounts m = [a1, a2]"
    and n1: "acc_Name a1 = ''Acme''" and n2: "acc_Name a2 = ''Acme Corp''"
    and l: "ToLower (TrimSpace input) = l" and l3: "l = ''a'' \<or> l = ''ac'' \<or> l = ''acm''"
    and h: "\<forall>a \<in> set (filteredAccounts m) \<union> set (accounts m).
              \<not> EqualFold (acc_Name a) (TrimSpace input)"
  shows "resolveAccountSelection m input = None"
proof -
  have ne: "TrimSpace input \<noteq> []" using l l3 by (auto simp add: ToLower_def)
  have at: "Atoi (TrimSpace input) = None"
    using l l3 by (auto intro: Atoi_letter)
  have fi: "List.find (\<lambda>a. EqualFold (acc_Name a) (TrimSpace input)) (accounts m) = None"
    using h by (auto simp add: find_None_iff)
  have e: "\<not> EqualFold ''Acme'' (TrimSpace input)" "\<not> EqualFold ''Acme Corp'' (TrimSpace input)"
    using h f n1 n2 by auto
  have "2 \<le> snd (countPrefix (accounts m) l (a2, 2))"
    using snd_countPrefix[of "(a2, 2)"] by simp
  then have g: "snd (countPrefix (accounts m) l (a2, 2)) \<noteq> 1" by simp
  have p: "\<not> HasPrefix l ''open ''" "\<not> HasPrefix l ''view ''" "\<not> HasPrefix l ''select ''"
    "\<not> HasPrefix l ''#''" "HasPrefix ''acme'' l" "HasPrefix ''acme corp'' l"
    using l3 by (auto simp add: HasPrefix_def)
  show ?thesis
    using ne at fi e g p
    by (simp add: resolveAccountSelection_def Let_def l f n1 n2 acme_names)
qed

text \<open>
  An input that is, trimmed and in lower case, a prefix of \<open>acme\<close> is ASCII text.
\<close>

lemma isSpace_ascii: "isSpace c \<Longrightarrow> (of_char c :: nat) < 128"
  by (auto simp add: isSpace_def Let_def)

lemma ascii_dropWhile:
  "isASCII (dropWhile isSpace s) \<Longrightarrow> isASCII s"
proof (induction s)
  case Nil
  then show ?case by simp
next
  case (Cons a s)
  show ?case
  proof (cases "isSpace a")
    case True
    then have "isASCII s" using Cons by simp
    then show ?thesis using isSpace_ascii[OF True] by (simp add: isASCII_def)
  next
    case False
    then show ?thesis using Cons.prems by simp
  qed
qed

lemma ascii_rev: "isASCII (rev s) = isASCII s"
  by (simp add: isASCII_def list_all_iff)

lemma ascii_TrimSpace: "isASCII (TrimSpace s) \<Longrightarrow> isASCII s"
  unfolding TrimSpace_def ascii_rev
  by (drule ascii_dropWhile) (simp add: ascii_rev ascii_dropWhile)

lemma ascii_lowerChar: "(of_char (lowerChar c) :: nat) < 128 \<Longrightarrow> (of_char c :: nat) < 128"
  by (auto simp add: lowerChar_def Let_def split: if_splits)

lemma ascii_ToLower: "isASCII (ToLower s) \<Longrightarrow> isASCII s"
  by (induction s) (auto simp add: isASCII_def ToLower_def ascii_lowerChar)

lemma ascii_prefix: "prefix p s \<Longrightarrow> isASCII s \<Longrightarrow> isASCII p"
  by (auto simp add: isASCII_def prefix_def)

lemma common_prefix_ascii:
  assumes "HasPrefix (ToLower ''Acme'') (ToLower (TrimSpace input))"
  shows "isASCII input"
proof -
  have "isASCII (ToLower ''Acme'')" by code_simp
  then have "isASCII (ToLower (TrimSpace input))"
    using assms unfolding HasPrefix_def by (rule ascii_prefix[rotated])
  then have "isASCII (TrimSpace input)" by (rule ascii_ToLower)
  then show ?thesis by (rule ascii_TrimSpace)
qed

text \<open>
  Claim C3, amended. With the filtered list exactly \<open>Acme\<close>, \<open>Acme Corp\<close>, the
  inputs \<open>acme\<close> and \<open>Acme\<close> both resolve to the account named \<open>Acme\<close>: the
  exact name comparison ignores case and is made before prefix matching. An input that,
  trimmed and in lower case, is a common prefix of the two names in lower case, such as
  \<open>ac\<close>, and that is not the name of an account of either list, with the case
  ignored, resolves to no account.
\<close>

theorem acme_resolution:
  assumes "filteredAccounts m = [a1, a2]"
    and "acc_Name a1 = ''Acme''" and "acc_Name a2 = ''Acme Corp''"
  shows "resolveAccountSelection m ''acme'' = Some a1 \<and>
         resolveAccountSelection m ''Acme'' = Some a1 \<and>
         (HasPrefix (ToLower (acc_Name a1)) (ToLower (TrimSpace input)) \<and>
          HasPrefix (ToLower (acc_Name a2)) (ToLower (TrimSpace input)) \<and>
          (\<forall>a \<in> set (filteredAccounts m) \<union> set (accounts m).
              \<not> EqualFold (acc_Name a) (TrimSpace input))
            \<longrightarrow> resolveAccountSelection m input = None)"
proof (intro conjI impI)
  show "resolveAccountSelection m ''acme'' = Some a1"
    by (simp add: resolveAccountSelection_def assms acme_trim acme_lower acme_atoi
        acme_prefix EqualFold_def Let_def)
  show "resolveAccountSelection m ''Acme'' = Some a1"
    by (simp add: resolveAccountSelection_def assms acme_trim acme_lower acme_atoi
        acme_prefix EqualFold_def Let_def)
  assume a: "HasPrefix (ToLower (acc_Name a1)) (ToLower (TrimSpace input)) \<and>
          HasPrefix (ToLower (acc_Name a2)) (ToLower (TrimSpace input)) \<and>
          (\<forall>a \<in> set (filteredAccounts m) \<union> set (accounts m).
              \<not> EqualFold (acc_Name a) (TrimSpace input))"
  then have h: "\<forall>a \<in> set (filteredAccounts m) \<union> set (accounts m).
              \<not> EqualFold (acc_Name a) (TrimSpace input)" by simp
  have "prefix (ToLower (TrimSpace input)) ''acme''"
    using a by (simp add: HasPrefix_def assms(2) acme_names)
  then have c: "ToLower (TrimSpace input) = [] \<or> ToLower (TrimSpace input) = ''a'' \<or>
      ToLower (TrimSpace input) = ''ac'' \<or> ToLower (TrimSpace input) = ''acm'' \<or>
      ToLower (TrimSpace input) = ''acme''"
    by (rule prefix_acme)
  have "\<not> EqualFold (acc_Name a1) (TrimSpace input)"
    using h assms(1) by simp
  then have n: "ToLower (TrimSpace input) \<noteq> ''acme''"
    by (simp add: EqualFold_def assms(2) acme_names)
  show "resolveAccountSelection m input = None"
  proof (cases "TrimSpace input = []")
    case True
    then show ?thesis by (simp add: resolveAccountSelection_def assms(1) Let_def)
  next
    case False
    then have "ToLower (TrimSpace input) \<noteq> []" by (simp add: ToLower_def)
    then have "ToLower (TrimSpace input) = ''a'' \<or> ToLower (TrimSpace input) = ''ac'' \<or>
      ToLower (TrimSpace input) = ''acm''"
      using c n by blast
    then show ?thesis by (rule common_prefix_none[OF assms refl _ h])
  qed
qed

lemma ac_common_prefix:
  "HasPrefix (ToLower (acc_Name (accountNamed 1 ''Acme''))) (ToLower (TrimSpace ''ac''))"
  "HasPrefix (ToLower (acc_Name (accountNamed 2 ''Acme Corp''))) (ToLower (TrimSpace ''ac''))"
  by code_simp+

lemma ac_no_name:
  "\<forall>a \<in> set (filteredAccounts acmeModel) \<union> set (accounts acmeModel).
     \<not> EqualFold (acc_Name a) (TrimSpace ''ac'')"
  by code_simp

theorem acme_resolution_witness:
  "resolveAccountSelection acmeModel ''acme'' = Some (accountNamed 1 ''Acme'') \<and>
   resolveAccountSelection acmeModel ''Acme'' = Some (accountNamed 1 ''Acme'') \<and>
   resolveAccountSelection acmeModel ''ac'' = None"
proof -
  have n1: "acc_Name (accountNamed 1 ''Acme'') = ''Acme''"
    by (simp add: accountNamed_def)
  have n2: "acc_Name (accountNamed 2 ''Acme Corp'') = ''Acme Corp''"
    by (simp add: accountNamed_def)
  show ?thesis
    using acme_resolution[OF acmeModel_filtered n1 n2, of "''ac''"]
      ac_common_prefix ac_no_name by blast
qed

section \<open>Properties of the event classifier\<close>

lemma classify_filter:
  "classify s e n evs (t, u, p) =
     (t @ filter (\<lambda>ev. s \<le> ev_EventTime ev \<and> ev_EventTime ev < e) evs,
      u @ filter (\<lambda>ev. \<not> (s \<le> ev_EventTime ev \<and> ev_EventTime ev < e) \<and> n < ev_EventTime ev) evs,
      p @ filter (\<lambda>ev. \<not> (s \<le> ev_EventTime ev \<and> ev_EventTime ev < e) \<and> \<not> n < ev_EventTime ev) evs)"
proof (induction evs arbitrary: t u p)
  case Nil
  then show ?case by simp
next
  case (Cons a evs)
  show ?case by (simp add: Cons.IH not_less)
qed

lemma contract_mset: "sortSliceContract srt \<Longrightarrow> mset (srt lt xs) = mset xs"
  unfolding sortSliceContract_def by blast

lemma contract_ascending:
  assumes "sortSliceContract srt"
  shows "sorted_wrt (\<lambda>a b. ev_EventTime a \<le> ev_EventTime b)
           (srt (\<lambda>a b. ev_EventTime a < ev_EventTime b) xs)"
proof -
  have "\<exists>key :: Event \<Rightarrow> int. (\<lambda>a b. ev_EventTime a < ev_EventTime b) = (\<lambda>a b. key a < key b)"
    by (rule exI[of _ ev_EventTime]) simp
  then have "sorted_wrt (\<lambda>a b. \<not> ev_EventTime b < ev_EventTime a)
           (srt (\<lambda>a b. ev_EventTime a < ev_EventTime b) xs)"
    using assms unfolding sortSliceContract_def by blast
  then show ?thesis by (simp add: not_less)
qed

lemma contract_descending:
  assumes "sortSliceContract srt"
  shows "sorted_wrt (\<lambda>a b. ev_EventTime b \<le> ev_EventTime a)
           (srt (\<lambda>a b. ev_EventTime b < ev_EventTime a) xs)"
proof -
  have "\<exists>key :: Event \<Rightarrow> int. (\<lambda>a b. ev_EventTime b < ev_EventTime a) = (\<lambda>a b. key a < key b)"
    by (rule exI[of _ "\<lambda>ev. - ev_EventTime ev"]) simp
  then have "sorted_wrt (\<lambda>a b. \<not> ev_EventTime a < ev_EventTime b)
           (srt (\<lambda>a b. ev_EventTime b < ev_EventTime a) xs)"
    using assms unfolding sortSliceContract_def by blast
  then show ?thesis by (simp add: not_less)
qed

lemma split_buckets:
  assumes "sortSliceContract srt"
    and "SplitEvents srt events now = (today, upcoming, past)"
    and "dayStart = startOfDayAt (t_loc now) (t_instant now)"
    and "dayEnd = dayStart + day"
  shows "mset today =
           mset (filter (\<lambda>ev. dayStart \<le> ev_EventTime ev \<and> ev_EventTime ev < dayEnd) events) \<and>
         mset upcoming =
           mset (filter (\<lambda>ev. \<not> (dayStart \<le> ev_EventTime ev \<and> ev_EventTime ev < dayEnd) \<and>
                              t_instant now < ev_EventTime ev) events) \<and>
         mset past =
           mset (filter (\<lambda>ev. \<not> (dayStart \<le> ev_EventTime ev \<and> ev_EventTime ev < dayEnd) \<and>
                              \<not> t_instant now < ev_EventTime ev) events) \<and>
         sorted_wrt (\<lambda>a b. ev_EventTime a \<le> ev_EventTime b) today \<and>
         sorted_wrt (\<lambda>a b. ev_EventTime a \<le> ev_EventTime b) upcoming \<and>
         sorted_wrt (\<lambda>a b. ev_EventTime b \<le> ev_EventTime a) past"
  using assms(2) unfolding SplitEvents_def Let_def classify_filter assms(3,4)
  by (auto simp: contract_mset[OF assms(1)] contract_ascending[OF assms(1)]
      contract_descending[OF assms(1)])

lemma day_positive: "0 < day"
  by (simp add: day_def)

text \<open>
  Claim C5. With \<open>dayStart\<close> the start of the calendar day containing \<open>now\<close> in its
  zone and \<open>dayEnd = dayStart + 24h\<close>: the today bucket holds exactly the events with
  \<open>dayStart \<le> t < dayEnd\<close> (so an event at \<open>dayStart\<close> is in it and no event before
  \<open>dayStart\<close> is), the upcoming bucket exactly the others with \<open>t > now\<close>, the past
  bucket all the rest; today and upcoming are ascending by event time, past is
  descending. \<open>sort.Slice\<close> enters through its contract only.
\<close>

theorem split_events:
  assumes "sortSliceContract srt"
    and "SplitEvents srt events now = (today, upcoming, past)"
    and "dayStart = startOfDayAt (t_loc now) (t_instant now)"
    and "dayEnd = dayStart + day"
  shows "mset today =
           mset (filter (\<lambda>ev. dayStart \<le> ev_EventTime ev \<and> ev_EventTime ev < dayEnd) events) \<and>
         mset upcoming =
           mset (filter (\<lambda>ev. \<not> (dayStart \<le> ev_EventTime ev \<and> ev_EventTime ev < dayEnd) \<and>
                              t_instant now < ev_EventTime ev) events) \<and>
         mset past =
           mset (filter (\<lambda>ev. \<not> (dayStart \<le> ev_EventTime ev \<and> ev_EventTime ev < dayEnd) \<and>
                              \<not> t_instant now < ev_EventTime ev) events) \<and>
         sorted_wrt (\<lambda>a b. ev_EventTime a \<le> ev_EventTime b) today \<and>
         sorted_wrt (\<lambda>a b. ev_EventTime a \<le> ev_EventTime b) upcoming \<and>
         sorted_wrt (\<lambda>a b. ev_EventTime b \<le> ev_EventTime a) past \<and>
         (\<forall>ev \<in> set events. ev_EventTime ev = dayStart \<longrightarrow> ev \<in> set today) \<and>
         (\<forall>ev \<in> set events. ev_EventTime ev < dayStart \<longrightarrow> ev \<notin> set today)"
proof -
  note b = split_buckets[OF assms]
  from b have "set today =
      set (filter (\<lambda>ev. dayStart \<le> ev_EventTime ev \<and> ev_EventTime ev < dayEnd) events)"
    using mset_eq_setD by blast
  then have s: "set today =
      {ev \<in> set events. dayStart \<le> ev_EventTime ev \<and> ev_EventTime ev < dayEnd}"
    by simp
  have "\<forall>ev \<in> set events. ev_EventTime ev = dayStart \<longrightarrow> ev \<in> set today"
    unfolding s assms(4) using day_positive by simp
  moreover have "\<forall>ev \<in> set events. ev_EventTime ev < dayStart \<longrightarrow> ev \<notin> set today"
    unfolding s by simp
  ultimately show ?thesis using b by (intro conjI) simp_all
qed

lemma mset_insertBy: "mset (insertBy lt x ys) = add_mset x (mset ys)"
  by (induction ys) simp_all

lemma mset_insertionSort: "mset (insertionSort lt xs) = mset xs"
  by (induction xs) (simp_all add: insertionSort_def mset_insertBy)

lemma set_insertBy: "set (insertBy lt x ys) = insert x (set ys)"
  by (induction ys) auto

lemma sorted_insertBy:
  fixes key :: "Event \<Rightarrow> int"
  assumes "sorted_wrt (\<lambda>a b. key a \<le> key b) ys"
  shows "sorted_wrt (\<lambda>a b. key a \<le> key b) (insertBy (\<lambda>a b. key a < key b) x ys)"
  using assms by (induction ys) (auto simp: set_insertBy)

lemma sorted_insertionSort:
  fixes key :: "Event \<Rightarrow> int"
  shows "sorted_wrt (\<lambda>a b. key a \<le> key b) (insertionSort (\<lambda>a b. key a < key b) xs)"
  by (induction xs) (simp_all add: insertionSort_def sorted_insertBy)

lemma insertionSort_contract: "sortSliceContract insertionSort"
  unfolding sortSliceContract_def
proof (intro allI conjI impI)
  fix lt :: "Event \<Rightarrow> Event \<Rightarrow> bool" and xs
  show "mset (insertionSort lt xs) = mset xs" by (rule mset_insertionSort)
  assume "\<exists>key :: Event \<Rightarrow> int. lt = (\<lambda>a b. key a < key b)"
  then obtain key :: "Event \<Rightarrow> int" where lt: "lt = (\<lambda>a b. key a < key b)" by blast
  show "sorted_wrt (\<lambda>a b. \<not> lt b a) (insertionSort lt xs)"
    using sorted_insertionSort[of key xs] unfolding lt by (simp add: not_less)
qed

lemma sample_split:
  "SplitEvents insertionSort sampleEvents sampleNow =
     ([eventAt (10 * day), eventAt (10 * day + 7)],
      [eventAt (11 * day), eventAt (12 * day)],
      [eventAt (10 * day - 1), eventAt 3])"
  by code_simp

lemma sample_dayStart: "10 * day = startOfDayAt (t_loc sampleNow) (t_instant sampleNow)"
  by code_simp

theorem split_events_witness:
  "SplitEvents insertionSort sampleEvents sampleNow =
     ([eventAt (10 * day), eventAt (10 * day + 7)],
      [eventAt (11 * day), eventAt (12 * day)],
      [eventAt (10 * day - 1), eventAt 3]) \<and>
   10 * day = startOfDayAt (t_loc sampleNow) (t_instant sampleNow) \<and>
   mset [eventAt (10 * day), eventAt (10 * day + 7)] =
     mset (filter (\<lambda>ev. 10 * day \<le> ev_EventTime ev \<and> ev_EventTime ev < 10 * day + day)
             sampleEvents) \<and>
   sorted_wrt (\<lambda>a b. ev_EventTime a \<le> ev_EventTime b)
     [eventAt (10 * day), eventAt (10 * day + 7)] \<and>
   sorted_wrt (\<lambda>a b. ev_EventTime b \<le> ev_EventTime a) [eventAt (10 * day - 1), eventAt 3]"
  using split_events[OF insertionSort_contract sample_split sample_dayStart refl]
    sample_split sample_dayStart
  by (intro conjI) simp_all

section \<open>How the handlers move the navigation state\<close>

lemma nav_setMenuInput [simp]:
  "state (setMenuInput p l m) = state m" "prevStates (setMenuInput p l m) = prevStates m"
  by (simp_all add: setMenuInput_def Let_def)

lemma nav_ensureMenuInput [simp]:
  "state (ensureMenuInput p l m) = state m" "prevStates (ensureMenuInput p l m) = prevStates m"
  by (simp_all add: ensureMenuInput_def)

lemma nav_homeInput [simp]:
  "state (homeInput m) = state m" "prevStates (homeInput m) = prevStates m"
  by (simp_all add: homeInput_def)

lemma nav_resetMessages [simp]:
  "state (resetMessages m) = state m" "prevStates (resetMessages m) = prevStates m"
  by (simp_all add: resetMessages_def)

lemma nav_refreshAccounts [simp]:
  "state (refreshAccounts e m) = state m" "prevStates (refreshAccounts e m) = prevStates m"
  by (simp_all add: refreshAccounts_def Let_def split: sum.splits)

lemma nav_refreshDashboard [simp]:
  "state (refreshDashboard e m) = state m" "prevStates (refreshDashboard e m) = prevStates m"
  by (simp_all add: refreshDashboard_def Let_def split: sum.splits)

lemma nav_refreshAccountDetailAccount [simp]:
  "state (refreshAccountDetailAccount e m) = state m"
  "prevStates (refreshAccountDetailAccount e m) = prevStates m"
  by (simp_all add: refreshAccountDetailAccount_def split: sum.splits)

lemma nav_loadAccountActivity [simp]:
  "state (loadAccountActivity e m) = state m"
  "prevStates (loadAccountActivity e m) = prevStates m"
  by (simp_all add: loadAccountActivity_def split: sum.splits)

lemma nav_handleAccountImport [simp]:
  "state (handleAccountImport e p m) = state m"
  "prevStates (handleAccountImport e p m) = prevStates m"
  by (simp_all add: handleAccountImport_def Let_def split: import_outcome.splits)

lemma nav_applyFilter [simp]:
  "state (applyFilter e m) = state m" "prevStates (applyFilter e m) = prevStates m"
  by (simp_all add: applyFilter_def Let_def split: sum.splits)

lemma nav_clearFilter [simp]:
  "state (clearFilter m) = state m" "prevStates (clearFilter m) = prevStates m"
  by (simp_all add: clearFilter_def)

lemma nav_exitToMainMenu [simp]:
  "state (exitToMainMenu m) = stateMainMenu" "prevStates (exitToMainMenu m) = []"
  by (simp_all add: exitToMainMenu_def)

lemma nav_popAndFocus [simp]:
  "state (popAndFocus m) = state (popState m)"
  "prevStates (popAndFocus m) = prevStates (popState m)"
  by (simp_all add: popAndFocus_def Let_def)

lemma nav_pushState [simp]:
  "state (pushState s m) = s" "prevStates (pushState s m) = prevStates m @ [state m]"
  by (simp_all add: pushState_def)

lemma nav_openAccountDetail [simp]:
  "state (openAccountDetail e a m) = stateAccountDetail"
  "prevStates (openAccountDetail e a m) = prevStates m @ [state m]"
  by (simp_all add: openAccountDetail_def Let_def)

lemma state_popState [simp]: "state (popState m) = topOrMain (prevStates m)"
  by (simp add: popState_def topOrMain_def)

lemma prevStates_popState [simp]: "prevStates (popState m) = butlast (prevStates m)"
  by (simp add: popState_def)

lemma navOut_same [simp]: "navOut s ps s ps"
  by (simp add: navOut_def)

lemma navOut_pop [simp]: "navOut s ps (topOrMain ps) (butlast ps)"
  by (simp add: navOut_def)

lemma navOut_exit [simp]: "navOut s ps stateMainMenu []"
  by (simp add: navOut_def)

lemma updateDashboard_nav:
  "navOut (state m) (prevStates m) (state (updateDashboard e k m)) (prevStates (updateDashboard e k m))"
  unfolding updateDashboard_def Let_def
  by simp

lemma mainMenuAction_nav:
  "(state (fst (mainMenuAction e a m)) = state m \<and>
    prevStates (fst (mainMenuAction e a m)) = prevStates m) \<or>
   (prevStates (fst (mainMenuAction e a m)) = prevStates m @ [state m] \<and>
    (state (fst (mainMenuAction e a m)) = stateDashboard \<or>
     state (fst (mainMenuAction e a m)) = stateAccounts \<or>
     state (fst (mainMenuAction e a m)) = stateCreateAccount \<or>
     state (fst (mainMenuAction e a m)) = stateCreateChoice \<or>
     state (fst (mainMenuAction e a m)) = stateSettings))"
  unfolding mainMenuAction_def Let_def
  by simp


lemma updateMainMenu_nav:
  "(state (fst (updateMainMenu e k m)) = state m \<and>
    prevStates (fst (updateMainMenu e k m)) = prevStates m) \<or>
   (prevStates (fst (updateMainMenu e k m)) = prevStates m @ [state m] \<and>
    (state (fst (updateMainMenu e k m)) = stateDashboard \<or>
     state (fst (updateMainMenu e k m)) = stateAccounts \<or>
     state (fst (updateMainMenu e k m)) = stateCreateAccount \<or>
     state (fst (updateMainMenu e k m)) = stateCreateChoice \<or>
     state (fst (updateMainMenu e k m)) = stateSettings))"
proof (cases "k = KeyEnter")
  case False
  then show ?thesis by (simp add: updateMainMenu_def Let_def)
next
  case True
  let ?m2 = "(ensureMenuInput ''Choose an option'' 32 m)
        \<lparr>menuInput := ti_Update k (menuInput (ensureMenuInput ''Choose an option'' 32 m))\<rparr>"
  let ?m3 = "?m2\<lparr>menuInput := SetValue [] (menuInput ?m2), showSplash := False\<rparr>"
  have n: "state ?m3 = state m" "prevStates ?m3 = prevStates m" by simp_all
  show ?thesis
  proof (cases "resolveMainMenuSelection (TrimSpace (ToLower (ti_value (menuInput ?m2))))")
    case None
    then show ?thesis using True by (simp add: updateMainMenu_def Let_def)
  next
    case (Some a)
    then have "fst (updateMainMenu e k m) = fst (mainMenuAction e a ?m3)"
      using True by (simp add: updateMainMenu_def Let_def)
    then show ?thesis using mainMenuAction_nav[of e a ?m3] unfolding n by simp
  qed
qed

lemma accountsEnter_nav:
  "navOut (state m) (prevStates m) (state (accountsEnter e m)) (prevStates (accountsEnter e m)) \<or>
   (prevStates (accountsEnter e m) = prevStates m @ [state m] \<and>
    state (accountsEnter e m) = stateAccountDetail)"
  unfolding accountsEnter_def Let_def
  by (simp split: option.splits)

lemma updateAccounts_nav:
  "navOut (state m) (prevStates m) (state (updateAccounts e k m)) (prevStates (updateAccounts e k m)) \<or>
   (prevStates (updateAccounts e k m) = prevStates m @ [state m] \<and>
    state (updateAccounts e k m) = stateAccountDetail)"
proof (cases k)
  case KeyEnter
  then show ?thesis
    using accountsEnter_nav[of "m\<lparr>accountFilter := ti_Update k (accountFilter m)\<rparr>" e]
    by (simp add: updateAccounts_def)
qed (simp_all add: updateAccounts_def)

lemma nav_formFocus [simp]:
  "state (formFocus m) = state m" "prevStates (formFocus m) = prevStates m"
  by (simp_all add: formFocus_def)

lemma nav_formCancel [simp]:
  "state (formCancel m) = topOrMain (prevStates m)"
  "prevStates (formCancel m) = butlast (prevStates m)"
  by (simp_all add: formCancel_def Let_def)

lemma nav_formSaved [simp]:
  "state (formSaved e m) = topOrMain (prevStates m)"
  "prevStates (formSaved e m) = butlast (prevStates m)"
  by (simp_all add: formSaved_def Let_def)

lemma formDuplicate_nav:
  "formDuplicate shown m = Some m1 \<Longrightarrow> state m1 = state m \<and> prevStates m1 = prevStates m"
  by (auto simp: formDuplicate_def Let_def split: option.splits)

lemma formSubmit_nav:
  assumes "formSubmit e m = Some m1"
  shows "navOut (state m) (prevStates m) (state m1) (prevStates m1)"
  using assms unfolding formSubmit_def Let_def
  by (auto split: if_splits prod.splits option.splits dest!: formDuplicate_nav)

lemma formEnter_nav:
  assumes "formEnter e m = Some m1"
  shows "navOut (state m) (prevStates m) (state m1) (prevStates m1)"
  using assms unfolding formEnter_def Let_def
  by (auto split: if_splits option.splits dest!: formSubmit_nav)

lemma updateAccountForm_nav:
  assumes "updateAccountForm e k m = Some m1"
  shows "navOut (state m) (prevStates m) (state m1) (prevStates m1)"
  using assms unfolding updateAccountForm_def Let_def
  by (cases k) (auto dest!: formEnter_nav)


lemma detailAction_nav:
  "navOut (state m) (prevStates m) (state (detailAction e a m)) (prevStates (detailAction e a m)) \<or>
   (prevStates (detailAction e a m) = prevStates m @ [state m] \<and>
    (state (detailAction e a m) = stateCreateNote \<or>
     state (detailAction e a m) = stateCreateEvent \<or>
     state (detailAction e a m) = stateCreateAccount))"
  unfolding detailAction_def Let_def
  by simp

lemma updateAccountDetail_nav:
  "navOut (state m) (prevStates m) (state (updateAccountDetail e k m))
     (prevStates (updateAccountDetail e k m)) \<or>
   (prevStates (updateAccountDetail e k m) = prevStates m @ [state m] \<and>
    (state (updateAccountDetail e k m) = stateCreateNote \<or>
     state (updateAccountDetail e k m) = stateCreateEvent \<or>
     state (updateAccountDetail e k m) = stateCreateAccount))"
proof (cases k)
  case KeyEnter
  let ?m2 = "(ensureMenuInput detailPlaceholder 64 m)
        \<lparr>menuInput := ti_Update k (menuInput (ensureMenuInput detailPlaceholder 64 m))\<rparr>"
  let ?m3 = "?m2\<lparr>menuInput := SetValue [] (menuInput ?m2)\<rparr>"
  let ?m4 = "?m3\<lparr>accountDetail := (accountDetail ?m3)\<lparr>ad_err := []\<rparr>\<rparr>"
  have n: "state ?m4 = state m" "prevStates ?m4 = prevStates m" by simp_all
  show ?thesis
  proof (cases "resolveAccountDetailAction (TrimSpace (ToLower (ti_value (menuInput ?m2))))")
    case None
    then show ?thesis using KeyEnter by (simp add: updateAccountDetail_def Let_def)
  next
    case (Some a)
    then have "updateAccountDetail e k m = detailAction e a ?m4"
      using KeyEnter by (simp add: updateAccountDetail_def Let_def)
    then show ?thesis using detailAction_nav[of ?m4 e a] unfolding n by simp
  qed
qed (simp_all add: updateAccountDetail_def Let_def)

lemma updateCreateChoice_nav:
  "navOut (state m) (prevStates m) (state (updateCreateChoice e k m))
     (prevStates (updateCreateChoice e k m)) \<or>
   (prevStates (updateCreateChoice e k m) = prevStates m \<and>
    (state (updateCreateChoice e k m) = stateCreateNote \<or>
     state (updateCreateChoice e k m) = stateCreateEvent))"
  unfolding updateCreateChoice_def Let_def
  by simp

lemma nav_saveNote [simp]:
  "state (snd (saveNote e a m)) = state m" "prevStates (snd (saveNote e a m)) = prevStates m"
  by (simp_all add: saveNote_def Let_def split: prod.splits)

lemma nav_completeNoteSave [simp]:
  "state (completeNoteSave e msg m) = topOrMain (prevStates m)"
  "prevStates (completeNoteSave e msg m) = butlast (prevStates m)"
  by (simp_all add: completeNoteSave_def Let_def)

lemma nav_noteSetErr [simp]:
  "state (noteSetErr x m) = state m" "prevStates (noteSetErr x m) = prevStates m"
  by (simp_all add: noteSetErr_def)

lemma nav_noteSetStage [simp]:
  "state (noteSetStage x m) = state m" "prevStates (noteSetStage x m) = prevStates m"
  by (simp_all add: noteSetStage_def)

lemma nav_noteExit [simp]:
  "state (noteExit m) = stateMainMenu" "prevStates (noteExit m) = []"
  by (simp_all add: noteExit_def)

lemma noteSaveThen_nav [simp]:
  "navOut (state m) (prevStates m) (state (noteSaveThen e a msg m))
     (prevStates (noteSaveThen e a msg m))"
proof (cases "saveNote e a m")
  case (Pair err m1)
  have "state m1 = state m" "prevStates m1 = prevStates m"
    using nav_saveNote[of e a m] Pair by simp_all
  then show ?thesis using Pair by (cases err) (simp_all add: noteSaveThen_def)
qed

lemma noteSaveThen_nav_upd:
  "state m1 = s \<Longrightarrow> prevStates m1 = ps \<Longrightarrow>
   navOut s ps (state (noteSaveThen e a msg m1)) (prevStates (noteSaveThen e a msg m1))"
  using noteSaveThen_nav[of m1 e a msg] by simp

lemma noteContentEnter_nav:
  "navOut (state m) (prevStates m) (state (noteContentEnter e m)) (prevStates (noteContentEnter e m))"
  unfolding noteContentEnter_def Let_def
  by (simp add: noteSaveThen_nav_upd split: option.splits)

lemma notePromptEnter_nav:
  "navOut (state m) (prevStates m) (state (notePromptEnter e m)) (prevStates (notePromptEnter e m))"
  unfolding notePromptEnter_def Let_def
  by (simp add: noteSaveThen_nav_upd)

lemma noteChooseEnter_nav:
  "navOut (state m) (prevStates m) (state (noteChooseEnter e m)) (prevStates (noteChooseEnter e m))"
  unfolding noteChooseEnter_def Let_def
  by (simp add: noteSaveThen_nav_upd split: sum.splits)

lemma navOut_upd:
  "state m1 = s \<Longrightarrow> prevStates m1 = ps \<Longrightarrow>
   navOut (state m1) (prevStates m1) s1 ps1 \<Longrightarrow> navOut s ps s1 ps1"
  by simp

lemma updateNoteWizard_nav:
  "navOut (state m) (prevStates m) (state (updateNoteWizard e k m))
     (prevStates (updateNoteWizard e k m))"
  unfolding updateNoteWizard_def Let_def
  by (cases "nw_stage (noteWizard m)")
     (auto intro!: navOut_upd[OF _ _ noteContentEnter_nav] navOut_upd[OF _ _ notePromptEnter_nav]
        navOut_upd[OF _ _ noteChooseEnter_nav])


lemma nav_saveEvent [simp]:
  "state (snd (saveEvent e a m)) = state m" "prevStates (snd (saveEvent e a m)) = prevStates m"
  by (simp_all add: saveEvent_def Let_def split: prod.splits option.splits)

lemma nav_completeEventSave [simp]:
  "state (completeEventSave e msg m) = topOrMain (prevStates m)"
  "prevStates (completeEventSave e msg m) = butlast (prevStates m)"
  by (simp_all add: completeEventSave_def Let_def)

lemma nav_eventSetErr [simp]:
  "state (eventSetErr x m) = state m" "prevStates (eventSetErr x m) = prevStates m"
  by (simp_all add: eventSetErr_def)

lemma nav_eventSetStage [simp]:
  "state (eventSetStage x m) = state m" "prevStates (eventSetStage x m) = prevStates m"
  by (simp_all add: eventSetStage_def)

lemma nav_eventExit [simp]:
  "state (eventExit m) = stateMainMenu" "prevStates (eventExit m) = []"
  by (simp_all add: eventExit_def)

lemma eventSaveThen_nav:
  "navOut (state m) (prevStates m) (state (eventSaveThen e a msg m))
     (prevStates (eventSaveThen e a msg m))"
proof (cases "saveEvent e a m")
  case (Pair err m1)
  have "state m1 = state m" "prevStates m1 = prevStates m"
    using nav_saveEvent[of e a m] Pair by simp_all
  then show ?thesis using Pair by (cases err) (simp_all add: eventSaveThen_def)
qed

lemma eventSaveThen_nav_upd:
  "state m1 = s \<Longrightarrow> prevStates m1 = ps \<Longrightarrow>
   navOut s ps (state (eventSaveThen e a msg m1)) (prevStates (eventSaveThen e a msg m1))"
  using eventSaveThen_nav[of m1 e a msg] by simp

lemma eventTitleEnter_nav:
  "navOut (state m) (prevStates m) (state (eventTitleEnter e m)) (prevStates (eventTitleEnter e m))"
  unfolding eventTitleEnter_def Let_def
  by simp

lemma eventDetailsEnter_nav:
  "navOut (state m) (prevStates m) (state (eventDetailsEnter e m))
     (prevStates (eventDetailsEnter e m))"
  unfolding eventDetailsEnter_def Let_def
  by simp

lemma eventScheduleEnter_nav:
  "navOut (state m) (prevStates m) (state (eventScheduleEnter e m))
     (prevStates (eventScheduleEnter e m))"
  unfolding eventScheduleEnter_def Let_def
  by (simp add: eventSaveThen_nav_upd split: option.splits)

lemma eventPromptEnter_nav:
  "navOut (state m) (prevStates m) (state (eventPromptEnter e m))
     (prevStates (eventPromptEnter e m))"
  unfolding eventPromptEnter_def Let_def
  by (simp add: eventSaveThen_nav_upd)

lemma eventChooseEnter_nav:
  "navOut (state m) (prevStates m) (state (eventChooseEnter e m))
     (prevStates (eventChooseEnter e m))"
  unfolding eventChooseEnter_def Let_def
  by (simp add: eventSaveThen_nav_upd split: sum.splits)

lemma updateEventWizard_nav:
  "navOut (state m) (prevStates m) (state (updateEventWizard e k m))
     (prevStates (updateEventWizard e k m))"
  unfolding updateEventWizard_def Let_def
  by (cases "ew_stage (eventWizard m)")
     (auto intro!: navOut_upd[OF _ _ eventTitleEnter_nav] navOut_upd[OF _ _ eventDetailsEnter_nav]
        navOut_upd[OF _ _ eventScheduleEnter_nav] navOut_upd[OF _ _ eventPromptEnter_nav]
        navOut_upd[OF _ _ eventChooseEnter_nav])

lemma nav_settingsSetErr [simp]:
  "state (settingsSetErr x m) = state m" "prevStates (settingsSetErr x m) = prevStates m"
  by (simp_all add: settingsSetErr_def)

lemma nav_settingsSetMode [simp]:
  "state (settingsSetMode x m) = state m" "prevStates (settingsSetMode x m) = prevStates m"
  by (simp_all add: settingsSetMode_def)

lemma nav_settingsEdit [simp]:
  "state (settingsEdit x y m) = state m" "prevStates (settingsEdit x y m) = prevStates m"
  by (simp_all add: settingsEdit_def)

lemma nav_settingsSaved [simp]:
  "state (settingsSaved e x m) = state m" "prevStates (settingsSaved e x m) = prevStates m"
  by (simp_all add: settingsSaved_def split: option.splits)

lemma settingsViewingEnter_nav:
  "navOut (state m) (prevStates m) (state (settingsViewingEnter e m))
     (prevStates (settingsViewingEnter e m))"
  unfolding settingsViewingEnter_def Let_def
  by simp

lemma settingsNameEnter_nav:
  "navOut (state m) (prevStates m) (state (settingsNameEnter e m))
     (prevStates (settingsNameEnter e m))"
  unfolding settingsNameEnter_def Let_def
  by simp

lemma settingsTimezoneEnter_nav:
  "navOut (state m) (prevStates m) (state (settingsTimezoneEnter e m))
     (prevStates (settingsTimezoneEnter e m))"
  unfolding settingsTimezoneEnter_def Let_def
  by simp

lemma updateSettings_nav:
  "navOut (state m) (prevStates m) (state (updateSettings e k m))
     (prevStates (updateSettings e k m))"
  unfolding updateSettings_def Let_def
  by (cases "sm_mode (settings m)")
     (auto intro!: navOut_upd[OF _ _ settingsViewingEnter_nav]
        navOut_upd[OF _ _ settingsNameEnter_nav] navOut_upd[OF _ _ settingsTimezoneEnter_nav])

lemma navShape_out:
  assumes "navShape s ps" "navOut s ps s1 ps1"
  shows "navShape s1 ps1"
  using assms unfolding navShape_def navOut_def topOrMain_def
  by (elim disjE conjE; simp)

lemma navShape_settings_states:
  "navShape s ps \<Longrightarrow> s \<noteq> stateSettingsEditName \<and> s \<noteq> stateSettingsEditTimezone"
  by (auto simp: navShape_def)

lemma windowSize_nav:
  "state (case k of WindowSizeMsg w h \<Rightarrow> m\<lparr>width := w, height := h\<rparr> | _ \<Rightarrow> m) = state m"
  "prevStates (case k of WindowSizeMsg w h \<Rightarrow> m\<lparr>width := w, height := h\<rparr> | _ \<Rightarrow> m) = prevStates m"
  by (cases k; simp)+

lemma Update_navShape:
  assumes shape: "navShape (state m) (prevStates m)" and upd: "Update e k m = Some (m1, quit)"
  shows "navShape (state m1) (prevStates m1)"
proof (cases "k = KeyCtrlC")
  case True
  then show ?thesis using shape upd by (simp add: Update_def)
next
  case False
  define m0 where "m0 = (case k of WindowSizeMsg w h \<Rightarrow> m\<lparr>width := w, height := h\<rparr> | _ \<Rightarrow> m)"
  have n0: "state m0 = state m" "prevStates m0 = prevStates m"
    unfolding m0_def by (rule windowSize_nav)+
  have shape0: "navShape (state m0) (prevStates m0)" using shape n0 by simp
  have u: "(case state m0 of
              stateMainMenu \<Rightarrow> Some (updateMainMenu e k m0)
            | stateDashboard \<Rightarrow> Some (updateDashboard e k m0, False)
            | stateAccounts \<Rightarrow> Some (updateAccounts e k m0, False)
            | stateAccountDetail \<Rightarrow> Some (updateAccountDetail e k m0, False)
            | stateCreateAccount \<Rightarrow> map_option (\<lambda>r. (r, False)) (updateAccountForm e k m0)
            | stateCreateChoice \<Rightarrow> Some (updateCreateChoice e k m0, False)
            | stateCreateNote \<Rightarrow> Some (updateNoteWizard e k m0, False)
            | stateCreateEvent \<Rightarrow> Some (updateEventWizard e k m0, False)
            | stateSettings \<Rightarrow> Some (updateSettings e k m0, False)
            | stateSettingsEditName \<Rightarrow> Some (updateSettings e k m0, False)
            | stateSettingsEditTimezone \<Rightarrow> Some (updateSettings e k m0, False)) = Some (m1, quit)"
    using upd False unfolding Update_def m0_def Let_def by simp
  show ?thesis
  proof (cases "state m0")
    case stateMainMenu
    then have m1: "m1 = fst (updateMainMenu e k m0)" using u by (simp add: fst_def split: prod.splits)
    have ps: "prevStates m0 = []" using shape0 stateMainMenu by (simp add: navShape_def)
    show ?thesis
      using updateMainMenu_nav[of e k m0] shape0 unfolding m1 stateMainMenu ps
      by (auto simp: navShape_def)
  next
    case stateDashboard
    then have "m1 = updateDashboard e k m0" using u by simp
    then show ?thesis using navShape_out[OF shape0 updateDashboard_nav] by simp
  next
    case stateAccounts
    then have m1: "m1 = updateAccounts e k m0" using u by simp
    have ps: "prevStates m0 = [stateMainMenu]" using shape0 stateAccounts by (simp add: navShape_def)
    show ?thesis using updateAccounts_nav[of m0 e k] navShape_out[OF shape0]
      unfolding m1 stateAccounts ps by (auto simp: navShape_def)
  next
    case stateAccountDetail
    then have m1: "m1 = updateAccountDetail e k m0" using u by simp
    have ps: "prevStates m0 = [stateMainMenu, stateAccounts]"
      using shape0 stateAccountDetail by (simp add: navShape_def)
    show ?thesis using updateAccountDetail_nav[of m0 e k] navShape_out[OF shape0]
      unfolding m1 stateAccountDetail ps by (auto simp: navShape_def)
  next
    case stateCreateAccount
    then have "updateAccountForm e k m0 = Some m1" using u by auto
    then show ?thesis using navShape_out[OF shape0 updateAccountForm_nav] by simp
  next
    case stateCreateChoice
    then have m1: "m1 = updateCreateChoice e k m0" using u by simp
    have ps: "prevStates m0 = [stateMainMenu]"
      using shape0 stateCreateChoice by (simp add: navShape_def)
    show ?thesis using updateCreateChoice_nav[of m0 e k] navShape_out[OF shape0]
      unfolding m1 stateCreateChoice ps by (auto simp: navShape_def)
  next
    case stateCreateNote
    then have "m1 = updateNoteWizard e k m0" using u by simp
    then show ?thesis using navShape_out[OF shape0 updateNoteWizard_nav] by simp
  next
    case stateCreateEvent
    then have "m1 = updateEventWizard e k m0" using u by simp
    then show ?thesis using navShape_out[OF shape0 updateEventWizard_nav] by simp
  next
    case stateSettings
    then have "m1 = updateSettings e k m0" using u by simp
    then show ?thesis using navShape_out[OF shape0 updateSettings_nav] by simp
  next
    case stateSettingsEditName
    then show ?thesis using navShape_settings_states[OF shape0] by simp
  next
    case stateSettingsEditTimezone
    then show ?thesis using navShape_settings_states[OF shape0] by simp
  qed
qed

lemma newModel_nav: "state (newModel e c db) = stateMainMenu" "prevStates (newModel e c db) = []"
  by (simp_all add: newModel_def Let_def)

lemma reachable_navShape: "reachable m \<Longrightarrow> navShape (state m) (prevStates m)"
proof (induction rule: reachable.induct)
  case (init e c db)
  then show ?case by (simp add: newModel_nav navShape_def)
next
  case (step m e k m1 quit)
  then show ?case using Update_navShape by blast
qed

lemma navShape_not_in_stack: "navShape s ps \<Longrightarrow> s \<notin> set ps"
  unfolding navShape_def by (elim disjE conjE; simp)

text \<open>
  Claim C9. In every session state reachable from the initial model by processing
  messages, the active view is not an element of the navigation stack.
\<close>

theorem active_view_not_in_stack: "reachable m \<Longrightarrow> state m \<notin> set (prevStates m)"
  by (rule navShape_not_in_stack[OF reachable_navShape])

section \<open>Runs\<close>

lemma run_reachable: "reachable m \<Longrightarrow> run steps m = Some m1 \<Longrightarrow> reachable m1"
proof (induction steps arbitrary: m)
  case Nil
  then show ?case by simp
next
  case (Cons a steps)
  obtain e k where a: "a = (e, k)" by (cases a)
  show ?case
  proof (cases "Update e k m")
    case None
    then show ?thesis using Cons.prems(2) a by simp
  next
    case (Some r)
    obtain m2 quit where r: "r = (m2, quit)" by (cases r)
    have m2: "reachable m2" using reachable.step[OF Cons.prems(1)] Some r by blast
    show ?thesis
    proof (cases quit)
      case True
      then show ?thesis using Cons.prems(2) a Some r m2 by simp
    next
      case False
      then have "run steps m2 = Some m1" using Cons.prems(2) a Some r by simp
      then show ?thesis using Cons.IH[OF m2] by simp
    qed
  qed
qed

lemma after_reachable: "reachable m \<Longrightarrow> reachable (after steps m)"
  unfolding after_def using run_reachable by (cases "run steps m") auto

lemma freshModel_reachable: "reachable freshModel"
  unfolding freshModel_def by (rule reachable.init)

lemma acmeModel_reachable: "reachable acmeModel"
  unfolding acmeModel_def by (rule reachable.init)

lemma after_Some: "run steps m = Some m1 \<Longrightarrow> after steps m = m1"
  by (simp add: after_def)

section \<open>The note wizard\<close>

lemma dropWhile_self: "xs = [] \<or> \<not> P (hd xs) \<Longrightarrow> dropWhile P xs = xs"
  by (cases xs) auto

lemma hd_dropWhile_not: "dropWhile P s = [] \<or> \<not> P (hd (dropWhile P s))"
  using hd_dropWhile by blast

lemma trimmed_head:
  assumes "t = [] \<or> \<not> P (hd t)"
  shows "rev (dropWhile P (rev t)) = [] \<or> \<not> P (hd (rev (dropWhile P (rev t))))"
proof (cases "dropWhile P (rev t) = []")
  case True
  then show ?thesis by simp
next
  case False
  have "rev t = takeWhile P (rev t) @ dropWhile P (rev t)" by simp
  then have "t = rev (dropWhile P (rev t)) @ rev (takeWhile P (rev t))"
    by (metis rev_append rev_rev_ident)
  then have "hd t = hd (rev (dropWhile P (rev t)))"
    using False by (metis hd_append2 rev_is_Nil_conv)
  moreover have "t \<noteq> []" using False by auto
  ultimately show ?thesis using assms by simp
qed

lemma TrimSpace_idem: "TrimSpace (TrimSpace s) = TrimSpace s"
proof -
  let ?t = "dropWhile isSpace s"
  let ?u = "rev (dropWhile isSpace (rev ?t))"
  have "?u = [] \<or> \<not> isSpace (hd ?u)"
    by (rule trimmed_head[OF hd_dropWhile_not])
  then have "dropWhile isSpace ?u = ?u" by (rule dropWhile_self)
  then show ?thesis by (simp add: TrimSpace_def)
qed

lemma ti_Update_Enter [simp]: "ti_Update KeyEnter ti = ti"
  by (simp add: ti_Update_def)

lemma ensureFocus_focused [simp]: "ti_focus ti \<Longrightarrow> ensureFocus ti = ti"
  by (simp add: ensureFocus_def)

lemma kept_setMenuInput [simp]:
  "store (setMenuInput p l m) = store m" "cfg (setMenuInput p l m) = cfg m"
  "infoMessage (setMenuInput p l m) = infoMessage m"
  "noteWizard (setMenuInput p l m) = noteWizard m"
  by (simp_all add: setMenuInput_def Let_def)

lemma kept_ensureMenuInput [simp]:
  "store (ensureMenuInput p l m) = store m" "cfg (ensureMenuInput p l m) = cfg m"
  "infoMessage (ensureMenuInput p l m) = infoMessage m"
  "noteWizard (ensureMenuInput p l m) = noteWizard m"
  by (simp_all add: ensureMenuInput_def)

lemma kept_homeInput [simp]:
  "store (homeInput m) = store m" "cfg (homeInput m) = cfg m"
  "infoMessage (homeInput m) = infoMessage m" "noteWizard (homeInput m) = noteWizard m"
  by (simp_all add: homeInput_def)

lemma kept_popState [simp]:
  "store (popState m) = store m" "cfg (popState m) = cfg m"
  "infoMessage (popState m) = infoMessage m" "noteWizard (popState m) = noteWizard m"
  by (simp_all add: popState_def)

lemma kept_refreshDashboard [simp]:
  "store (refreshDashboard e m) = store m" "cfg (refreshDashboard e m) = cfg m"
  "infoMessage (refreshDashboard e m) = infoMessage m"
  "noteWizard (refreshDashboard e m) = noteWizard m"
  by (simp_all add: refreshDashboard_def Let_def split: sum.splits)

lemma kept_refreshAccountDetailAccount [simp]:
  "store (refreshAccountDetailAccount e m) = store m"
  "cfg (refreshAccountDetailAccount e m) = cfg m"
  "infoMessage (refreshAccountDetailAccount e m) = infoMessage m"
  "noteWizard (refreshAccountDetailAccount e m) = noteWizard m"
  by (simp_all add: refreshAccountDetailAccount_def split: sum.splits)

lemma kept_loadAccountActivity [simp]:
  "store (loadAccountActivity e m) = store m" "cfg (loadAccountActivity e m) = cfg m"
  "infoMessage (loadAccountActivity e m) = infoMessage m"
  "noteWizard (loadAccountActivity e m) = noteWizard m"
  by (simp_all add: loadAccountActivity_def split: sum.splits)

lemma completeNoteSave_result:
  "store (completeNoteSave e msg m) = store m"
  "infoMessage (completeNoteSave e msg m) = msg"
  "noteWizard (completeNoteSave e msg m) = newNoteWizard None"
  by (simp_all add: completeNoteSave_def Let_def)

lemma n_answer:
  "ToLower (TrimSpace ''n'') = ''n''" "\<not> isExitCommand ''n''" "\<not> isBackCommand ''n''"
  by code_simp+

lemma one_choice: "TrimSpace (ToLower ''1'') = ''1''"
  by code_simp

lemma choice_placeholder: "TrimSpace ''1=Note  2=Event  3=Back'' = ''1=Note  2=Event  3=Back''"
  by code_simp

lemma ensureMenuInput_ready:
  assumes "0 < l" and "TrimSpace p = p"
  shows "TrimSpace (ti_Placeholder (menuInput (ensureMenuInput p l m))) = p"
    and "ti_CharLimit (menuInput (ensureMenuInput p l m)) = l"
    and "ti_focus (menuInput (ensureMenuInput p l m))"
  using assms
  by (simp_all add: ensureMenuInput_def setMenuInput_def Focus_def textinput_New_def Let_def)

lemma ensureMenuInput_again:
  assumes "TrimSpace (ti_Placeholder (menuInput m)) = p" and "ti_CharLimit (menuInput m) = l"
    and "ti_focus (menuInput m)"
  shows "ensureMenuInput p l m = m"
  using assms by (simp add: ensureMenuInput_def)

text \<open>The create-choice view hands over to a fresh note wizard without pushing itself.\<close>

lemma choice_starts_note_wizard:
  assumes "state m = stateCreateChoice"
  shows "\<exists>m1 m2. Update e1 (KeyOther ''1'') m = Some (m1, False) \<and>
           Update e2 KeyEnter m1 = Some (m2, False) \<and>
           state m2 = stateCreateNote \<and> noteWizard m2 = newNoteWizard None \<and>
           prevStates m2 = prevStates m \<and> store m2 = store m \<and> cfg m2 = cfg m"
proof -
  let ?p = "''1=Note  2=Event  3=Back''"
  let ?m0 = "ensureMenuInput ?p 32 m"
  let ?m1 = "?m0\<lparr>menuInput := (menuInput ?m0)\<lparr>ti_value := ''1''\<rparr>\<rparr>"
  have rdy: "TrimSpace (ti_Placeholder (menuInput ?m0)) = ?p" "ti_CharLimit (menuInput ?m0) = 32"
    "ti_focus (menuInput ?m0)"
    using ensureMenuInput_ready[of 32 ?p m] choice_placeholder by simp_all
  have s1: "Update e1 (KeyOther ''1'') m = Some (?m1, False)"
    using assms rdy(3) by (simp add: Update_def updateCreateChoice_def Let_def ti_Update_def)
  have again: "ensureMenuInput ?p 32 ?m1 = ?m1"
    by (rule ensureMenuInput_again) (simp_all add: rdy)
  let ?m2 = "?m1\<lparr>menuInput := SetValue [] (menuInput ?m1), noteWizard := newNoteWizard None,
                 state := stateCreateNote\<rparr>"
  have st1: "state ?m1 = stateCreateChoice" using assms by simp
  have u2: "Update e2 KeyEnter ?m1 = Some (updateCreateChoice e2 KeyEnter ?m1, False)"
    using st1 by (simp add: Update_def)
  have "updateCreateChoice e2 KeyEnter ?m1 = ?m2"
    unfolding updateCreateChoice_def again Let_def by (simp add: one_choice)
  then have s2: "Update e2 KeyEnter ?m1 = Some (?m2, False)"
    using u2 by simp
  have "state ?m2 = stateCreateNote" "noteWizard ?m2 = newNoteWizard None"
    "prevStates ?m2 = prevStates m" "store ?m2 = store m" "cfg ?m2 = cfg m"
    by simp_all
  then show ?thesis using s1 s2 by blast
qed

lemma fresh_note_wizard:
  "nw_stage (newNoteWizard a) = noteStageContent"
  "ti_focus (nw_contentInput (newNoteWizard a))"
  "nw_presetAccount (newNoteWizard a) = a"
  by (simp_all add: newNoteWizard_def Focus_def)

lemma note_content_typed:
  assumes "state m = stateCreateNote" and "noteWizard m = newNoteWizard None"
  shows "Update e (KeyOther c) m =
           Some (m\<lparr>noteWizard :=
                    (noteWizard m)\<lparr>nw_contentInput :=
                                      (nw_contentInput (noteWizard m))\<lparr>ti_value := c\<rparr>\<rparr>\<rparr>, False)"
  using assms
  by (simp add: Update_def updateNoteWizard_def Let_def fresh_note_wizard ti_Update_def)

lemma note_content_accepted:
  assumes "state m = stateCreateNote" and "nw_stage (noteWizard m) = noteStageContent"
    and "ti_focus (nw_contentInput (noteWizard m))"
    and "nw_presetAccount (noteWizard m) = None"
    and "v = TrimSpace (ti_value (nw_contentInput (noteWizard m)))"
    and "v \<noteq> []" and "\<not> isExitCommand v" and "\<not> isBackCommand v"
  shows "Update e KeyEnter m =
           Some (m\<lparr>noteWizard := (noteWizard m)\<lparr>nw_err := [],
                                                   nw_stage := noteStageAssociatePrompt\<rparr>\<rparr>, False)"
  using assms
  by (simp add: Update_def updateNoteWizard_def noteContentEnter_def Let_def noteSetErr_def
      noteSetStage_def)

lemma note_answer_typed:
  assumes "state m = stateCreateNote" and "nw_stage (noteWizard m) = noteStageAssociatePrompt"
  shows "Update e (KeyOther a) m =
           Some (m\<lparr>noteWizard :=
                    (noteWizard m)\<lparr>nw_associateInput :=
                                      (nw_associateInput (noteWizard m))\<lparr>ti_focus := True,
                                                                         ti_value := a\<rparr>\<rparr>\<rparr>, False)"
  using assms
  by (simp add: Update_def updateNoteWizard_def Let_def ti_Update_def ensureFocus_def Focus_def)

lemma CreateNote_ok:
  assumes "TrimSpace c \<noteq> []" and "t \<noteq> 0 \<or> env_now e = t"
    and "env_exec e (InsertNote c a who t) = Inr i"
  shows "CreateNote e \<lparr>note_ID = 0, note_Content = c, note_AccountID = a, note_Creator = who,
                        note_CreatedAt = t, note_AccountName = None\<rparr> db =
           (None, db @ [InsertNote c a who t])"
  using assms by (auto simp: CreateNote_def Let_def)

lemma note_declined_saved:
  assumes "state m = stateCreateNote" and "nw_stage (noteWizard m) = noteStageAssociatePrompt"
    and "ti_focus (nw_associateInput (noteWizard m))"
    and "ToLower (TrimSpace (ti_value (nw_associateInput (noteWizard m)))) = ''n''"
    and "v = TrimSpace (ti_value (nw_contentInput (noteWizard m)))" and "v \<noteq> []"
    and "env_exec e (InsertNote v None (cfg_Name (cfg m)) (env_now e)) = Inr i"
  shows "\<exists>m1. Update e KeyEnter m = Some (m1, False) \<and>
           store m1 = store m @ [InsertNote v None (cfg_Name (cfg m)) (env_now e)] \<and>
           infoMessage m1 = ''Note saved'' \<and> noteWizard m1 = newNoteWizard None \<and>
           state m1 = topOrMain (prevStates m) \<and> prevStates m1 = butlast (prevStates m)"
proof -
  let ?m1 = "m\<lparr>noteWizard :=
               (noteWizard m)\<lparr>nw_associateInput := SetValue [] (nw_associateInput (noteWizard m)),
                              nw_associate := False\<rparr>\<rparr>"
  let ?q = "InsertNote v None (cfg_Name (cfg m)) (env_now e)"
  have tv: "TrimSpace v \<noteq> []" using assms(5,6) by (simp add: TrimSpace_idem)
  have sv: "saveNote e None ?m1 = (None, ?m1\<lparr>store := store m @ [?q]\<rparr>)"
    using CreateNote_ok[OF tv _ assms(7), of "store m"] assms(5)
    by (simp add: saveNote_def Let_def)
  have "notePromptEnter e m = completeNoteSave e ''Note saved'' (?m1\<lparr>store := store m @ [?q]\<rparr>)"
    using assms(4) sv
    by (simp add: notePromptEnter_def Let_def n_answer noteSaveThen_def)
  then have u: "Update e KeyEnter m =
      Some (completeNoteSave e ''Note saved'' (?m1\<lparr>store := store m @ [?q]\<rparr>), False)"
    using assms(1,2,3) by (simp add: Update_def updateNoteWizard_def Let_def)
  show ?thesis
    unfolding u by (simp add: completeNoteSave_result)
qed


lemma choice_over_main_menu:
  assumes "navShape (state m) (prevStates m)" and "state m = stateCreateChoice"
  shows "prevStates m = [stateMainMenu]"
  using assms by (auto simp: navShape_def)

text \<open>
  Claim C7, as stated, fails: the view that was active when the wizard started is the
  create-choice view, and the session does not return to it.
\<close>

theorem note_wizard_return_counterexample:
  "state (after toCreateChoice freshModel) = stateCreateChoice \<and>
   state (after (typed quietEnv ''1'') (after toCreateChoice freshModel)) = stateCreateNote \<and>
   nw_presetAccount (noteWizard (after (typed quietEnv ''1'') (after toCreateChoice freshModel)))
     = None \<and>
   state (after noteDeclined (after toCreateChoice freshModel)) \<noteq> stateCreateChoice"
  by code_simp

text \<open>
  Claim C7, amended. A note wizard without preset account is started from the
  create-choice view, which replaces itself by the wizard instead of pushing itself.
  Choosing the note wizard there, entering non-empty ASCII content (no escape token) and
  answering \<open>n\<close> at the associate prompt, with the database accepting the insert, saves
  a note with no account, sets the message \<open>Note saved\<close>, resets the wizard to its
  fresh state and pops the navigation stack: the session is back at the main menu, the
  view that was active before the create-choice view, with an empty stack.
\<close>

theorem note_wizard_unassociated:
  assumes "reachable m" and "state m = stateCreateChoice"
    and "v = TrimSpace content" and "v \<noteq> []"
    and "\<not> isExitCommand v" and "\<not> isBackCommand v"
    and "env_exec e6 (InsertNote v None (cfg_Name (cfg m)) (env_now e6)) = Inr i"
    and "isASCII content"
  shows "\<exists>m1. run [(e1, KeyOther ''1''), (e2, KeyEnter), (e3, KeyOther content), (e4, KeyEnter),
                   (e5, KeyOther ''n''), (e6, KeyEnter)] m = Some m1 \<and>
           store m1 = store m @ [InsertNote v None (cfg_Name (cfg m)) (env_now e6)] \<and>
           infoMessage m1 = ''Note saved'' \<and> noteWizard m1 = newNoteWizard None \<and>
           state m1 = stateMainMenu \<and> prevStates m1 = []"
proof -
  obtain ma mb where a: "Update e1 (KeyOther ''1'') m = Some (ma, False)"
    and b: "Update e2 KeyEnter ma = Some (mb, False)"
    and mb: "state mb = stateCreateNote" "noteWizard mb = newNoteWizard None"
      "prevStates mb = prevStates m" "store mb = store m" "cfg mb = cfg m"
    using choice_starts_note_wizard[OF assms(2), of e1 e2] by blast
  define mc where "mc = mb\<lparr>noteWizard :=
      (noteWizard mb)\<lparr>nw_contentInput := (nw_contentInput (noteWizard mb))\<lparr>ti_value := content\<rparr>\<rparr>\<rparr>"
  have c: "Update e3 (KeyOther content) mb = Some (mc, False)"
    unfolding mc_def by (rule note_content_typed[OF mb(1,2)])
  have mc: "state mc = stateCreateNote" "nw_stage (noteWizard mc) = noteStageContent"
    "ti_focus (nw_contentInput (noteWizard mc))" "nw_presetAccount (noteWizard mc) = None"
    "v = TrimSpace (ti_value (nw_contentInput (noteWizard mc)))"
    "prevStates mc = prevStates m" "store mc = store m" "cfg mc = cfg m"
    unfolding mc_def using mb assms(3) by (simp_all add: fresh_note_wizard)
  define md where "md = mc\<lparr>noteWizard := (noteWizard mc)\<lparr>nw_err := [],
      nw_stage := noteStageAssociatePrompt\<rparr>\<rparr>"
  have d: "Update e4 KeyEnter mc = Some (md, False)"
    unfolding md_def by (rule note_content_accepted[OF mc(1,2,3,4,5) assms(4,5,6)])
  have md: "state md = stateCreateNote" "nw_stage (noteWizard md) = noteStageAssociatePrompt"
    "v = TrimSpace (ti_value (nw_contentInput (noteWizard md)))"
    "prevStates md = prevStates m" "store md = store m" "cfg md = cfg m"
    unfolding md_def using mc by simp_all
  define me where "me = md\<lparr>noteWizard :=
      (noteWizard md)\<lparr>nw_associateInput :=
         (nw_associateInput (noteWizard md))\<lparr>ti_focus := True, ti_value := ''n''\<rparr>\<rparr>\<rparr>"
  have e: "Update e5 (KeyOther ''n'') md = Some (me, False)"
    unfolding me_def by (rule note_answer_typed[OF md(1,2)])
  have me: "state me = stateCreateNote" "nw_stage (noteWizard me) = noteStageAssociatePrompt"
    "ti_focus (nw_associateInput (noteWizard me))"
    "ToLower (TrimSpace (ti_value (nw_associateInput (noteWizard me)))) = ''n''"
    "v = TrimSpace (ti_value (nw_contentInput (noteWizard me)))"
    "prevStates me = prevStates m" "store me = store m" "cfg me = cfg m"
    unfolding me_def using md by (simp_all add: n_answer)
  have ex: "env_exec e6 (InsertNote v None (cfg_Name (cfg me)) (env_now e6)) = Inr i"
    using assms(7) me(8) by simp
  obtain mf where f: "Update e6 KeyEnter me = Some (mf, False)"
    and mf: "store mf = store me @ [InsertNote v None (cfg_Name (cfg me)) (env_now e6)]"
      "infoMessage mf = ''Note saved''" "noteWizard mf = newNoteWizard None"
      "state mf = topOrMain (prevStates me)" "prevStates mf = butlast (prevStates me)"
    using note_declined_saved[OF me(1,2,3,4,5) assms(4) ex] by blast
  have ps: "prevStates m = [stateMainMenu]"
    by (rule choice_over_main_menu[OF reachable_navShape[OF assms(1)] assms(2)])
  have r: "run [(e1, KeyOther ''1''), (e2, KeyEnter), (e3, KeyOther content), (e4, KeyEnter),
                   (e5, KeyOther ''n''), (e6, KeyEnter)] m = Some mf"
    using a b c d e f by simp
  show ?thesis
    using r mf me(6,7,8) ps by (simp add: topOrMain_def)
qed

lemma choice_reached: "state (after toCreateChoice freshModel) = stateCreateChoice"
  by code_simp

lemma follow_up_content: "''Follow up'' = TrimSpace ''Follow up''" "''Follow up'' \<noteq> []"
  "\<not> isExitCommand ''Follow up''" "\<not> isBackCommand ''Follow up''"
  by code_simp+

lemma follow_up_ascii: "isASCII ''Follow up''"
  by code_simp

lemma choice_store: "store (after toCreateChoice freshModel) = []"
  "cfg_Name (cfg (after toCreateChoice freshModel)) = ''sam''"
  by code_simp+

lemma follow_up_insert:
  "env_exec quietEnv (InsertNote ''Follow up'' None
     (cfg_Name (cfg (after toCreateChoice freshModel))) (env_now quietEnv)) = Inr 1"
  by (simp add: quietEnv_def)

theorem note_wizard_unassociated_witness:
  "state (after toCreateChoice freshModel) = stateCreateChoice \<and>
   store (after noteDeclined (after toCreateChoice freshModel)) =
     [InsertNote ''Follow up'' None ''sam'' 1000] \<and>
   infoMessage (after noteDeclined (after toCreateChoice freshModel)) = ''Note saved'' \<and>
   noteWizard (after noteDeclined (after toCreateChoice freshModel)) = newNoteWizard None \<and>
   state (after noteDeclined (after toCreateChoice freshModel)) = stateMainMenu \<and>
   prevStates (after noteDeclined (after toCreateChoice freshModel)) = []"
proof -
  let ?m = "after toCreateChoice freshModel"
  have r: "reachable ?m" by (rule after_reachable[OF freshModel_reachable])
  obtain m1 where run: "run noteDeclined ?m = Some m1"
    and m1: "store m1 = store ?m @ [InsertNote ''Follow up'' None (cfg_Name (cfg ?m)) (env_now quietEnv)]"
      "infoMessage m1 = ''Note saved''" "noteWizard m1 = newNoteWizard None"
      "state m1 = stateMainMenu" "prevStates m1 = []"
    using note_wizard_unassociated[OF r choice_reached follow_up_content follow_up_insert
        follow_up_ascii,
        of quietEnv quietEnv quietEnv quietEnv quietEnv]
    unfolding noteDeclined_def typed_def by auto
  have "env_now quietEnv = 1000" by (simp add: quietEnv_def)
  then show ?thesis
    using m1 choice_reached choice_store unfolding after_Some[OF run] by simp
qed

section \<open>Inputs keep the focus\<close>

text \<open>
  In every state a session can reach, the content input of the note wizard and the title
  input of the event wizard have the focus, the other inputs of the wizards have it as
  soon as they hold text, and the settings input has it while a setting is edited.
\<close>

lemma focus_SetValue [simp]: "ti_focus (SetValue s ti) = ti_focus ti"
  by (simp add: SetValue_def)

lemma focus_Focus [simp]: "ti_focus (Focus ti)"
  by (simp add: Focus_def)

lemma focus_ti_Update [simp]: "ti_focus (ti_Update k ti) = ti_focus ti"
  by (cases k) (simp_all add: ti_Update_def)

lemma focus_ensureFocus [simp]: "ti_focus (ensureFocus ti)"
  by (simp add: ensureFocus_def)

lemma value_SetValue_empty [simp]: "ti_value (SetValue [] ti) = []"
  by (simp add: SetValue_def)

lemma noteReady_new [simp]: "noteReady (newNoteWizard a)"
  by (simp add: noteReady_def newNoteWizard_def textinput_New_def)

lemma eventReady_new [simp]: "eventReady (newEventWizard a)"
  by (simp add: eventReady_def newEventWizard_def textinput_New_def)

text \<open>Helpers that leave the wizards and the settings alone.\<close>

lemma wiz_setMenuInput [simp]:
  "noteWizard (setMenuInput p l m) = noteWizard m"
  "eventWizard (setMenuInput p l m) = eventWizard m"
  "settings (setMenuInput p l m) = settings m"
  by (simp_all add: setMenuInput_def Let_def)

lemma wiz_ensureMenuInput [simp]:
  "noteWizard (ensureMenuInput p l m) = noteWizard m"
  "eventWizard (ensureMenuInput p l m) = eventWizard m"
  "settings (ensureMenuInput p l m) = settings m"
  by (simp_all add: ensureMenuInput_def)

lemma wiz_homeInput [simp]:
  "noteWizard (homeInput m) = noteWizard m" "eventWizard (homeInput m) = eventWizard m"
  "settings (homeInput m) = settings m"
  by (simp_all add: homeInput_def)

lemma wiz_popState [simp]:
  "noteWizard (popState m) = noteWizard m" "eventWizard (popState m) = eventWizard m"
  "settings (popState m) = settings m"
  by (simp_all add: popState_def)

lemma wiz_pushState [simp]:
  "noteWizard (pushState s m) = noteWizard m" "eventWizard (pushState s m) = eventWizard m"
  "settings (pushState s m) = settings m"
  by (simp_all add: pushState_def)

lemma wiz_resetMessages [simp]:
  "noteWizard (resetMessages m) = noteWizard m" "eventWizard (resetMessages m) = eventWizard m"
  "settings (resetMessages m) = settings m"
  by (simp_all add: resetMessages_def)

lemma wiz_exitToMainMenu [simp]:
  "noteWizard (exitToMainMenu m) = noteWizard m" "eventWizard (exitToMainMenu m) = eventWizard m"
  "settings (exitToMainMenu m) = settings m"
  by (simp_all add: exitToMainMenu_def)

lemma wiz_popAndFocus [simp]:
  "noteWizard (popAndFocus m) = noteWizard m" "eventWizard (popAndFocus m) = eventWizard m"
  "settings (popAndFocus m) = settings m"
  by (simp_all add: popAndFocus_def Let_def)

lemma wiz_refreshAccounts [simp]:
  "noteWizard (refreshAccounts e m) = noteWizard m"
  "eventWizard (refreshAccounts e m) = eventWizard m"
  "settings (refreshAccounts e m) = settings m"
  by (simp_all add: refreshAccounts_def Let_def split: sum.splits)

lemma wiz_refreshDashboard [simp]:
  "noteWizard (refreshDashboard e m) = noteWizard m"
  "eventWizard (refreshDashboard e m) = eventWizard m"
  "settings (refreshDashboard e m) = settings m"
  by (simp_all add: refreshDashboard_def Let_def split: sum.splits)

lemma wiz_refreshAccountDetailAccount [simp]:
  "noteWizard (refreshAccountDetailAccount e m) = noteWizard m"
  "eventWizard (refreshAccountDetailAccount e m) = eventWizard m"
  "settings (refreshAccountDetailAccount e m) = settings m"
  by (simp_all add: refreshAccountDetailAccount_def split: sum.splits)

lemma wiz_loadAccountActivity [simp]:
  "noteWizard (loadAccountActivity e m) = noteWizard m"
  "eventWizard (loadAccountActivity e m) = eventWizard m"
  "settings (loadAccountActivity e m) = settings m"
  by (simp_all add: loadAccountActivity_def split: sum.splits)

lemma wiz_handleAccountImport [simp]:
  "noteWizard (handleAccountImport e p m) = noteWizard m"
  "eventWizard (handleAccountImport e p m) = eventWizard m"
  "settings (handleAccountImport e p m) = settings m"
  by (simp_all add: handleAccountImport_def Let_def split: import_outcome.splits)

lemma wiz_applyFilter [simp]:
  "noteWizard (applyFilter e m) = noteWizard m" "eventWizard (applyFilter e m) = eventWizard m"
  "settings (applyFilter e m) = settings m"
  by (simp_all add: applyFilter_def Let_def split: sum.splits)

lemma wiz_clearFilter [simp]:
  "noteWizard (clearFilter m) = noteWizard m" "eventWizard (clearFilter m) = eventWizard m"
  "settings (clearFilter m) = settings m"
  by (simp_all add: clearFilter_def)

lemma wiz_openAccountDetail [simp]:
  "noteWizard (openAccountDetail e a m) = noteWizard m"
  "eventWizard (openAccountDetail e a m) = eventWizard m"
  "settings (openAccountDetail e a m) = settings m"
  by (simp_all add: openAccountDetail_def Let_def)

lemma wiz_formFocus [simp]:
  "noteWizard (formFocus m) = noteWizard m" "eventWizard (formFocus m) = eventWizard m"
  "settings (formFocus m) = settings m"
  by (simp_all add: formFocus_def)

lemma wiz_formCancel [simp]:
  "noteWizard (formCancel m) = noteWizard m" "eventWizard (formCancel m) = eventWizard m"
  "settings (formCancel m) = settings m"
  by (simp_all add: formCancel_def Let_def)

lemma wiz_formSaved [simp]:
  "noteWizard (formSaved e m) = noteWizard m" "eventWizard (formSaved e m) = eventWizard m"
  "settings (formSaved e m) = settings m"
  by (simp_all add: formSaved_def Let_def)

lemma inputsReady_cong:
  "noteWizard m1 = noteWizard m \<Longrightarrow> eventWizard m1 = eventWizard m \<Longrightarrow>
   settings m1 = settings m \<Longrightarrow> inputsReady m1 = inputsReady m"
  by (simp add: inputsReady_def)

lemma mainMenuAction_ready:
  "inputsReady m \<Longrightarrow> inputsReady (fst (mainMenuAction e a m))"
  unfolding mainMenuAction_def Let_def inputsReady_def
  by (simp add: settingsReady_def)

lemma updateMainMenu_ready:
  "inputsReady m \<Longrightarrow> inputsReady (fst (updateMainMenu e k m))"
  unfolding updateMainMenu_def Let_def
  by (auto simp: inputsReady_def split: option.splits
      intro!: mainMenuAction_ready[unfolded inputsReady_def])


lemma updateDashboard_ready: "inputsReady m \<Longrightarrow> inputsReady (updateDashboard e k m)"
  unfolding updateDashboard_def Let_def inputsReady_def
  by simp

lemma accountsEnter_ready: "inputsReady m \<Longrightarrow> inputsReady (accountsEnter e m)"
  unfolding accountsEnter_def Let_def inputsReady_def
  by (simp split: option.splits)

lemma updateAccounts_ready: "inputsReady m \<Longrightarrow> inputsReady (updateAccounts e k m)"
  unfolding updateAccounts_def Let_def
  by (cases k) (auto simp: inputsReady_def intro!: accountsEnter_ready[unfolded inputsReady_def])

lemma formDuplicate_wiz:
  "formDuplicate shown m = Some m1 \<Longrightarrow>
   noteWizard m1 = noteWizard m \<and> eventWizard m1 = eventWizard m \<and> settings m1 = settings m"
  by (auto simp: formDuplicate_def Let_def split: option.splits)

lemma formSubmit_wiz:
  "formSubmit e m = Some m1 \<Longrightarrow>
   noteWizard m1 = noteWizard m \<and> eventWizard m1 = eventWizard m \<and> settings m1 = settings m"
  unfolding formSubmit_def Let_def
  by (auto split: if_splits prod.splits option.splits dest!: formDuplicate_wiz)

lemma formEnter_wiz:
  "formEnter e m = Some m1 \<Longrightarrow>
   noteWizard m1 = noteWizard m \<and> eventWizard m1 = eventWizard m \<and> settings m1 = settings m"
  unfolding formEnter_def Let_def
  by (auto split: if_splits option.splits dest!: formSubmit_wiz)

lemma updateAccountForm_ready:
  "inputsReady m \<Longrightarrow> updateAccountForm e k m = Some m1 \<Longrightarrow> inputsReady m1"
  unfolding updateAccountForm_def Let_def
  by (cases k) (auto simp: inputsReady_def dest!: formEnter_wiz)

lemma detailAction_ready: "inputsReady m \<Longrightarrow> inputsReady (detailAction e a m)"
  unfolding detailAction_def Let_def inputsReady_def
  by simp

lemma updateAccountDetail_ready: "inputsReady m \<Longrightarrow> inputsReady (updateAccountDetail e k m)"
  unfolding updateAccountDetail_def Let_def
  by (cases k)
     (auto simp: inputsReady_def split: option.splits
        intro!: detailAction_ready[unfolded inputsReady_def])

lemma updateCreateChoice_ready: "inputsReady m \<Longrightarrow> inputsReady (updateCreateChoice e k m)"
  unfolding updateCreateChoice_def Let_def inputsReady_def
  by simp


lemma noteReady_upd [simp]:
  "noteReady (w\<lparr>nw_err := x\<rparr>) = noteReady w"
  "noteReady (w\<lparr>nw_stage := st\<rparr>) = noteReady w"
  "noteReady (w\<lparr>nw_associate := b\<rparr>) = noteReady w"
  "noteReady (w\<lparr>nw_accountInput := ti\<rparr>) = noteReady w"
  by (simp_all add: noteReady_def)

lemma eventReady_upd [simp]:
  "eventReady (w\<lparr>ew_err := x\<rparr>) = eventReady w"
  "eventReady (w\<lparr>ew_stage := st\<rparr>) = eventReady w"
  "eventReady (w\<lparr>ew_associate := b\<rparr>) = eventReady w"
  "eventReady (w\<lparr>ew_accountInput := ti\<rparr>) = eventReady w"
  "eventReady (w\<lparr>ew_detailsInput := ti\<rparr>) = eventReady w"
  by (simp_all add: eventReady_def)

lemma settingsReady_upd [simp]:
  "settingsReady (s\<lparr>sm_err := x\<rparr>) = settingsReady s"
  by (simp add: settingsReady_def)

lemma ready_saveNote:
  "inputsReady m \<Longrightarrow> inputsReady (snd (saveNote e a m))"
  by (simp add: saveNote_def Let_def inputsReady_def split: prod.splits)

lemma ready_completeNoteSave:
  "inputsReady m \<Longrightarrow> inputsReady (completeNoteSave e msg m)"
  by (simp add: completeNoteSave_def Let_def inputsReady_def)

lemma ready_noteSetErr [simp]: "inputsReady (noteSetErr x m) = inputsReady m"
  by (simp add: noteSetErr_def inputsReady_def)

lemma ready_noteSetStage [simp]: "inputsReady (noteSetStage x m) = inputsReady m"
  by (simp add: noteSetStage_def inputsReady_def)

lemma ready_noteExit: "inputsReady m \<Longrightarrow> inputsReady (noteExit m)"
  by (simp add: noteExit_def inputsReady_def)

lemma ready_noteSaveThen: "inputsReady m \<Longrightarrow> inputsReady (noteSaveThen e a msg m)"
proof -
  assume r: "inputsReady m"
  obtain err m1 where s: "saveNote e a m = (err, m1)" by (cases "saveNote e a m")
  have "inputsReady m1" using ready_saveNote[OF r, of e a] s by simp
  then show ?thesis using s by (cases err) (simp_all add: noteSaveThen_def ready_completeNoteSave)
qed

lemma ready_popAndFocus [simp]: "inputsReady (popAndFocus m) = inputsReady m"
  by (simp add: inputsReady_def)

lemma ready_exitToMainMenu [simp]: "inputsReady (exitToMainMenu m) = inputsReady m"
  by (simp add: inputsReady_def)

lemma ready_fresh_note [simp]:
  "inputsReady m \<Longrightarrow> inputsReady (m\<lparr>noteWizard := newNoteWizard a\<rparr>)"
  by (simp add: inputsReady_def)

lemma ready_fresh_event [simp]:
  "inputsReady m \<Longrightarrow> inputsReady (m\<lparr>eventWizard := newEventWizard a\<rparr>)"
  by (simp add: inputsReady_def)

lemma noteContentEnter_ready: "inputsReady m \<Longrightarrow> inputsReady (noteContentEnter e m)"
  unfolding noteContentEnter_def Let_def
  by (simp add: noteExit_def ready_noteSaveThen split: option.splits)

lemma ready_note_upd:
  "inputsReady m \<Longrightarrow> noteReady w \<Longrightarrow> inputsReady (m\<lparr>noteWizard := w\<rparr>)"
  by (simp add: inputsReady_def)

lemma ready_noteD: "inputsReady m \<Longrightarrow> noteReady (noteWizard m)"
  by (simp add: inputsReady_def)

lemma notePromptEnter_ready:
  assumes "inputsReady m" and "ti_focus (nw_associateInput (noteWizard m))"
  shows "inputsReady (notePromptEnter e m)"
proof -
  have w: "noteReady ((noteWizard m)\<lparr>nw_associateInput :=
                SetValue [] (nw_associateInput (noteWizard m))\<rparr>)"
    using ready_noteD[OF assms(1)] by (simp add: noteReady_def)
  have m1: "inputsReady (m\<lparr>noteWizard := (noteWizard m)\<lparr>nw_associateInput :=
                SetValue [] (nw_associateInput (noteWizard m))\<rparr>\<rparr>)"
    by (rule ready_note_upd[OF assms(1) w])
  show ?thesis
    unfolding notePromptEnter_def Let_def
    using m1 w assms(1)
    by (simp add: noteExit_def ready_noteSaveThen ready_note_upd)
qed

lemma noteChooseEnter_ready: "inputsReady m \<Longrightarrow> inputsReady (noteChooseEnter e m)"
  unfolding noteChooseEnter_def Let_def
  by (simp add: noteExit_def ready_noteSaveThen split: sum.splits)

lemma updateNoteWizard_ready:
  assumes "inputsReady m"
  shows "inputsReady (updateNoteWizard e k m)"
proof (cases "nw_stage (noteWizard m)")
  case noteStageContent
  define m1 where "m1 = m\<lparr>noteWizard := (noteWizard m)\<lparr>nw_contentInput :=
      ti_Update k (ensureFocus (nw_contentInput (noteWizard m)))\<rparr>\<rparr>"
  have "noteReady (noteWizard m1)"
    unfolding m1_def using ready_noteD[OF assms] by (simp add: noteReady_def)
  then have r: "inputsReady m1"
    using assms unfolding m1_def inputsReady_def by simp
  have "updateNoteWizard e k m = (if k = KeyEnter then noteContentEnter e m1 else m1)"
    using noteStageContent by (simp add: updateNoteWizard_def Let_def m1_def)
  then show ?thesis using r by (simp add: noteContentEnter_ready)
next
  case noteStageAssociatePrompt
  define m1 where "m1 = m\<lparr>noteWizard := (noteWizard m)\<lparr>nw_associateInput :=
      ti_Update k (ensureFocus (nw_associateInput (noteWizard m)))\<rparr>\<rparr>"
  have f: "ti_focus (nw_associateInput (noteWizard m1))" unfolding m1_def by simp
  have "noteReady (noteWizard m1)"
    unfolding m1_def using ready_noteD[OF assms] by (simp add: noteReady_def)
  then have r: "inputsReady m1"
    using assms unfolding m1_def inputsReady_def by simp
  have "updateNoteWizard e k m = (if k = KeyEnter then notePromptEnter e m1 else m1)"
    using noteStageAssociatePrompt by (simp add: updateNoteWizard_def Let_def m1_def)
  then show ?thesis using r notePromptEnter_ready[OF r f] by simp
next
  case noteStageAssociateChoose
  define m1 where "m1 = m\<lparr>noteWizard := (noteWizard m)\<lparr>nw_accountInput :=
      ti_Update k (ensureFocus (nw_accountInput (noteWizard m)))\<rparr>\<rparr>"
  have "noteReady (noteWizard m1)"
    unfolding m1_def using ready_noteD[OF assms] by simp
  then have r: "inputsReady m1"
    using assms unfolding m1_def inputsReady_def by simp
  have "updateNoteWizard e k m = (if k = KeyEnter then noteChooseEnter e m1 else m1)"
    using noteStageAssociateChoose by (simp add: updateNoteWizard_def Let_def m1_def)
  then show ?thesis using r by (simp add: noteChooseEnter_ready)
qed


lemma ready_saveEvent:
  "inputsReady m \<Longrightarrow> inputsReady (snd (saveEvent e a m))"
  by (simp add: saveEvent_def Let_def inputsReady_def split: prod.splits option.splits)

lemma ready_completeEventSave:
  "inputsReady m \<Longrightarrow> inputsReady (completeEventSave e msg m)"
  by (simp add: completeEventSave_def Let_def inputsReady_def)

lemma ready_eventSetErr [simp]: "inputsReady (eventSetErr x m) = inputsReady m"
  by (simp add: eventSetErr_def inputsReady_def)

lemma ready_eventSetStage [simp]: "inputsReady (eventSetStage x m) = inputsReady m"
  by (simp add: eventSetStage_def inputsReady_def)

lemma ready_eventSaveThen: "inputsReady m \<Longrightarrow> inputsReady (eventSaveThen e a msg m)"
proof -
  assume r: "inputsReady m"
  obtain err m1 where s: "saveEvent e a m = (err, m1)" by (cases "saveEvent e a m")
  have "inputsReady m1" using ready_saveEvent[OF r, of e a] s by simp
  then show ?thesis using s by (cases err) (simp_all add: eventSaveThen_def ready_completeEventSave)
qed

lemma ready_event_upd:
  "inputsReady m \<Longrightarrow> eventReady w \<Longrightarrow> inputsReady (m\<lparr>eventWizard := w\<rparr>)"
  by (simp add: inputsReady_def)

lemma ready_eventD: "inputsReady m \<Longrightarrow> eventReady (eventWizard m)"
  by (simp add: inputsReady_def)

lemma eventTitleEnter_ready: "inputsReady m \<Longrightarrow> inputsReady (eventTitleEnter e m)"
  unfolding eventTitleEnter_def Let_def
  by (simp add: eventExit_def)

lemma eventDetailsEnter_ready: "inputsReady m \<Longrightarrow> inputsReady (eventDetailsEnter e m)"
  unfolding eventDetailsEnter_def Let_def
  by (simp add: eventExit_def)

lemma eventScheduleEnter_ready: "inputsReady m \<Longrightarrow> inputsReady (eventScheduleEnter e m)"
  unfolding eventScheduleEnter_def Let_def
  by (simp add: eventExit_def ready_eventSaveThen split: option.splits)

lemma eventPromptEnter_ready:
  assumes "inputsReady m" and "ti_focus (ew_associateInput (eventWizard m))"
  shows "inputsReady (eventPromptEnter e m)"
proof -
  have w: "eventReady ((eventWizard m)\<lparr>ew_associateInput :=
                SetValue [] (ew_associateInput (eventWizard m))\<rparr>)"
    using ready_eventD[OF assms(1)] by (simp add: eventReady_def)
  have m1: "inputsReady (m\<lparr>eventWizard := (eventWizard m)\<lparr>ew_associateInput :=
                SetValue [] (ew_associateInput (eventWizard m))\<rparr>\<rparr>)"
    by (rule ready_event_upd[OF assms(1) w])
  show ?thesis
    unfolding eventPromptEnter_def Let_def
    using m1 w assms(1)
    by (simp add: eventExit_def ready_eventSaveThen ready_event_upd)
qed

lemma eventChooseEnter_ready: "inputsReady m \<Longrightarrow> inputsReady (eventChooseEnter e m)"
  unfolding eventChooseEnter_def Let_def
  by (simp add: eventExit_def ready_eventSaveThen split: sum.splits)

lemma updateEventWizard_ready:
  assumes "inputsReady m"
  shows "inputsReady (updateEventWizard e k m)"
proof (cases "ew_stage (eventWizard m)")
  case eventStageTitle
  define m1 where "m1 = m\<lparr>eventWizard := (eventWizard m)\<lparr>ew_titleInput :=
      ti_Update k (ensureFocus (ew_titleInput (eventWizard m)))\<rparr>\<rparr>"
  have "eventReady (eventWizard m1)"
    unfolding m1_def using ready_eventD[OF assms] by (simp add: eventReady_def)
  then have r: "inputsReady m1"
    using assms unfolding m1_def inputsReady_def by simp
  have "updateEventWizard e k m = (if k = KeyEnter then eventTitleEnter e m1 else m1)"
    using eventStageTitle by (simp add: updateEventWizard_def Let_def m1_def)
  then show ?thesis using r by (simp add: eventTitleEnter_ready)
next
  case eventStageDetails
  define m1 where "m1 = m\<lparr>eventWizard := (eventWizard m)\<lparr>ew_detailsInput :=
      ti_Update k (ensureFocus (ew_detailsInput (eventWizard m)))\<rparr>\<rparr>"
  have "eventReady (eventWizard m1)"
    unfolding m1_def using ready_eventD[OF assms] by simp
  then have r: "inputsReady m1"
    using assms unfolding m1_def inputsReady_def by simp
  have "updateEventWizard e k m = (if k = KeyEnter then eventDetailsEnter e m1 else m1)"
    using eventStageDetails by (simp add: updateEventWizard_def Let_def m1_def)
  then show ?thesis using r by (simp add: eventDetailsEnter_ready)
next
  case eventStageSchedule
  define m1 where "m1 = m\<lparr>eventWizard := (eventWizard m)\<lparr>ew_scheduleInput :=
      ti_Update k (ensureFocus (ew_scheduleInput (eventWizard m)))\<rparr>\<rparr>"
  have "eventReady (eventWizard m1)"
    unfolding m1_def using ready_eventD[OF assms] by (simp add: eventReady_def)
  then have r: "inputsReady m1"
    using assms unfolding m1_def inputsReady_def by simp
  have "updateEventWizard e k m = (if k = KeyEnter then eventScheduleEnter e m1 else m1)"
    using eventStageSchedule by (simp add: updateEventWizard_def Let_def m1_def)
  then show ?thesis using r by (simp add: eventScheduleEnter_ready)
next
  case eventStageAssociatePrompt
  define m1 where "m1 = m\<lparr>eventWizard := (eventWizard m)\<lparr>ew_associateInput :=
      ti_Update k (ensureFocus (ew_associateInput (eventWizard m)))\<rparr>\<rparr>"
  have f: "ti_focus (ew_associateInput (eventWizard m1))" unfolding m1_def by simp
  have "eventReady (eventWizard m1)"
    unfolding m1_def using ready_eventD[OF assms] by (simp add: eventReady_def)
  then have r: "inputsReady m1"
    using assms unfolding m1_def inputsReady_def by simp
  have "updateEventWizard e k m = (if k = KeyEnter then eventPromptEnter e m1 else m1)"
    using eventStageAssociatePrompt by (simp add: updateEventWizard_def Let_def m1_def)
  then show ?thesis using r eventPromptEnter_ready[OF r f] by simp
next
  case eventStageAssociateChoose
  define m1 where "m1 = m\<lparr>eventWizard := (eventWizard m)\<lparr>ew_accountInput :=
      ti_Update k (ensureFocus (ew_accountInput (eventWizard m)))\<rparr>\<rparr>"
  have "eventReady (eventWizard m1)"
    unfolding m1_def using ready_eventD[OF assms] by simp
  then have r: "inputsReady m1"
    using assms unfolding m1_def inputsReady_def by simp
  have "updateEventWizard e k m = (if k = KeyEnter then eventChooseEnter e m1 else m1)"
    using eventStageAssociateChoose by (simp add: updateEventWizard_def Let_def m1_def)
  then show ?thesis using r by (simp add: eventChooseEnter_ready)
qed

lemma ready_settingsSetErr [simp]: "inputsReady (settingsSetErr x m) = inputsReady m"
  by (simp add: settingsSetErr_def inputsReady_def)

lemma ready_settingsSetMode_viewing:
  "inputsReady m \<Longrightarrow> inputsReady (settingsSetMode settingsViewing m)"
  by (simp add: settingsSetMode_def inputsReady_def settingsReady_def)

lemma ready_settingsEdit: "inputsReady m \<Longrightarrow> inputsReady (settingsEdit md shown m)"
  by (simp add: settingsEdit_def inputsReady_def settingsReady_def)

lemma ready_settingsSaved: "inputsReady m \<Longrightarrow> inputsReady (settingsSaved e msg m)"
  by (simp add: settingsSaved_def settingsSetErr_def inputsReady_def settingsReady_def
           split: option.splits)

lemma ready_cfg_upd [simp]: "inputsReady (m\<lparr>cfg := c\<rparr>) = inputsReady m"
  by (simp add: inputsReady_def)

lemma ready_menuInput_upd [simp]: "inputsReady (m\<lparr>menuInput := c\<rparr>) = inputsReady m"
  by (simp add: inputsReady_def)

lemma settingsViewingEnter_ready: "inputsReady m \<Longrightarrow> inputsReady (settingsViewingEnter e m)"
  unfolding settingsViewingEnter_def Let_def
  by (simp add: ready_settingsEdit)

lemma settingsNameEnter_ready: "inputsReady m \<Longrightarrow> inputsReady (settingsNameEnter e m)"
  unfolding settingsNameEnter_def Let_def
  by (simp add: ready_settingsSetMode_viewing ready_settingsSaved)

lemma settingsTimezoneEnter_ready: "inputsReady m \<Longrightarrow> inputsReady (settingsTimezoneEnter e m)"
  unfolding settingsTimezoneEnter_def Let_def
  by (simp add: ready_settingsSetMode_viewing ready_settingsSaved)

lemma ready_ensureMenuInput [simp]: "inputsReady (ensureMenuInput p l m) = inputsReady m"
  by (simp add: inputsReady_def)

lemma updateSettings_ready:
  assumes "inputsReady m"
  shows "inputsReady (updateSettings e k m)"
proof (cases "sm_mode (settings m)")
  case settingsViewing
  then show ?thesis using assms
    by (simp add: updateSettings_def Let_def settingsViewingEnter_ready)
next
  case settingsEditingName
  define m1 where "m1 = m\<lparr>settings := (settings m)\<lparr>sm_input :=
      ti_Update k (ensureFocus (sm_input (settings m)))\<rparr>\<rparr>"
  have r: "inputsReady m1"
    using assms unfolding m1_def inputsReady_def by (simp add: settingsReady_def)
  have "updateSettings e k m = (if k = KeyEnter then settingsNameEnter e m1 else m1)"
    using settingsEditingName by (simp add: updateSettings_def Let_def m1_def)
  then show ?thesis using r by (simp add: settingsNameEnter_ready)
next
  case settingsEditingTimezone
  define m1 where "m1 = m\<lparr>settings := (settings m)\<lparr>sm_input :=
      ti_Update k (ensureFocus (sm_input (settings m)))\<rparr>\<rparr>"
  have r: "inputsReady m1"
    using assms unfolding m1_def inputsReady_def by (simp add: settingsReady_def)
  have "updateSettings e k m = (if k = KeyEnter then settingsTimezoneEnter e m1 else m1)"
    using settingsEditingTimezone by (simp add: updateSettings_def Let_def m1_def)
  then show ?thesis using r by (simp add: settingsTimezoneEnter_ready)
qed

lemma ready_window:
  "inputsReady (case k of WindowSizeMsg w h \<Rightarrow> m\<lparr>width := w, height := h\<rparr> | _ \<Rightarrow> m) = inputsReady m"
  by (cases k) (simp_all add: inputsReady_def)

lemma Update_ready:
  assumes r: "inputsReady m" and upd: "Update e k m = Some (m1, quit)"
  shows "inputsReady m1"
proof (cases "k = KeyCtrlC")
  case True
  then show ?thesis using r upd by (simp add: Update_def)
next
  case False
  define m0 where "m0 = (case k of WindowSizeMsg w h \<Rightarrow> m\<lparr>width := w, height := h\<rparr> | _ \<Rightarrow> m)"
  have r0: "inputsReady m0" unfolding m0_def using r by (simp add: ready_window)
  have u: "(case state m0 of
              stateMainMenu \<Rightarrow> Some (updateMainMenu e k m0)
            | stateDashboard \<Rightarrow> Some (updateDashboard e k m0, False)
            | stateAccounts \<Rightarrow> Some (updateAccounts e k m0, False)
            | stateAccountDetail \<Rightarrow> Some (updateAccountDetail e k m0, False)
            | stateCreateAccount \<Rightarrow> map_option (\<lambda>r. (r, False)) (updateAccountForm e k m0)
            | stateCreateChoice \<Rightarrow> Some (updateCreateChoice e k m0, False)
            | stateCreateNote \<Rightarrow> Some (updateNoteWizard e k m0, False)
            | stateCreateEvent \<Rightarrow> Some (updateEventWizard e k m0, False)
            | stateSettings \<Rightarrow> Some (updateSettings e k m0, False)
            | stateSettingsEditName \<Rightarrow> Some (updateSettings e k m0, False)
            | stateSettingsEditTimezone \<Rightarrow> Some (updateSettings e k m0, False)) = Some (m1, quit)"
    using upd False unfolding Update_def m0_def Let_def by simp
  show ?thesis
  proof (cases "state m0")
    case stateMainMenu
    then have "m1 = fst (updateMainMenu e k m0)" using u by (simp add: fst_def split: prod.splits)
    then show ?thesis using updateMainMenu_ready[OF r0] by simp
  next
    case stateDashboard
    then have "m1 = updateDashboard e k m0" using u by simp
    then show ?thesis using updateDashboard_ready[OF r0] by simp
  next
    case stateAccounts
    then have "m1 = updateAccounts e k m0" using u by simp
    then show ?thesis using updateAccounts_ready[OF r0] by simp
  next
    case stateAccountDetail
    then have "m1 = updateAccountDetail e k m0" using u by simp
    then show ?thesis using updateAccountDetail_ready[OF r0] by simp
  next
    case stateCreateAccount
    then have "updateAccountForm e k m0 = Some m1" using u by auto
    then show ?thesis using updateAccountForm_ready[OF r0] by simp
  next
    case stateCreateChoice
    then have "m1 = updateCreateChoice e k m0" using u by simp
    then show ?thesis using updateCreateChoice_ready[OF r0] by simp
  next
    case stateCreateNote
    then have "m1 = updateNoteWizard e k m0" using u by simp
    then show ?thesis using updateNoteWizard_ready[OF r0] by simp
  next
    case stateCreateEvent
    then have "m1 = updateEventWizard e k m0" using u by simp
    then show ?thesis using updateEventWizard_ready[OF r0] by simp
  next
    case stateSettings
    then have "m1 = updateSettings e k m0" using u by simp
    then show ?thesis using updateSettings_ready[OF r0] by simp
  next
    case stateSettingsEditName
    then have "m1 = updateSettings e k m0" using u by simp
    then show ?thesis using updateSettings_ready[OF r0] by simp
  next
    case stateSettingsEditTimezone
    then have "m1 = updateSettings e k m0" using u by simp
    then show ?thesis using updateSettings_ready[OF r0] by simp
  qed
qed

lemma newModel_ready: "inputsReady (newModel e c db)"
  by (simp add: newModel_def Let_def inputsReady_def settingsReady_def)

lemma reachable_ready: "reachable m \<Longrightarrow> inputsReady m"
proof (induction rule: reachable.induct)
  case (init e c db)
  show ?case by (rule newModel_ready)
next
  case (step m e k m1 quit)
  then show ?case using Update_ready by blast
qed


lemma TrimSpace_Nil [simp]: "TrimSpace [] = []"
  by (simp add: TrimSpace_def)

lemma ToLower_Nil [simp]: "ToLower [] = []"
  by (simp add: ToLower_def)

lemma reachable_focus:
  assumes "reachable m"
  shows "ti_focus (nw_contentInput (noteWizard m))"
    and "ti_focus (ew_titleInput (eventWizard m))"
    and "TrimSpace (ti_value (ew_scheduleInput (eventWizard m))) \<noteq> [] \<Longrightarrow>
         ti_focus (ew_scheduleInput (eventWizard m))"
    and "ToLower (TrimSpace (ti_value (nw_associateInput (noteWizard m)))) \<noteq> [] \<Longrightarrow>
         ti_focus (nw_associateInput (noteWizard m))"
    and "ToLower (TrimSpace (ti_value (ew_associateInput (eventWizard m)))) \<noteq> [] \<Longrightarrow>
         ti_focus (ew_associateInput (eventWizard m))"
    and "sm_mode (settings m) \<noteq> settingsViewing \<Longrightarrow> ti_focus (sm_input (settings m))"
  using reachable_ready[OF assms]
  by (auto simp add: inputsReady_def noteReady_def eventReady_def settingsReady_def)

section \<open>Validation errors\<close>

lemma empty_not_escape: "\<not> isExitCommand []" "\<not> isBackCommand []"
  by code_simp+

lemma reject_required_field:
  assumes "state m = stateCreateAccount"
    and "fieldAt (af_fields (accountForm m)) (af_index (accountForm m)) = Some cur"
    and "ff_required cur"
    and "TrimSpace (ti_value (af_input (accountForm m))) = []"
  shows "Update e KeyEnter m =
           Some (m\<lparr>accountForm := (accountForm m)\<lparr>af_err := ''This field is required''\<rparr>\<rparr>, False)"
  using assms
  by (simp add: Update_def updateAccountForm_def formEnter_def Let_def empty_not_escape)

lemma reject_empty_note:
  assumes "state m = stateCreateNote"
    and "nw_stage (noteWizard m) = noteStageContent"
    and "ti_focus (nw_contentInput (noteWizard m))"
    and "TrimSpace (ti_value (nw_contentInput (noteWizard m))) = []"
  shows "Update e KeyEnter m =
           Some (m\<lparr>noteWizard := (noteWizard m)\<lparr>nw_err := ''Note cannot be empty''\<rparr>\<rparr>, False)"
  using assms
  by (simp add: Update_def updateNoteWizard_def noteContentEnter_def Let_def empty_not_escape
      noteSetErr_def)

lemma reject_empty_title:
  assumes "state m = stateCreateEvent"
    and "ew_stage (eventWizard m) = eventStageTitle"
    and "ti_focus (ew_titleInput (eventWizard m))"
    and "TrimSpace (ti_value (ew_titleInput (eventWizard m))) = []"
  shows "Update e KeyEnter m =
           Some (m\<lparr>eventWizard := (eventWizard m)\<lparr>ew_err := ''Title is required''\<rparr>\<rparr>, False)"
  using assms
  by (simp add: Update_def updateEventWizard_def eventTitleEnter_def Let_def empty_not_escape
      eventSetErr_def)

lemma reject_schedule:
  assumes "state m = stateCreateEvent"
    and "ew_stage (eventWizard m) = eventStageSchedule"
    and "ti_focus (ew_scheduleInput (eventWizard m))"
    and "v = TrimSpace (ti_value (ew_scheduleInput (eventWizard m)))"
    and "v \<noteq> []" and "\<not> isExitCommand v" and "\<not> isBackCommand v"
    and "env_ParseInLocation e v (cfgLocation e (cfg m)) = None"
  shows "Update e KeyEnter m =
           Some (m\<lparr>eventWizard := (eventWizard m)\<lparr>ew_err := ''Use format YYYY-MM-DD HH:MM''\<rparr>\<rparr>,
                 False)"
  using assms
  by (simp add: Update_def updateEventWizard_def eventScheduleEnter_def Let_def eventSetErr_def)

lemma reject_note_answer:
  assumes "state m = stateCreateNote"
    and "nw_stage (noteWizard m) = noteStageAssociatePrompt"
    and "ti_focus (nw_associateInput (noteWizard m))"
    and "v = ToLower (TrimSpace (ti_value (nw_associateInput (noteWizard m))))"
    and "\<not> isExitCommand v" and "\<not> isBackCommand v"
    and "v \<noteq> ''y''" and "v \<noteq> ''yes''" and "v \<noteq> ''n''" and "v \<noteq> ''no''" and "v \<noteq> []"
  shows "Update e KeyEnter m =
           Some (m\<lparr>noteWizard :=
                    (noteWizard m)\<lparr>nw_associateInput :=
                                      SetValue [] (nw_associateInput (noteWizard m)),
                                    nw_err := ''Please answer y or n''\<rparr>\<rparr>, False)"
  using assms
  by (simp add: Update_def updateNoteWizard_def notePromptEnter_def Let_def noteSetErr_def)

lemma reject_event_answer:
  assumes "state m = stateCreateEvent"
    and "ew_stage (eventWizard m) = eventStageAssociatePrompt"
    and "ti_focus (ew_associateInput (eventWizard m))"
    and "v = ToLower (TrimSpace (ti_value (ew_associateInput (eventWizard m))))"
    and "\<not> isExitCommand v" and "\<not> isBackCommand v"
    and "v \<noteq> ''y''" and "v \<noteq> ''yes''" and "v \<noteq> ''n''" and "v \<noteq> ''no''" and "v \<noteq> []"
  shows "Update e KeyEnter m =
           Some (m\<lparr>eventWizard :=
                    (eventWizard m)\<lparr>ew_associateInput :=
                                       SetValue [] (ew_associateInput (eventWizard m)),
                                     ew_err := ''Please answer y or n''\<rparr>\<rparr>, False)"
  using assms
  by (simp add: Update_def updateEventWizard_def eventPromptEnter_def Let_def eventSetErr_def)

lemma reject_timezone:
  assumes "state m = stateSettings"
    and "sm_mode (settings m) = settingsEditingTimezone"
    and "ti_focus (sm_input (settings m))"
    and "v = TrimSpace (ti_value (sm_input (settings m)))"
    and "v \<noteq> []" and "\<not> isExitCommand v" and "\<not> isBackCommand v"
    and "\<not> env_LoadLocation e v"
  shows "Update e KeyEnter m =
           Some (m\<lparr>settings := (settings m)\<lparr>sm_err := ''Invalid timezone''\<rparr>\<rparr>, False)"
  using assms
  by (simp add: Update_def updateSettings_def settingsTimezoneEnter_def Let_def
      settingsSetErr_def)

lemma reject_empty_setting:
  assumes "state m = stateSettings"
    and "sm_mode (settings m) = settingsEditingName \<or>
         sm_mode (settings m) = settingsEditingTimezone"
    and "ti_focus (sm_input (settings m))"
    and "TrimSpace (ti_value (sm_input (settings m))) = []"
  shows "Update e KeyEnter m =
           Some (m\<lparr>settings :=
                    (settings m)\<lparr>sm_err :=
                       (if sm_mode (settings m) = settingsEditingName
                        then ''Name cannot be empty'' else ''Timezone cannot be empty'')\<rparr>\<rparr>,
                 False)"
  using assms
  by (auto simp add: Update_def updateSettings_def settingsNameEnter_def
      settingsTimezoneEnter_def Let_def settingsSetErr_def empty_not_escape)

text \<open>
  Claim C8, as stated, fails: the associate prompt empties its answer buffer before it
  looks at the answer, so after a rejected answer \<open>x\<close> the buffer is not intact.
\<close>

theorem rejected_answer_counterexample:
  "state (after answerX freshModel) = stateCreateNote \<and>
   nw_stage (noteWizard (after answerX freshModel)) = noteStageAssociatePrompt \<and>
   ti_value (nw_associateInput (noteWizard (after answerX freshModel))) = ''x'' \<and>
   run [(quietEnv, KeyEnter)] (after answerX freshModel) \<noteq> None \<and>
   nw_stage (noteWizard (after [(quietEnv, KeyEnter)] (after answerX freshModel))) =
     noteStageAssociatePrompt \<and>
   nw_err (noteWizard (after [(quietEnv, KeyEnter)] (after answerX freshModel))) =
     ''Please answer y or n'' \<and>
   ti_value (nw_associateInput
     (noteWizard (after [(quietEnv, KeyEnter)] (after answerX freshModel)))) \<noteq> ''x''"
  by code_simp

text \<open>
  Claim C8, amended. When a validator rejects the submitted input (an empty required
  form field, empty note content, an empty event title, a malformed schedule, an answer
  other than y or n, an invalid or empty time zone, an empty name), the update returns
  the model it was given with the stage's error string set and nothing else changed:
  same stage, same active view, same navigation stack, same buffers. The one exception
  is the associate prompt of the note and event wizards, which also empties its own
  answer buffer. This holds in every state that a session can reach, for an ASCII
  buffer of the stage.
\<close>

theorem rejection_is_local:
  assumes "reachable m"
  shows
  "(state m = stateCreateAccount \<and>
    fieldAt (af_fields (accountForm m)) (af_index (accountForm m)) = Some cur \<and>
    ff_required cur \<and> isASCII (ti_value (af_input (accountForm m))) \<and>
    TrimSpace (ti_value (af_input (accountForm m))) = []
    \<longrightarrow> Update e KeyEnter m =
          Some (m\<lparr>accountForm := (accountForm m)\<lparr>af_err := ''This field is required''\<rparr>\<rparr>,
                False)) \<and>
   (state m = stateCreateNote \<and> nw_stage (noteWizard m) = noteStageContent \<and>
    isASCII (ti_value (nw_contentInput (noteWizard m))) \<and>
    TrimSpace (ti_value (nw_contentInput (noteWizard m))) = []
    \<longrightarrow> Update e KeyEnter m =
          Some (m\<lparr>noteWizard := (noteWizard m)\<lparr>nw_err := ''Note cannot be empty''\<rparr>\<rparr>, False)) \<and>
   (state m = stateCreateEvent \<and> ew_stage (eventWizard m) = eventStageTitle \<and>
    isASCII (ti_value (ew_titleInput (eventWizard m))) \<and>
    TrimSpace (ti_value (ew_titleInput (eventWizard m))) = []
    \<longrightarrow> Update e KeyEnter m =
          Some (m\<lparr>eventWizard := (eventWizard m)\<lparr>ew_err := ''Title is required''\<rparr>\<rparr>, False)) \<and>
   (state m = stateCreateEvent \<and> ew_stage (eventWizard m) = eventStageSchedule \<and>
    isASCII (ti_value (ew_scheduleInput (eventWizard m))) \<and>
    vs = TrimSpace (ti_value (ew_scheduleInput (eventWizard m))) \<and>
    vs \<noteq> [] \<and> \<not> isExitCommand vs \<and> \<not> isBackCommand vs \<and>
    env_ParseInLocation e vs (cfgLocation e (cfg m)) = None
    \<longrightarrow> Update e KeyEnter m =
          Some (m\<lparr>eventWizard :=
                   (eventWizard m)\<lparr>ew_err := ''Use format YYYY-MM-DD HH:MM''\<rparr>\<rparr>, False)) \<and>
   (state m = stateCreateNote \<and> nw_stage (noteWizard m) = noteStageAssociatePrompt \<and>
    isASCII (ti_value (nw_associateInput (noteWizard m))) \<and>
    vn = ToLower (TrimSpace (ti_value (nw_associateInput (noteWizard m)))) \<and>
    \<not> isExitCommand vn \<and> \<not> isBackCommand vn \<and>
    vn \<noteq> ''y'' \<and> vn \<noteq> ''yes'' \<and> vn \<noteq> ''n'' \<and> vn \<noteq> ''no'' \<and> vn \<noteq> []
    \<longrightarrow> Update e KeyEnter m =
          Some (m\<lparr>noteWizard :=
                   (noteWizard m)\<lparr>nw_associateInput :=
                                     SetValue [] (nw_associateInput (noteWizard m)),
                                   nw_err := ''Please answer y or n''\<rparr>\<rparr>, False)) \<and>
   (state m = stateCreateEvent \<and> ew_stage (eventWizard m) = eventStageAssociatePrompt \<and>
    isASCII (ti_value (ew_associateInput (eventWizard m))) \<and>
    ve = ToLower (TrimSpace (ti_value (ew_associateInput (eventWizard m)))) \<and>
    \<not> isExitCommand ve \<and> \<not> isBackCommand ve \<and>
    ve \<noteq> ''y'' \<and> ve \<noteq> ''yes'' \<and> ve \<noteq> ''n'' \<and> ve \<noteq> ''no'' \<and> ve \<noteq> []
    \<longrightarrow> Update e KeyEnter m =
          Some (m\<lparr>eventWizard :=
                   (eventWizard m)\<lparr>ew_associateInput :=
                                      SetValue [] (ew_associateInput (eventWizard m)),
                                    ew_err := ''Please answer y or n''\<rparr>\<rparr>, False)) \<and>
   (state m = stateSettings \<and> sm_mode (settings m) = settingsEditingTimezone \<and>
    isASCII (ti_value (sm_input (settings m))) \<and>
    vt = TrimSpace (ti_value (sm_input (settings m))) \<and>
    vt \<noteq> [] \<and> \<not> isExitCommand vt \<and> \<not> isBackCommand vt \<and> \<not> env_LoadLocation e vt
    \<longrightarrow> Update e KeyEnter m =
          Some (m\<lparr>settings := (settings m)\<lparr>sm_err := ''Invalid timezone''\<rparr>\<rparr>, False)) \<and>
   (state m = stateSettings \<and>
    (sm_mode (settings m) = settingsEditingName \<or>
     sm_mode (settings m) = settingsEditingTimezone) \<and>
    isASCII (ti_value (sm_input (settings m))) \<and>
    TrimSpace (ti_value (sm_input (settings m))) = []
    \<longrightarrow> Update e KeyEnter m =
          Some (m\<lparr>settings :=
                   (settings m)\<lparr>sm_err :=
                      (if sm_mode (settings m) = settingsEditingName
                       then ''Name cannot be empty'' else ''Timezone cannot be empty'')\<rparr>\<rparr>,
                False))"
proof (intro conjI impI, goal_cases)
  case 1
  then show ?case by (elim conjE) (rule reject_required_field)
next
  case 2
  then show ?case using reachable_focus(1)[OF assms] by (elim conjE) (rule reject_empty_note)
next
  case 3
  then show ?case using reachable_focus(2)[OF assms] by (elim conjE) (rule reject_empty_title)
next
  case 4
  then have "ti_focus (ew_scheduleInput (eventWizard m))"
    by (intro reachable_focus(3)[OF assms]) auto
  with 4 show ?case by (elim conjE) (rule reject_schedule)
next
  case 5
  then have "ti_focus (nw_associateInput (noteWizard m))"
    by (intro reachable_focus(4)[OF assms]) auto
  with 5 show ?case by (elim conjE) (rule reject_note_answer)
next
  case 6
  then have "ti_focus (ew_associateInput (eventWizard m))"
    by (intro reachable_focus(5)[OF assms]) auto
  with 6 show ?case by (elim conjE) (rule reject_event_answer)
next
  case 7
  then have "ti_focus (sm_input (settings m))"
    by (intro reachable_focus(6)[OF assms]) auto
  with 7 show ?case by (elim conjE) (rule reject_timezone)
next
  case 8
  then have "ti_focus (sm_input (settings m))"
    by (intro reachable_focus(6)[OF assms]) auto
  with 8 show ?case by (elim conjE) (rule reject_empty_setting)
qed

lemma answerX_state:
  "state (after answerX freshModel) = stateCreateNote"
  "nw_stage (noteWizard (after answerX freshModel)) = noteStageAssociatePrompt"
  "ti_focus (nw_associateInput (noteWizard (after answerX freshModel)))"
  "''x'' = ToLower (TrimSpace (ti_value (nw_associateInput (noteWizard (after answerX freshModel)))))"
  by code_simp+

lemma x_is_no_answer:
  "\<not> isExitCommand ''x''" "\<not> isBackCommand ''x''"
  by code_simp+

lemma answerX_ascii:
  "isASCII (ti_value (nw_associateInput (noteWizard (after answerX freshModel))))"
  by code_simp

theorem rejection_is_local_witness:
  "Update quietEnv KeyEnter (after answerX freshModel) =
     Some ((after answerX freshModel)\<lparr>noteWizard :=
              (noteWizard (after answerX freshModel))\<lparr>nw_associateInput :=
                 SetValue [] (nw_associateInput (noteWizard (after answerX freshModel))),
                 nw_err := ''Please answer y or n''\<rparr>\<rparr>, False)"
proof -
  note r = rejection_is_local[OF after_reachable[OF freshModel_reachable],
      of answerX _ quietEnv _ "''x''",
      THEN conjunct2, THEN conjunct2, THEN conjunct2, THEN conjunct2, THEN conjunct1]
  show ?thesis
    by (rule r[THEN mp])
      (simp add: answerX_state(4)[symmetric] x_is_no_answer answerX_state(1,2) answerX_ascii)
qed

section \<open>Reachable states: a witness\<close>

lemma detail_reached:
  "state (after toAccountDetail acmeModel) = stateAccountDetail"
  "prevStates (after toAccountDetail acmeModel) = [stateMainMenu, stateAccounts]"
  by code_simp+

theorem active_view_not_in_stack_witness:
  "state (after toAccountDetail acmeModel) = stateAccountDetail \<and>
   prevStates (after toAccountDetail acmeModel) = [stateMainMenu, stateAccounts] \<and>
   state (after toAccountDetail acmeModel) \<notin> set (prevStates (after toAccountDetail acmeModel))"
  using active_view_not_in_stack[OF after_reachable[OF acmeModel_reachable], of toAccountDetail]
    detail_reached
  by (intro conjI)

section \<open>The exit token on the other views\<close>

text \<open>
  On the account list, in the account form, at every stage of the note and event wizards,
  on the dashboard, on the create-choice view and in the settings, an Enter on an input
  that holds the exit token clears the navigation stack and activates the main menu. The
  test comes first in each handler, before any validation of the stage.
\<close>

lemma isSpace_lowerChar: "isSpace (lowerChar c) = isSpace c"
  by (auto simp add: isSpace_def lowerChar_def Let_def)

lemma lowerChar_idem: "lowerChar (lowerChar c) = lowerChar c"
  by (auto simp add: lowerChar_def Let_def)

lemma ToLower_idem: "ToLower (ToLower s) = ToLower s"
  by (simp add: ToLower_def lowerChar_idem)

lemma ToLower_dropWhile: "ToLower (dropWhile isSpace s) = dropWhile isSpace (ToLower s)"
  by (simp add: ToLower_def dropWhile_map comp_def isSpace_lowerChar)

lemma ToLower_TrimSpace: "ToLower (TrimSpace s) = TrimSpace (ToLower s)"
proof -
  have r: "\<And>t. ToLower (rev t) = rev (ToLower t)" by (simp add: ToLower_def rev_map)
  show ?thesis by (simp add: TrimSpace_def r ToLower_dropWhile)
qed

lemma isExitCommand_TrimSpace: "isExitCommand (TrimSpace x) = isExitCommand x"
  by (simp add: isExitCommand_def Let_def ToLower_TrimSpace TrimSpace_idem)

lemma isExitCommand_ToLower: "isExitCommand (ToLower x) = isExitCommand x"
  by (simp add: isExitCommand_def Let_def ToLower_idem)

lemma isExitCommand_menu:
  "isExitCommand x \<Longrightarrow> TrimSpace (ToLower x) = ''exit.'' \<or> TrimSpace (ToLower x) = ''quit''"
  by (simp add: isExitCommand_def Let_def)

lemma exit_from_accounts:
  assumes "state m = stateAccounts" and "isExitCommand (ti_value (accountFilter m))"
  shows "\<exists>m1. Update e KeyEnter m = Some (m1, False) \<and>
           state m1 = stateMainMenu \<and> prevStates m1 = []"
  using assms
  by (simp add: Update_def updateAccounts_def accountsEnter_def Let_def isExitCommand_TrimSpace)

lemma exit_from_form:
  assumes "state m = stateCreateAccount"
    and "isExitCommand (ti_value (af_input (accountForm m)))"
  shows "\<exists>m1. Update e KeyEnter m = Some (m1, False) \<and>
           state m1 = stateMainMenu \<and> prevStates m1 = []"
  using assms
  by (simp add: Update_def updateAccountForm_def formEnter_def Let_def isExitCommand_TrimSpace)

lemma exit_from_note_wizard:
  assumes "state m = stateCreateNote"
    and "isExitCommand (ti_value
           (case nw_stage (noteWizard m) of
              noteStageContent \<Rightarrow> nw_contentInput (noteWizard m)
            | noteStageAssociatePrompt \<Rightarrow> nw_associateInput (noteWizard m)
            | noteStageAssociateChoose \<Rightarrow> nw_accountInput (noteWizard m)))"
  shows "\<exists>m1. Update e KeyEnter m = Some (m1, False) \<and>
           state m1 = stateMainMenu \<and> prevStates m1 = []"
  using assms
  by (cases "nw_stage (noteWizard m)")
     (simp_all add: Update_def updateNoteWizard_def noteContentEnter_def notePromptEnter_def
        noteChooseEnter_def Let_def isExitCommand_TrimSpace isExitCommand_ToLower
        ensureFocus_def Focus_def)

lemma exit_from_event_wizard:
  assumes "state m = stateCreateEvent"
    and "isExitCommand (ti_value
           (case ew_stage (eventWizard m) of
              eventStageTitle \<Rightarrow> ew_titleInput (eventWizard m)
            | eventStageDetails \<Rightarrow> ew_detailsInput (eventWizard m)
            | eventStageSchedule \<Rightarrow> ew_scheduleInput (eventWizard m)
            | eventStageAssociatePrompt \<Rightarrow> ew_associateInput (eventWizard m)
            | eventStageAssociateChoose \<Rightarrow> ew_accountInput (eventWizard m)))"
  shows "\<exists>m1. Update e KeyEnter m = Some (m1, False) \<and>
           state m1 = stateMainMenu \<and> prevStates m1 = []"
  using assms
  by (cases "ew_stage (eventWizard m)")
     (simp_all add: Update_def updateEventWizard_def eventTitleEnter_def eventDetailsEnter_def
        eventScheduleEnter_def eventPromptEnter_def eventChooseEnter_def Let_def
        isExitCommand_TrimSpace isExitCommand_ToLower ensureFocus_def Focus_def)

lemma exit_from_settings_edit:
  assumes "state m = stateSettings" and "sm_mode (settings m) \<noteq> settingsViewing"
    and "isExitCommand (ti_value (sm_input (settings m)))"
  shows "\<exists>m1. Update e KeyEnter m = Some (m1, False) \<and>
           state m1 = stateMainMenu \<and> prevStates m1 = []"
  using assms
  by (cases "sm_mode (settings m)")
     (simp_all add: Update_def updateSettings_def settingsNameEnter_def
        settingsTimezoneEnter_def Let_def isExitCommand_TrimSpace ensureFocus_def Focus_def)

lemma value_ensureMenuInput:
  assumes "TrimSpace (ti_Placeholder (menuInput m)) = p" and "ti_CharLimit (menuInput m) = l"
  shows "ti_value (menuInput (ensureMenuInput p l m)) = ti_value (menuInput m)"
  using assms by (simp add: ensureMenuInput_def Focus_def)

lemma exit_from_settings:
  assumes "state m = stateSettings" and "sm_mode (settings m) = settingsViewing"
    and "TrimSpace (ti_Placeholder (menuInput m)) = ''1=Name  2=Timezone  3=Back''"
    and "ti_CharLimit (menuInput m) = 40"
    and "isExitCommand (ti_value (menuInput m))"
  shows "\<exists>m1. Update e KeyEnter m = Some (m1, False) \<and>
           state m1 = stateMainMenu \<and> prevStates m1 = []"
proof -
  have v: "ti_value (menuInput (ensureMenuInput ''1=Name  2=Timezone  3=Back'' 40 m)) =
           ti_value (menuInput m)"
    using assms(3,4) by (rule value_ensureMenuInput)
  from isExitCommand_menu[OF assms(5)] show ?thesis
    using assms(1,2) v
    by (auto simp add: Update_def updateSettings_def settingsViewingEnter_def Let_def)
qed

lemma exit_from_dashboard:
  assumes "state m = stateDashboard"
    and "TrimSpace (ti_Placeholder (menuInput m)) = ''Command (t=toggle, r=refresh, /, exit.)''"
    and "ti_CharLimit (menuInput m) = 48"
    and "isExitCommand (ti_value (menuInput m))"
  shows "\<exists>m1. Update e KeyEnter m = Some (m1, False) \<and>
           state m1 = stateMainMenu \<and> prevStates m1 = []"
proof -
  have v: "ti_value (menuInput (ensureMenuInput ''Command (t=toggle, r=refresh, /, exit.)'' 48 m)) =
           ti_value (menuInput m)"
    using assms(2,3) by (rule value_ensureMenuInput)
  from isExitCommand_menu[OF assms(4)] show ?thesis
    using assms(1) v
    by (auto simp add: Update_def updateDashboard_def Let_def)
qed

lemma exit_from_choice:
  assumes "state m = stateCreateChoice"
    and "TrimSpace (ti_Placeholder (menuInput m)) = ''1=Note  2=Event  3=Back''"
    and "ti_CharLimit (menuInput m) = 32"
    and "isExitCommand (ti_value (menuInput m))"
  shows "\<exists>m1. Update e KeyEnter m = Some (m1, False) \<and>
           state m1 = stateMainMenu \<and> prevStates m1 = []"
proof -
  have v: "ti_value (menuInput (ensureMenuInput ''1=Note  2=Event  3=Back'' 32 m)) =
           ti_value (menuInput m)"
    using assms(2,3) by (rule value_ensureMenuInput)
  from isExitCommand_menu[OF assms(4)] show ?thesis
    using assms(1) v
    by (auto simp add: Update_def updateCreateChoice_def Let_def)
qed

section \<open>The exit token on the account-detail view\<close>

text \<open>
  Claim C6 on the code. On the account-detail view, opened from the account list, the
  exit token \<open>exit.\<close> is a synonym of the Back action: it pops one view (the session
  is at the account list, with the main menu still on the stack) instead of clearing the
  stack and activating the main menu. Its synonym \<open>quit\<close> is no command there at all.
\<close>

theorem exit_on_account_detail:
  "run toAccountDetail acmeModel \<noteq> None \<and>
   state (after toAccountDetail acmeModel) = stateAccountDetail \<and>
   prevStates (after toAccountDetail acmeModel) = [stateMainMenu, stateAccounts] \<and>
   isExitCommand ''exit.'' \<and>
   run (typed acmeEnv ''exit.'') (after toAccountDetail acmeModel) \<noteq> None \<and>
   state (after (typed acmeEnv ''exit.'') (after toAccountDetail acmeModel)) = stateAccounts \<and>
   prevStates (after (typed acmeEnv ''exit.'') (after toAccountDetail acmeModel)) =
     [stateMainMenu] \<and>
   isExitCommand ''quit'' \<and>
   state (after (typed acmeEnv ''quit'') (after toAccountDetail acmeModel)) =
     stateAccountDetail \<and>
   prevStates (after (typed acmeEnv ''quit'') (after toAccountDetail acmeModel)) =
     [stateMainMenu, stateAccounts] \<and>
   ad_err (accountDetail (after (typed acmeEnv ''quit'') (after toAccountDetail acmeModel))) =
     ''Unknown choice''"
  by code_simp

section \<open>A duplicate name in the account form\<close>

text \<open>
  Claim C4 on the code. Creating an account named \<open>Acme\<close> while the database reports a
  uniqueness violation: the form stays open, the error is set and the cursor is back on
  the name field, but the input is empty; the name typed is kept in the field only. The
  same failure while editing an account leaves the name in the input.
\<close>

theorem duplicate_name_on_create:
  "run addAcmeAgain freshModel \<noteq> None \<and>
   state (after addAcmeAgain freshModel) = stateCreateAccount \<and>
   prevStates (after addAcmeAgain freshModel) = [stateMainMenu] \<and>
   \<not> af_editing (accountForm (after addAcmeAgain freshModel)) \<and>
   af_err (accountForm (after addAcmeAgain freshModel)) =
     ''An account with that name already exists'' \<and>
   af_index (accountForm (after addAcmeAgain freshModel)) = 0 \<and>
   map ff_value (af_fields (accountForm (after addAcmeAgain freshModel))) =
     [''Acme'', ''555 0100'', [], [], ''Ann''] \<and>
   ti_value (af_input (accountForm (after addAcmeAgain freshModel))) = [] \<and>
   run renameToAcmeCorp (after toAccountDetail acmeModel) \<noteq> None \<and>
   af_editing (accountForm (after renameToAcmeCorp (after toAccountDetail acmeModel))) \<and>
   af_index (accountForm (after renameToAcmeCorp (after toAccountDetail acmeModel))) = 0 \<and>
   ti_value (af_input (accountForm (after renameToAcmeCorp (after toAccountDetail acmeModel))))
     = ''Acme Corp''"
  by code_simp

end
